theory Spec2Isabelle
  imports Main "HOL-Library.Char_ord" "HOL-Library.List_Lexorder" "HOL-Library.Option_ord"
begin

section \<open>Values and documents\<close>

text \<open>
  A Person document as the schema of \<^verbatim>\<open>personModel.js\<close> types it: \<open>_id\<close> (an ObjectId,
  here a natural number), \<open>name\<close>, \<open>age\<close> and \<open>favoriteFoods\<close>. A path that is not set is
  \<open>None\<close>; an array path is always present on a document. The record is the view after
  the mapper's casting, so a name is a string, an age a number (an integer here: the
  script only stores and prints ages) and the foods a list of strings.
\<close>

record person =
  doc_id :: nat
  name :: "string option"
  age :: "int option"
  favoriteFoods :: "string list"

text \<open>The object literal handed to the model's constructor; every key may be absent.\<close>

record person_input =
  in_name :: "string option"
  in_age :: "int option"
  in_favoriteFoods :: "string list option"

text \<open>
  The JavaScript values that flow through callbacks, promises and the console:
  \<open>undefined\<close>, \<open>null\<close>, numbers, strings, arrays of strings, \<open>Error\<close> objects (with their
  message), a document, an array of documents, and the result object of \<open>deleteMany\<close>
  (with its \<open>deletedCount\<close>).
\<close>

datatype jsval =
    Undefined
  | Null
  | Num int
  | Str string
  | Strs "string list"
  | Err string
  | Doc person
  | Docs "person list"
  | DeleteResult nat

text \<open>The test \<^verbatim>\<open>if (v)\<close>: \<open>undefined\<close>, \<open>null\<close>, \<open>0\<close> and the empty string are falsy.\<close>

fun truthy :: "jsval \<Rightarrow> bool" where
  "truthy Undefined = False"
| "truthy Null = False"
| "truthy (Num n) = (n \<noteq> 0)"
| "truthy (Str s) = (s \<noteq> [])"
| "truthy _ = True"

text \<open>
  A promise is pending, fulfilled with a value or rejected with a reason. A synchronous
  call returns a value or throws.
\<close>

datatype promise = Pending | Fulfilled jsval | Rejected jsval

datatype completion = Return jsval | Throw jsval

section \<open>The schema and the model (personModel.js)\<close>

datatype schema_type = String_t | Number_t | Array_of schema_type

record path_options =
  path_type :: schema_type
  required :: bool
  default_value :: "jsval option"

type_synonym schema = "(string \<times> path_options) list"

definition personSchema :: schema where
  "personSchema =
     [(''name'', \<lparr>path_type = String_t, required = True, default_value = None\<rparr>),
      (''age'', \<lparr>path_type = Number_t, required = False, default_value = None\<rparr>),
      (''favoriteFoods'',
         \<lparr>path_type = Array_of String_t, required = False, default_value = Some (Strs [])\<rparr>)]"

record model =
  model_name :: string
  model_schema :: schema

text \<open>\<^verbatim>\<open>module.exports = mongoose.model('Person', personSchema)\<close>\<close>

definition Person :: model where
  "Person = \<lparr>model_name = ''Person'', model_schema = personSchema\<rparr>"

section \<open>peopleData.js\<close>

definition peopleData :: "person_input list" where
  "peopleData =
     [\<lparr>in_name = Some ''John'', in_age = Some 25, in_favoriteFoods = Some [''pizza'', ''burritos'']\<rparr>,
      \<lparr>in_name = Some ''Mary'', in_age = Some 30, in_favoriteFoods = Some [''salad'', ''burritos'']\<rparr>,
      \<lparr>in_name = Some ''Mary'', in_age = Some 22, in_favoriteFoods = Some [''pasta'']\<rparr>,
      \<lparr>in_name = Some ''Peter'', in_age = Some 28, in_favoriteFoods = Some [''burritos'', ''burger'']\<rparr>,
      \<lparr>in_name = Some ''Alice'', in_age = Some 35, in_favoriteFoods = Some [''sushi'']\<rparr>]"


section \<open>The world the script runs in\<close>

text \<open>
  Query conditions, updates and query helpers, as far as the script uses them:
  \<^verbatim>\<open>{ name: x }\<close>, \<^verbatim>\<open>{ favoriteFoods: x }\<close> (an array path matches when it contains \<open>x\<close>),
  \<^verbatim>\<open>{ _id: x }\<close>; the update \<^verbatim>\<open>{ age: n }\<close>; \<^verbatim>\<open>.sort({ name: 1 })\<close>; \<^verbatim>\<open>.select('-age')\<close>.
\<close>

datatype condition = Name_is string | Food_is string | Id_is nat

datatype update = Set_age int

datatype sort_arg = Name_ascending

datatype select_arg = Minus_age

record query =
  q_model :: string
  q_conditions :: condition
  q_sort :: "sort_arg option"
  q_limit :: "nat option"
  q_select :: "select_arg option"

text \<open>
  Everything observable is recorded, in order, in one trace: each call of a method of
  the mapper or the driver, at the moment the script makes it (\<open>Called\<close>); each answer to
  such a call, at the moment the event loop delivers it, with its outcome (\<open>None\<close> when
  it fulfilled, the error message when it rejected); each console line; and each
  invocation of a recording callback.
\<close>

datatype model_op =
    Save person
  | Create "person_input list"
  | Exec query
  | FindOne condition
  | FindOneAndUpdate condition update bool
  | FindOneAndRemove condition
  | DeleteMany condition

datatype lib_call =
    On_model string model_op
  | Connect string
  | Close
  | Server_create
  | Server_stop

datatype event =
    Called lib_call
  | Answered lib_call "string option"
  | Console_log "jsval list"
  | Console_error "jsval list"
  | Invoked jsval jsval

text \<open>
  The world: the persons collection in insertion order; the outcomes scripted for the
  coming round trips to the database (\<open>Some msg\<close>: the next one rejects with an \<open>Error\<close> of
  that message; \<open>None\<close>, or none left: it succeeds); the promises made by
  \<^verbatim>\<open>new Promise\<close>; the trace; whether the connection is open and whether the in-memory
  server runs.
\<close>

record world =
  collection :: "person list"
  faults :: "string option list"
  cells :: "promise list"
  trace :: "event list"
  connected :: bool
  server_up :: bool

type_synonym callback = "jsval \<Rightarrow> jsval \<Rightarrow> world \<Rightarrow> completion \<times> world"

definition emit :: "event \<Rightarrow> world \<Rightarrow> world" where
  "emit e w = w\<lparr>trace := trace w @ [e]\<rparr>"

section \<open>Promises\<close>

text \<open>
  A promise that waits for an answer is given as what settles it: the function that,
  once the event loop delivers the answer, takes the world of that moment to the
  settled promise and the world after. Nothing of it has happened while the script
  that made the promise is still running.
\<close>

type_synonym deferred = "world \<Rightarrow> promise \<times> world"

type_synonym handler = "jsval \<Rightarrow> world \<Rightarrow> promise \<times> world"

text \<open>
  \<^verbatim>\<open>p.then(h)\<close> and \<^verbatim>\<open>p.catch(h)\<close> return, at once, a new promise that waits for \<open>p\<close>: the
  handler runs when \<open>p\<close> has been settled, in the same turn of the event loop. A
  handler's run is given as the promise it settles: fulfilled with the value it
  returns, rejected with what it throws, or the promise it returns.
\<close>

definition then_p :: "deferred \<Rightarrow> handler \<Rightarrow> deferred" where
  "then_p p h w =
     (case p w of
        (Fulfilled v, w1) \<Rightarrow> h v w1
      | (Rejected e, w1) \<Rightarrow> (Rejected e, w1)
      | (Pending, w1) \<Rightarrow> (Pending, w1))"

definition catch_p :: "deferred \<Rightarrow> handler \<Rightarrow> deferred" where
  "catch_p p h w =
     (case p w of
        (Rejected e, w1) \<Rightarrow> h e w1
      | (Fulfilled v, w1) \<Rightarrow> (Fulfilled v, w1)
      | (Pending, w1) \<Rightarrow> (Pending, w1))"

text \<open>The promise settled by a handler that ends with the given completion.\<close>

fun settled :: "completion \<times> world \<Rightarrow> promise \<times> world" where
  "settled (Return v, w) = (Fulfilled v, w)"
| "settled (Throw e, w) = (Rejected e, w)"

text \<open>
  A method call that is answered with nothing happening in between: the call is made
  and the promise it returns is settled in the world the call leaves.
\<close>

definition answered :: "(world \<Rightarrow> deferred \<times> world) \<Rightarrow> deferred" where
  "answered call w = (let (p, w1) = call w in p w1)"

text \<open>
  \<^verbatim>\<open>resolve\<close> and \<^verbatim>\<open>reject\<close> of the promise in cell \<open>k\<close>: only the first of them to be called
  settles the promise; both return \<open>undefined\<close>.
\<close>

definition settle :: "nat \<Rightarrow> promise \<Rightarrow> world \<Rightarrow> world" where
  "settle k p w =
     (if k < length (cells w) \<and> cells w ! k = Pending then w\<lparr>cells := (cells w)[k := p]\<rparr> else w)"

definition resolve :: "nat \<Rightarrow> jsval \<Rightarrow> world \<Rightarrow> world" where
  "resolve k v w = settle k (Fulfilled v) w"

definition reject :: "nat \<Rightarrow> jsval \<Rightarrow> world \<Rightarrow> world" where
  "reject k e w = settle k (Rejected e) w"

text \<open>The state of promise \<open>k\<close>.\<close>

definition state_of :: "nat \<Rightarrow> world \<Rightarrow> promise" where
  "state_of k w = (if k < length (cells w) then cells w ! k else Pending)"

section \<open>The event loop\<close>

text \<open>
  All code of the script runs on one thread. While a function runs, the promise chains
  it has built wait in a queue, each as one job: the delivery of the answer its chain
  starts from, followed by the handlers chained on it. The jobs run, oldest first,
  only when the running function gives way, at an \<^verbatim>\<open>await\<close> or at its end.
\<close>

type_synonym job = "world \<Rightarrow> world"

record runtime =
  state :: world
  queue :: "job list"

text \<open>The script at rest in a world, nothing waiting.\<close>

definition idle :: "world \<Rightarrow> runtime" where
  "idle w = \<lparr>state = w, queue = []\<rparr>"

text \<open>A synchronous step, such as a method call, made by the running function.\<close>

definition in_world :: "(world \<Rightarrow> 'a \<times> world) \<Rightarrow> runtime \<Rightarrow> 'a \<times> runtime" where
  "in_world f r = (let (x, w) = f (state r) in (x, r\<lparr>state := w\<rparr>))"

text \<open>A chain that the running function builds and lets go of is left to the loop.\<close>

definition pend :: "deferred \<Rightarrow> runtime \<Rightarrow> runtime" where
  "pend p r = r\<lparr>queue := queue r @ [\<lambda>w. snd (p w)]\<rparr>"

text \<open>The world once every waiting job has run.\<close>

definition drained :: "runtime \<Rightarrow> world" where
  "drained r = fold (\<lambda>j w. j w) (queue r) (state r)"

text \<open>
  What a call of \<open>f\<close> comes to: \<open>f\<close> is called in \<open>w\<close> with nothing waiting and returns,
  and the loop runs what \<open>f\<close> has left to it.
\<close>

definition finished :: "(runtime \<Rightarrow> 'a \<times> runtime) \<Rightarrow> world \<Rightarrow> 'a \<times> world" where
  "finished f w = (let (x, r) = f (idle w) in (x, drained r))"

text \<open>
  \<^verbatim>\<open>await\<close> on the promise in cell \<open>k\<close>: the function gives way and the loop runs the
  waiting jobs, oldest first, until the promise is settled; the jobs behind stay
  queued. \<open>awaited\<close> gives the promise as the \<^verbatim>\<open>await\<close> finds it in the end: still pending
  when the queue has run dry without settling it.
\<close>

fun run_until :: "nat \<Rightarrow> job list \<Rightarrow> world \<Rightarrow> runtime" where
  "run_until k [] w = \<lparr>state = w, queue = []\<rparr>"
| "run_until k (j # js) w =
     (if state_of k w = Pending then run_until k js (j w) else \<lparr>state = w, queue = j # js\<rparr>)"

definition awaited :: "nat \<times> runtime \<Rightarrow> promise \<times> runtime" where
  "awaited kr =
     (let r = run_until (fst kr) (queue (snd kr)) (state (snd kr))
      in (state_of (fst kr) (state r), r))"

text \<open>
  \<^verbatim>\<open>await\<close> on a promise of the mapper: the jobs queued before run first, then the answer
  is delivered.
\<close>

definition await_p :: "deferred \<times> runtime \<Rightarrow> promise \<times> runtime" where
  "await_p pr = (let (s, w) = fst pr (drained (snd pr)) in (s, idle w))"

text \<open>
  \<^verbatim>\<open>const x = await p; ...\<close> inside an async function: the rest runs with the value when
  \<open>p\<close> is fulfilled; when it is rejected the function's own promise is rejected with the
  same reason; while it is pending nothing more happens.
\<close>

definition resume ::
  "promise \<times> runtime \<Rightarrow> (jsval \<Rightarrow> runtime \<Rightarrow> promise \<times> runtime) \<Rightarrow> promise \<times> runtime" where
  "resume sr rest =
     (case fst sr of
        Fulfilled v \<Rightarrow> rest v (snd sr)
      | Rejected e \<Rightarrow> (Rejected e, snd sr)
      | Pending \<Rightarrow> (Pending, snd sr))"

definition awaiting ::
  "nat \<times> runtime \<Rightarrow> (jsval \<Rightarrow> runtime \<Rightarrow> promise \<times> runtime) \<Rightarrow> promise \<times> runtime" where
  "awaiting kr rest = resume (awaited kr) rest"

definition console_log :: "jsval list \<Rightarrow> runtime \<Rightarrow> runtime" where
  "console_log args r = r\<lparr>state := emit (Console_log args) (state r)\<rparr>"

definition console_error :: "jsval list \<Rightarrow> runtime \<Rightarrow> runtime" where
  "console_error args r = r\<lparr>state := emit (Console_error args) (state r)\<rparr>"

section \<open>The object-document mapper\<close>

text \<open>
  The mapper and the database are not part of the repository; the script only calls
  them. They are modelled by their documented behaviour on the collection, one function
  per method the script calls. Every method that goes to the database is a round trip.
  The call is recorded and returns a promise at once. The answer comes later: it takes
  the next scripted outcome, is recorded, and either rejects with that error, changing
  nothing, or runs on the collection as it is then and fulfils.
\<close>

definition round_trip :: "lib_call \<Rightarrow> (world \<Rightarrow> jsval \<times> world) \<Rightarrow> world \<Rightarrow> deferred \<times> world" where
  "round_trip c body w =
     (\<lambda>w'. let outcome = (case faults w' of [] \<Rightarrow> None | f # _ \<Rightarrow> f);
                w1 = emit (Answered c outcome) (w'\<lparr>faults := tl (faults w')\<rparr>)
            in case outcome of
                 Some msg \<Rightarrow> (Rejected (Err msg), w1)
               | None \<Rightarrow> (let (v, w2) = body w1 in (Fulfilled v, w2)),
      emit (Called c) w)"

subsection \<open>Documents: construction, validation, save\<close>

text \<open>A new document gets an ObjectId that no document of the collection has.\<close>

definition fresh_id :: "person list \<Rightarrow> nat" where
  "fresh_id ds = Suc (fold max (map doc_id ds) 0)"

definition default_of :: "schema \<Rightarrow> string \<Rightarrow> jsval option" where
  "default_of sch path = (case map_of sch path of None \<Rightarrow> None | Some opts \<Rightarrow> default_value opts)"

text \<open>
  \<^verbatim>\<open>new Model(obj)\<close>: the keys given are taken, the others get the default their path
  declares; an array path without a default is the empty array.
\<close>

definition new_doc :: "model \<Rightarrow> person_input \<Rightarrow> world \<Rightarrow> person" where
  "new_doc m inp w =
     \<lparr>doc_id = fresh_id (collection w),
      name = (case in_name inp of
                Some s \<Rightarrow> Some s
              | None \<Rightarrow> (case default_of (model_schema m) ''name'' of Some (Str s) \<Rightarrow> Some s | _ \<Rightarrow> None)),
      age = (case in_age inp of
               Some n \<Rightarrow> Some n
             | None \<Rightarrow> (case default_of (model_schema m) ''age'' of Some (Num n) \<Rightarrow> Some n | _ \<Rightarrow> None)),
      favoriteFoods = (case in_favoriteFoods inp of
                         Some fs \<Rightarrow> fs
                       | None \<Rightarrow> (case default_of (model_schema m) ''favoriteFoods'' of
                                    Some (Strs fs) \<Rightarrow> fs | _ \<Rightarrow> []))\<rparr>"

text \<open>
  The \<open>required\<close> validator: a string path fails it when unset or empty, a number path when
  unset; an array is always there.
\<close>

definition path_unset :: "string \<Rightarrow> person \<Rightarrow> bool" where
  "path_unset p d =
     (if p = ''name'' then (case name d of None \<Rightarrow> True | Some s \<Rightarrow> s = [])
      else if p = ''age'' then age d = None
      else False)"

definition validate :: "model \<Rightarrow> person \<Rightarrow> string option" where
  "validate m d =
     (case filter (\<lambda>(p, opts). required opts \<and> path_unset p d) (model_schema m) of
        [] \<Rightarrow> None
      | (p, _) # _ \<Rightarrow> Some (model_name m @ '' validation failed: '' @ p @ '': Path '' @ p @ '' is required.''))"

text \<open>
  Writing a document: one whose \<open>_id\<close> is in the collection was loaded from it and is
  updated in place; a new one is inserted at the end.
\<close>

fun store :: "person \<Rightarrow> person list \<Rightarrow> person list" where
  "store d [] = [d]"
| "store d (x # xs) = (if doc_id x = doc_id d then d # xs else x # store d xs)"

text \<open>
  \<^verbatim>\<open>doc.save()\<close> validates first; an invalid document is rejected, when the promise is
  settled, without anything having been sent.
\<close>

definition Document_save :: "model \<Rightarrow> person \<Rightarrow> world \<Rightarrow> deferred \<times> world" where
  "Document_save m d w =
     (case validate m d of
        Some msg \<Rightarrow>
          (\<lambda>w'. (Rejected (Err msg), emit (Answered (On_model (model_name m) (Save d)) (Some msg)) w'),
           emit (Called (On_model (model_name m) (Save d))) w)
      | None \<Rightarrow>
          round_trip (On_model (model_name m) (Save d))
            (\<lambda>w'. (Doc d, w'\<lparr>collection := store d (collection w')\<rparr>)) w)"

text \<open>
  \<^verbatim>\<open>Model.create(docs)\<close> is \<^verbatim>\<open>new Model(doc).save()\<close> for every element, one after the
  other; it rejects with the first error and fulfils with the saved documents
  otherwise. A failed element does not undo the others.
\<close>

fun save_each :: "model \<Rightarrow> person_input list \<Rightarrow> world \<Rightarrow> promise list \<times> world" where
  "save_each m [] w = ([], w)"
| "save_each m (inp # inps) w =
     (let (p, w1) = answered (Document_save m (new_doc m inp w)) w;
          (ps, w2) = save_each m inps w1
      in (p # ps, w2))"

fun rejections :: "promise list \<Rightarrow> jsval list" where
  "rejections [] = []"
| "rejections (Rejected e # ps) = e # rejections ps"
| "rejections (_ # ps) = rejections ps"

fun saved_docs :: "promise list \<Rightarrow> person list" where
  "saved_docs [] = []"
| "saved_docs (Fulfilled (Doc d) # ps) = d # saved_docs ps"
| "saved_docs (_ # ps) = saved_docs ps"

definition Model_create :: "model \<Rightarrow> person_input list \<Rightarrow> world \<Rightarrow> deferred \<times> world" where
  "Model_create m inps w =
     (\<lambda>w'. let (ps, w1) = save_each m inps w'
            in (case rejections ps of [] \<Rightarrow> Fulfilled (Docs (saved_docs ps)) | e # _ \<Rightarrow> Rejected e, w1),
      emit (Called (On_model (model_name m) (Create inps))) w)"

subsection \<open>Queries\<close>

fun matches :: "condition \<Rightarrow> person \<Rightarrow> bool" where
  "matches (Name_is n) d = (name d = Some n)"
| "matches (Food_is f) d = (f \<in> set (favoriteFoods d))"
| "matches (Id_is i) d = (doc_id d = i)"

fun apply_update :: "update \<Rightarrow> person \<Rightarrow> person" where
  "apply_update (Set_age n) d = d\<lparr>age := Some n\<rparr>"

fun change_first :: "(person \<Rightarrow> bool) \<Rightarrow> (person \<Rightarrow> person) \<Rightarrow> person list \<Rightarrow> person list" where
  "change_first P f [] = []"
| "change_first P f (x # xs) = (if P x then f x # xs else x # change_first P f xs)"

fun remove_first :: "(person \<Rightarrow> bool) \<Rightarrow> person list \<Rightarrow> person list" where
  "remove_first P [] = []"
| "remove_first P (x # xs) = (if P x then xs else x # remove_first P xs)"

text \<open>
  \<^verbatim>\<open>Model.find(conditions)\<close> builds a query; \<^verbatim>\<open>sort\<close>, \<^verbatim>\<open>limit\<close> and \<^verbatim>\<open>select\<close> set its options
  and return it; nothing is sent until the query is executed.
\<close>

definition Model_find :: "model \<Rightarrow> condition \<Rightarrow> query" where
  "Model_find m c =
     \<lparr>q_model = model_name m, q_conditions = c, q_sort = None, q_limit = None, q_select = None\<rparr>"

definition sort_q :: "query \<Rightarrow> sort_arg \<Rightarrow> query" where
  "sort_q q s = q\<lparr>q_sort := Some s\<rparr>"

definition limit_q :: "query \<Rightarrow> nat \<Rightarrow> query" where
  "limit_q q n = q\<lparr>q_limit := Some n\<rparr>"

definition select_q :: "query \<Rightarrow> select_arg \<Rightarrow> query" where
  "select_q q s = q\<lparr>q_select := Some s\<rparr>"

text \<open>
  The database answers a query by filtering, then sorting, then limiting, then
  projecting, whatever the order in which the options were set. The sort is the stable
  one on the name (an unset name first); a limit of 0 is no limit.
\<close>

fun ordered :: "sort_arg option \<Rightarrow> person list \<Rightarrow> person list" where
  "ordered None ds = ds"
| "ordered (Some Name_ascending) ds = sort_key name ds"

fun limited :: "nat option \<Rightarrow> person list \<Rightarrow> person list" where
  "limited None ds = ds"
| "limited (Some n) ds = (if n = 0 then ds else take n ds)"

fun projected :: "select_arg option \<Rightarrow> person \<Rightarrow> person" where
  "projected None d = d"
| "projected (Some Minus_age) d = d\<lparr>age := None\<rparr>"

definition run_query :: "query \<Rightarrow> person list \<Rightarrow> person list" where
  "run_query q ds =
     map (projected (q_select q))
       (limited (q_limit q) (ordered (q_sort q) (filter (matches (q_conditions q)) ds)))"

text \<open>\<^verbatim>\<open>query.exec()\<close>; \<^verbatim>\<open>query.then(...)\<close> executes the query in the same way.\<close>

definition exec :: "query \<Rightarrow> world \<Rightarrow> deferred \<times> world" where
  "exec q w =
     round_trip (On_model (q_model q) (Exec q)) (\<lambda>w'. (Docs (run_query q (collection w')), w')) w"

definition Model_findOne :: "model \<Rightarrow> condition \<Rightarrow> world \<Rightarrow> deferred \<times> world" where
  "Model_findOne m c w =
     round_trip (On_model (model_name m) (FindOne c))
       (\<lambda>w'. (case find (matches c) (collection w') of None \<Rightarrow> Null | Some d \<Rightarrow> Doc d, w')) w"

definition Model_findById :: "model \<Rightarrow> nat \<Rightarrow> world \<Rightarrow> deferred \<times> world" where
  "Model_findById m i w = Model_findOne m (Id_is i) w"

text \<open>With \<^verbatim>\<open>{ new: true }\<close> the document after the update is returned, else the one before.\<close>

definition Model_findOneAndUpdate ::
  "model \<Rightarrow> condition \<Rightarrow> update \<Rightarrow> bool \<Rightarrow> world \<Rightarrow> deferred \<times> world" where
  "Model_findOneAndUpdate m c u new w =
     round_trip (On_model (model_name m) (FindOneAndUpdate c u new))
       (\<lambda>w'. case find (matches c) (collection w') of
                None \<Rightarrow> (Null, w')
              | Some d \<Rightarrow>
                  (Doc (if new then apply_update u d else d),
                   w'\<lparr>collection := change_first (matches c) (apply_update u) (collection w')\<rparr>)) w"

definition Model_findOneAndRemove :: "model \<Rightarrow> condition \<Rightarrow> world \<Rightarrow> deferred \<times> world" where
  "Model_findOneAndRemove m c w =
     round_trip (On_model (model_name m) (FindOneAndRemove c))
       (\<lambda>w'. case find (matches c) (collection w') of
                None \<Rightarrow> (Null, w')
              | Some d \<Rightarrow> (Doc d, w'\<lparr>collection := remove_first (matches c) (collection w')\<rparr>)) w"

definition Model_findByIdAndRemove :: "model \<Rightarrow> nat \<Rightarrow> world \<Rightarrow> deferred \<times> world" where
  "Model_findByIdAndRemove m i w = Model_findOneAndRemove m (Id_is i) w"

definition Model_deleteMany :: "model \<Rightarrow> condition \<Rightarrow> world \<Rightarrow> deferred \<times> world" where
  "Model_deleteMany m c w =
     round_trip (On_model (model_name m) (DeleteMany c))
       (\<lambda>w'. (DeleteResult (length (filter (matches c) (collection w'))),
              w'\<lparr>collection := filter (\<lambda>d. \<not> matches c d) (collection w')\<rparr>)) w"

subsection \<open>Connection and in-memory server\<close>

definition mongoose_connect :: "string \<Rightarrow> world \<Rightarrow> deferred \<times> world" where
  "mongoose_connect uri w = round_trip (Connect uri) (\<lambda>w'. (Undefined, w'\<lparr>connected := True\<rparr>)) w"

definition connection_close :: "world \<Rightarrow> deferred \<times> world" where
  "connection_close w = round_trip Close (\<lambda>w'. (Undefined, w'\<lparr>connected := False\<rparr>)) w"

text \<open>
  The server instance is known by the URI it listens on, which \<^verbatim>\<open>getUri()\<close> returns;
  the variable holding it is \<open>null\<close> until a server is created.
\<close>

definition memory_uri :: string where
  "memory_uri = ''mongodb://127.0.0.1/''"

definition MongoMemoryServer_create :: "world \<Rightarrow> deferred \<times> world" where
  "MongoMemoryServer_create w =
     round_trip Server_create (\<lambda>w'. (Str memory_uri, w'\<lparr>server_up := True\<rparr>)) w"

definition mongod_stop :: "world \<Rightarrow> deferred \<times> world" where
  "mongod_stop w = round_trip Server_stop (\<lambda>w'. (Undefined, w'\<lparr>server_up := False\<rparr>)) w"

section \<open>The runner script (index.js)\<close>

subsection \<open>cbToPromise\<close>

text \<open>
  \<^verbatim>\<open>new Promise\<close> makes a pending promise in a new cell and runs the executor at once. The
  callback handed to \<open>fn\<close> rejects on a truthy first argument and resolves with the second
  otherwise; what \<open>fn\<close> throws is caught and rejects.
\<close>

definition cbToPromise :: "(callback \<Rightarrow> runtime \<Rightarrow> completion \<times> runtime) \<Rightarrow> runtime \<Rightarrow> nat \<times> runtime" where
  "cbToPromise fn r =
     (let k = length (cells (state r));
          (c, r1) = fn (\<lambda>err data w.
                          if truthy err then (Return Undefined, reject k err w)
                          else (Return Undefined, resolve k data w))
                       (r\<lparr>state := (state r)\<lparr>cells := cells (state r) @ [Pending]\<rparr>\<rparr>)
      in case c of
           Throw e \<Rightarrow> (k, r1\<lparr>state := reject k e (state r1)\<rparr>)
         | Return _ \<Rightarrow> (k, r1))"

subsection \<open>The ten operation functions\<close>

text \<open>
  Each makes its call, chains its handlers on the promise returned, and returns; the
  chain is left to the event loop.
\<close>

definition createAndSavePerson :: "callback \<Rightarrow> runtime \<Rightarrow> completion \<times> runtime" where
  "createAndSavePerson done r =
     (let person = new_doc Person
                     \<lparr>in_name = Some ''Charlie'', in_age = Some 40,
                      in_favoriteFoods = Some [''sandwich'']\<rparr> (state r);
          (p, r1) = in_world (Document_save Person person) r;
          p1 = then_p p (\<lambda>data w. settled (done Null data w));
          p2 = catch_p p1 (\<lambda>err w. settled (done err Undefined w))
      in (Return Undefined, pend p2 r1))"

definition createManyPeople :: "person_input list \<Rightarrow> callback \<Rightarrow> runtime \<Rightarrow> completion \<times> runtime" where
  "createManyPeople arrayOfPeople done r =
     (let (p, r1) = in_world (Model_create Person arrayOfPeople) r;
          p1 = then_p p (\<lambda>people w. settled (done Null people w));
          p2 = catch_p p1 (\<lambda>err w. settled (done err Undefined w))
      in (Return Undefined, pend p2 r1))"

definition findPeopleByName :: "string \<Rightarrow> callback \<Rightarrow> runtime \<Rightarrow> completion \<times> runtime" where
  "findPeopleByName personName done r =
     (let (p, r1) = in_world (exec (Model_find Person (Name_is personName))) r;
          p1 = then_p p (\<lambda>persons w. settled (done Null persons w));
          p2 = catch_p p1 (\<lambda>err w. settled (done err Undefined w))
      in (Return Undefined, pend p2 r1))"

definition findOneByFood :: "string \<Rightarrow> callback \<Rightarrow> runtime \<Rightarrow> completion \<times> runtime" where
  "findOneByFood food done r =
     (let (p, r1) = in_world (Model_findOne Person (Food_is food)) r;
          p1 = then_p p (\<lambda>person w. settled (done Null person w));
          p2 = catch_p p1 (\<lambda>err w. settled (done err Undefined w))
      in (Return Undefined, pend p2 r1))"

definition findPersonById :: "nat \<Rightarrow> callback \<Rightarrow> runtime \<Rightarrow> completion \<times> runtime" where
  "findPersonById personId done r =
     (let (p, r1) = in_world (Model_findById Person personId) r;
          p1 = then_p p (\<lambda>person w. settled (done Null person w));
          p2 = catch_p p1 (\<lambda>err w. settled (done err Undefined w))
      in (Return Undefined, pend p2 r1))"

text \<open>
  In the first handler \<^verbatim>\<open>return done(new Error('Person not found'))\<close> ends the handler
  with what \<open>done\<close> returns, and the chain goes on from there. \<^verbatim>\<open>person.favoriteFoods.push\<close>
  on a truthy value that is not a document throws a TypeError. The handler returns the
  promise of \<^verbatim>\<open>person.save()\<close>, and the chain goes on when that has been answered.
\<close>

definition findEditThenSave :: "nat \<Rightarrow> callback \<Rightarrow> runtime \<Rightarrow> completion \<times> runtime" where
  "findEditThenSave personId done r =
     (let (p, r1) = in_world (Model_findById Person personId) r;
          p1 = then_p p
                 (\<lambda>person w.
                    if \<not> truthy person then settled (done (Err ''Person not found'') Undefined w)
                    else (case person of
                            Doc d \<Rightarrow>
                              answered (Document_save Person
                                          (d\<lparr>favoriteFoods := favoriteFoods d @ [''hamburger'']\<rparr>)) w
                          | _ \<Rightarrow> (Rejected (Err ''TypeError''), w)));
          p2 = then_p p1 (\<lambda>updatedPerson w. settled (done Null updatedPerson w));
          p3 = catch_p p2 (\<lambda>err w. settled (done err Undefined w))
      in (Return Undefined, pend p3 r1))"

definition findAndUpdate :: "string \<Rightarrow> callback \<Rightarrow> runtime \<Rightarrow> completion \<times> runtime" where
  "findAndUpdate personName done r =
     (let (p, r1) = in_world (Model_findOneAndUpdate Person (Name_is personName) (Set_age 20) True) r;
          p1 = then_p p (\<lambda>updatedDoc w. settled (done Null updatedDoc w));
          p2 = catch_p p1 (\<lambda>err w. settled (done err Undefined w))
      in (Return Undefined, pend p2 r1))"

definition removeById :: "nat \<Rightarrow> callback \<Rightarrow> runtime \<Rightarrow> completion \<times> runtime" where
  "removeById personId done r =
     (let (p, r1) = in_world (Model_findByIdAndRemove Person personId) r;
          p1 = then_p p (\<lambda>removedDoc w. settled (done Null removedDoc w));
          p2 = catch_p p1 (\<lambda>err w. settled (done err Undefined w))
      in (Return Undefined, pend p2 r1))"

definition removeManyPeople :: "callback \<Rightarrow> runtime \<Rightarrow> completion \<times> runtime" where
  "removeManyPeople done r =
     (let (p, r1) = in_world (Model_deleteMany Person (Name_is ''Mary'')) r;
          p1 = then_p p (\<lambda>result w. settled (done Null result w));
          p2 = catch_p p1 (\<lambda>err w. settled (done err Undefined w))
      in (Return Undefined, pend p2 r1))"

definition queryChain :: "callback \<Rightarrow> runtime \<Rightarrow> completion \<times> runtime" where
  "queryChain done r =
     (let (p, r1) = in_world (exec (select_q
                                      (limit_q
                                         (sort_q (Model_find Person (Food_is ''burritos'')) Name_ascending)
                                         2)
                                      Minus_age)) r;
          p1 = then_p p (\<lambda>data w. settled (done Null data w));
          p2 = catch_p p1 (\<lambda>err w. settled (done err Undefined w))
      in (Return Undefined, pend p2 r1))"

subsection \<open>runAllTasks\<close>

text \<open>
  Property reads of the script. \<^verbatim>\<open>many.length\<close> throws a TypeError on \<open>undefined\<close> and
  \<open>null\<close>. \<^verbatim>\<open>v._id\<close> and \<^verbatim>\<open>many[0]._id\<close> are read from the documents the operations before
  returned; on anything else the read counts as the TypeError that \<open>undefined\<close> and \<open>null\<close>
  give.
\<close>

definition type_error :: jsval where
  "type_error = Err ''TypeError: Cannot read properties of undefined''"

fun js_length :: "jsval \<Rightarrow> jsval + jsval" where
  "js_length (Docs ds) = Inr (Num (int (length ds)))"
| "js_length (Strs ss) = Inr (Num (int (length ss)))"
| "js_length (Str s) = Inr (Num (int (length s)))"
| "js_length Undefined = Inl type_error"
| "js_length Null = Inl type_error"
| "js_length _ = Inr Undefined"

fun read_id :: "jsval \<Rightarrow> jsval + nat" where
  "read_id (Doc d) = Inr (doc_id d)"
| "read_id _ = Inl type_error"

fun first_id :: "jsval \<Rightarrow> jsval + nat" where
  "first_id (Docs (d # ds)) = Inr (doc_id d)"
| "first_id _ = Inl type_error"

definition runAllTasks :: "runtime \<Rightarrow> promise \<times> runtime" where
  \<open>runAllTasks r0 =
     awaiting (cbToPromise createAndSavePerson
                 (console_log [Str ''\<newline>---- Running Mongoose tasks ----\<newline>''] r0))
     (\<lambda>savedPerson r.
     awaiting (cbToPromise (\<lambda>done. createManyPeople peopleData done)
                 (console_log [Str ''1) createAndSavePerson result ->'', savedPerson] r))
     (\<lambda>many r.
     case js_length many of Inl e \<Rightarrow> (Rejected e, r) | Inr n \<Rightarrow>
     awaiting (cbToPromise (\<lambda>done. findPeopleByName ''Mary'' done)
                 (console_log [Str ''2) createManyPeople result -> created'', n, Str ''people''] r))
     (\<lambda>foundMary r.
     awaiting (cbToPromise (\<lambda>done. findOneByFood ''burritos'' done)
                 (console_log [Str ''3) findPeopleByName("Mary") ->'', foundMary] r))
     (\<lambda>oneWithBurritos r.
     let r = console_log [Str ''4) findOneByFood("burritos") ->'', oneWithBurritos] r in
     case read_id savedPerson of Inl e \<Rightarrow> (Rejected e, r) | Inr savedId \<Rightarrow>
     awaiting (cbToPromise (\<lambda>done. findPersonById savedId done) r)
     (\<lambda>foundById r.
     let r = console_log [Str ''5) findPersonById ->'', foundById] r in
     case read_id savedPerson of Inl e \<Rightarrow> (Rejected e, r) | Inr savedId \<Rightarrow>
     awaiting (cbToPromise (\<lambda>done. findEditThenSave savedId done) r)
     (\<lambda>edited r.
     awaiting (cbToPromise (\<lambda>done. findAndUpdate ''John'' done)
                 (console_log [Str ''6) findEditThenSave ->'', edited] r))
     (\<lambda>updated r.
     let r = console_log [Str ''7) findAndUpdate("John") ->'', updated] r in
     case first_id many of Inl e \<Rightarrow> (Rejected e, r) | Inr firstId \<Rightarrow>
     awaiting (cbToPromise (\<lambda>done. removeById firstId done) r)
     (\<lambda>removed r.
     awaiting (cbToPromise removeManyPeople
                 (console_log [Str ''8) removeById ->'', removed] r))
     (\<lambda>removeManyResult r.
     awaiting (cbToPromise queryChain
                 (console_log [Str ''9) removeManyPeople (name: Mary) ->'', removeManyResult] r))
     (\<lambda>chainResult r.
     (Fulfilled Undefined,
      console_log [Str ''\<newline>---- Tasks finished ----\<newline>'']
        (console_log [Str ''10) queryChain ->'', chainResult] r))))))))))))\<close>

subsection \<open>start\<close>

text \<open>
  The \<^verbatim>\<open>finally\<close> block of the handler that runs once connected: the stop of the server
  and the last line come after the \<^verbatim>\<open>await\<close> on the close, so they are reached only when
  the close fulfils.
\<close>

definition finally_block :: "jsval \<Rightarrow> runtime \<Rightarrow> promise \<times> runtime" where
  "finally_block mongod r =
     resume (await_p (in_world connection_close r))
       (\<lambda>_ r1.
          resume (if truthy mongod then await_p (in_world mongod_stop r1)
                  else (Fulfilled Undefined, r1))
            (\<lambda>_ r2. (Fulfilled Undefined, console_log [Str ''Connection closed.''] r2)))"

text \<open>
  The async function given to \<^verbatim>\<open>connect(...).then\<close>: the tasks run inside \<^verbatim>\<open>try\<close>, a
  rejection is caught and logged, and the \<^verbatim>\<open>finally\<close> block runs in both cases.
\<close>

definition on_connected :: "jsval \<Rightarrow> runtime \<Rightarrow> promise \<times> runtime" where
  "on_connected mongod r =
     (let (p, r1) = runAllTasks (console_log [Str ''Successfully connected to MongoDB''] r)
      in case p of
           Pending \<Rightarrow> (Pending, r1)
         | Fulfilled _ \<Rightarrow> finally_block mongod (console_log [Str ''All tasks completed.''] r1)
         | Rejected err \<Rightarrow>
             finally_block mongod (console_error [Str ''Error running tasks:'', err] r1))"

text \<open>
  \<^verbatim>\<open>mongoose.connect(...).then(async () => ...).catch(err => ...)\<close>. The handler of \<^verbatim>\<open>then\<close>
  is an async function, which gives way at its own awaits, so this chain is not one
  job of the loop. It is the last thing \<open>start\<close> does and \<open>start()\<close> is the last statement
  of the script, so the chain is followed here as the loop runs it: the connect is
  answered, then the handler of \<^verbatim>\<open>then\<close> runs when it fulfilled, then the handler of
  \<^verbatim>\<open>catch\<close> when the connect or the handler of \<^verbatim>\<open>then\<close> rejected.
\<close>

definition connect_and_run :: "string \<Rightarrow> jsval \<Rightarrow> runtime \<Rightarrow> promise \<times> runtime" where
  "connect_and_run mongoUri mongod r =
     (let (p, r1) = resume (await_p (in_world (mongoose_connect mongoUri) r))
                      (\<lambda>_ r'. on_connected mongod r')
      in case p of
           Rejected err \<Rightarrow>
             (Fulfilled Undefined, console_error [Str ''MongoDB connection error:'', err] r1)
         | _ \<Rightarrow> (p, r1))"

fun getUri :: "jsval \<Rightarrow> string" where
  "getUri (Str uri) = uri"
| "getUri _ = []"

text \<open>
  \<open>MONGO_URI\<close> is \<^verbatim>\<open>process.env.MONGO_URI\<close>: a string, or \<open>undefined\<close> when the variable is not
  set. \<^verbatim>\<open>!mongoUri\<close> holds for \<open>undefined\<close> and for the empty string. \<open>connect_and_run\<close>
  gives the promise of the chain on \<^verbatim>\<open>connect\<close>, which \<open>start\<close> lets go of: the promise of
  \<open>start\<close> itself is fulfilled as soon as the chain is built, or rejected by the \<^verbatim>\<open>await\<close>
  on the start of the server; the runtime returned is the one after the chain has run.
\<close>

definition start :: "string option \<Rightarrow> runtime \<Rightarrow> promise \<times> runtime" where
  "start MONGO_URI r =
     (case MONGO_URI of
        Some mongoUri \<Rightarrow>
          if mongoUri \<noteq> [] then (Fulfilled Undefined, snd (connect_and_run mongoUri Null r))
          else resume (await_p (in_world MongoMemoryServer_create
                                  (console_log [Str ''MONGO_URI not set. Starting in-memory MongoDB...''] r)))
                 (\<lambda>mongod r'. (Fulfilled Undefined, snd (connect_and_run (getUri mongod) mongod r')))
      | None \<Rightarrow>
          resume (await_p (in_world MongoMemoryServer_create
                             (console_log [Str ''MONGO_URI not set. Starting in-memory MongoDB...''] r)))
            (\<lambda>mongod r'. (Fulfilled Undefined, snd (connect_and_run (getUri mongod) mongod r'))))"

section \<open>Test doubles and specifications\<close>

text \<open>A Node-style callback that records its arguments and returns \<open>undefined\<close>.\<close>

definition recorder :: callback where
  "recorder err data w = (Return Undefined, emit (Invoked err data) w)"

text \<open>An empty database, nothing scripted to fail, not connected.\<close>

definition empty_world :: world where
  "empty_world =
     \<lparr>collection = [], faults = [], cells = [], trace = [], connected = False, server_up = False\<rparr>"

text \<open>
  The shape every operation function but \<open>findEditThenSave\<close> has in the source:
  \<^verbatim>\<open>operation.then(data => done(null, data)).catch(err => done(err))\<close>.
\<close>

definition node_style ::
  "(world \<Rightarrow> deferred \<times> world) \<Rightarrow> callback \<Rightarrow> runtime \<Rightarrow> completion \<times> runtime" where
  "node_style operation done r =
     (let (p, r1) = in_world operation r;
          p1 = then_p p (\<lambda>data w. settled (done Null data w));
          p2 = catch_p p1 (\<lambda>err w. settled (done err Undefined w))
      in (Return Undefined, pend p2 r1))"

text \<open>
  What the specification calls a direct delegation adapted to the Node-style callback:
  the one library call is made, and when it is answered the callback is invoked once,
  with \<open>(null, result)\<close> when the call fulfils and with \<open>(error)\<close> when it rejects; nothing
  else happens.
\<close>

definition delegate ::
  "(world \<Rightarrow> deferred \<times> world) \<Rightarrow> callback \<Rightarrow> runtime \<Rightarrow> completion \<times> runtime" where
  "delegate call done r =
     (let (p, r1) = in_world call r
      in (Return Undefined,
          pend (\<lambda>w. case p w of
                      (Fulfilled v, w1) \<Rightarrow> (Fulfilled Undefined, snd (done Null v w1))
                    | (Rejected e, w1) \<Rightarrow> (Fulfilled Undefined, snd (done e Undefined w1))
                    | (Pending, w1) \<Rightarrow> (Pending, w1)) r1))"

text \<open>A callback that always returns, whatever it is given.\<close>

definition well_behaved :: "callback \<Rightarrow> bool" where
  "well_behaved done \<longleftrightarrow> (\<forall>err data w. \<exists>v. fst (done err data w) = Return v)"

text \<open>
  An operation that leaves the promises of the script alone, as the mapper's do, when
  it is called and when it is answered.
\<close>

definition keeps_cells :: "(world \<Rightarrow> deferred \<times> world) \<Rightarrow> bool" where
  "keeps_cells operation \<longleftrightarrow>
     (\<forall>w. cells (snd (operation w)) = cells w \<and>
          (\<forall>w'. cells (snd (fst (operation w) w')) = cells w'))"

subsection \<open>Observations on a run\<close>

text \<open>The events a run from \<open>w\<close> to \<open>r\<close> added to the trace.\<close>

definition new_events :: "world \<Rightarrow> world \<Rightarrow> event list" where
  "new_events w r = drop (length (trace w)) (trace r)"

text \<open>The calls made, in order.\<close>

fun lib_calls :: "event list \<Rightarrow> lib_call list" where
  "lib_calls [] = []"
| "lib_calls (Called c # es) = c # lib_calls es"
| "lib_calls (_ # es) = lib_calls es"

fun invocations :: "event list \<Rightarrow> (jsval \<times> jsval) list" where
  "invocations [] = []"
| "invocations (Invoked err data # es) = (err, data) # invocations es"
| "invocations (_ # es) = invocations es"


text \<open>How many operation functions a run invoked: each is wrapped in one \<open>cbToPromise\<close>.\<close>

definition operations_run :: "world \<Rightarrow> world \<Rightarrow> nat" where
  "operations_run w r = length (cells r) - length (cells w)"

text \<open>No round trip of the run is scripted to fail.\<close>

definition fault_free :: "world \<Rightarrow> bool" where
  "fault_free w = list_all (\<lambda>f. f = None) (faults w)"

text \<open>The next \<open>n\<close> round trips are not scripted to fail.\<close>

definition next_succeed :: "nat \<Rightarrow> world \<Rightarrow> bool" where
  "next_succeed n w = list_all (\<lambda>f. f = None) (take n (faults w))"

text \<open>The schema invariant of a stored document: the required name is there.\<close>

definition has_name :: "person \<Rightarrow> bool" where
  "has_name d = (case name d of None \<Rightarrow> False | Some s \<Rightarrow> s \<noteq> [])"

definition schema_ok :: "world \<Rightarrow> bool" where
  "schema_ok w = list_all has_name (collection w)"

text \<open>An event of the task phase: a console line or an operation on the Person model.\<close>

fun person_event :: "event \<Rightarrow> bool" where
  "person_event (Called (On_model m opn)) = (m = ''Person'')"
| "person_event (Called c) = False"
| "person_event (Answered (On_model m opn) r) = (m = ''Person'')"
| "person_event (Answered c r) = False"
| "person_event e = True"

text \<open>
  What the task phase may do to the world: it adds task events to the trace, leaves
  connection and server as they are, and keeps the schema invariant of the collection.
\<close>

definition task_step :: "world \<Rightarrow> world \<Rightarrow> bool" where
  "task_step w r \<longleftrightarrow>
     connected r = connected w \<and> server_up r = server_up w \<and>
     take (length (trace w)) (trace r) = trace w \<and>
     list_all person_event (new_events w r) \<and>
     (schema_ok w \<longrightarrow> schema_ok r)"

text \<open>
  A run of tasks from \<open>w\<close> is in order when its promise is settled, nothing is left
  waiting, and the world it leaves is one the task phase may reach. A library
  operation is a task operation when its call and its answer each are such a step and
  the answer settles its promise; an operation function is one when each run of it,
  wrapped in \<open>cbToPromise\<close> and awaited, is in order.
\<close>

definition tasks_ok :: "world \<Rightarrow> promise \<times> runtime \<Rightarrow> bool" where
  "tasks_ok w pr \<longleftrightarrow> fst pr \<noteq> Pending \<and> queue (snd pr) = [] \<and> task_step w (state (snd pr))"

definition person_op :: "(world \<Rightarrow> deferred \<times> world) \<Rightarrow> bool" where
  "person_op operation \<longleftrightarrow>
     (\<forall>w. cells (snd (operation w)) = cells w \<and> task_step w (snd (operation w)) \<and>
          (\<forall>w'. cells (snd (fst (operation w) w')) = cells w' \<and>
                fst (fst (operation w) w') \<noteq> Pending \<and>
                task_step w' (snd (fst (operation w) w'))))"

definition person_cb :: "(callback \<Rightarrow> runtime \<Rightarrow> completion \<times> runtime) \<Rightarrow> bool" where
  "person_cb fn \<longleftrightarrow> (\<forall>w. tasks_ok w (awaited (cbToPromise fn (idle w))))"

section \<open>Unfolding the model\<close>

lemmas lib_defs = round_trip_def emit_def Document_save_def Model_findOne_def Model_findById_def
  Model_findOneAndUpdate_def Model_findOneAndRemove_def Model_findByIdAndRemove_def
  Model_deleteMany_def exec_def Model_create_def answered_def

lemmas promise_defs = cbToPromise_def resolve_def reject_def settle_def state_of_def
  awaiting_def awaited_def resume_def

lemmas loop_defs = idle_def in_world_def pend_def drained_def finished_def

lemma idle_simps [simp]: "state (idle w) = w" "queue (idle w) = []"
  by (simp_all add: idle_def)

lemma idle_state: "queue r = [] \<Longrightarrow> idle (state r) = r"
  by (simp add: idle_def)

lemma in_world_split: "in_world f r = (fst (f (state r)), r\<lparr>state := snd (f (state r))\<rparr>)"
  by (simp add: in_world_def split: prod.split)

section \<open>The operation functions as delegations\<close>

lemma settled_well_behaved:
  assumes "well_behaved done"
  shows "\<exists>v. settled (done e d w) = (Fulfilled v, snd (done e d w))"
proof -
  from assms obtain v where "fst (done e d w) = Return v"
    unfolding well_behaved_def by blast
  then have "done e d w = (Return v, snd (done e d w))"
    by (metis prod.collapse)
  then have "settled (done e d w) = (Fulfilled v, snd (done e d w))"
    by (metis settled.simps(1))
  then show ?thesis ..
qed

text \<open>With a callback that returns, the then/catch adapter invokes it exactly once.\<close>

lemma adapter_job:
  assumes "well_behaved done"
  shows "snd (catch_p (then_p p (\<lambda>data w. settled (done Null data w)))
                 (\<lambda>err w. settled (done err Undefined w)) w) =
         snd (case p w of
                (Fulfilled v, w1) \<Rightarrow> (Fulfilled Undefined, snd (done Null v w1))
              | (Rejected e, w1) \<Rightarrow> (Fulfilled Undefined, snd (done e Undefined w1))
              | (Pending, w1) \<Rightarrow> (Pending, w1))"
proof (cases "p w")
  case (Pair s w1)
  show ?thesis
  proof (cases s)
    case Pending
    with Pair show ?thesis by (simp add: then_p_def catch_p_def)
  next
    case (Fulfilled v)
    from settled_well_behaved [OF assms, of Null v w1]
    obtain x where "settled (done Null v w1) = (Fulfilled x, snd (done Null v w1))" ..
    with Pair Fulfilled show ?thesis by (simp add: then_p_def catch_p_def)
  next
    case (Rejected e)
    from settled_well_behaved [OF assms, of e Undefined w1]
    obtain x where "settled (done e Undefined w1) = (Fulfilled x, snd (done e Undefined w1))" ..
    with Pair Rejected show ?thesis by (simp add: then_p_def catch_p_def)
  qed
qed

lemma node_style_delegate:
  assumes "well_behaved done"
  shows "node_style call done r = delegate call done r"
proof -
  have "\<And>p. (\<lambda>w. snd (catch_p (then_p p (\<lambda>data w. settled (done Null data w)))
                        (\<lambda>err w. settled (done err Undefined w)) w)) =
            (\<lambda>w. snd (case p w of
                (Fulfilled v, w1) \<Rightarrow> (Fulfilled Undefined, snd (done Null v w1))
              | (Rejected e, w1) \<Rightarrow> (Fulfilled Undefined, snd (done e Undefined w1))
              | (Pending, w1) \<Rightarrow> (Pending, w1)))"
    by (rule ext) (rule adapter_job [OF assms])
  then show ?thesis
    by (simp add: node_style_def delegate_def pend_def in_world_split Let_def)
qed

lemma well_behaved_recorder: "well_behaved recorder"
  by (simp add: well_behaved_def recorder_def)

lemma createAndSavePerson_node_style:
  "createAndSavePerson done r =
     node_style (Document_save Person
        (new_doc Person \<lparr>in_name = Some ''Charlie'', in_age = Some 40,
                         in_favoriteFoods = Some [''sandwich'']\<rparr> (state r))) done r"
  by (simp add: createAndSavePerson_def node_style_def)

lemma createManyPeople_node_style:
  "createManyPeople arrayOfPeople done r = node_style (Model_create Person arrayOfPeople) done r"
  by (simp add: createManyPeople_def node_style_def)

lemma findPeopleByName_node_style:
  "findPeopleByName personName done r =
     node_style (exec (Model_find Person (Name_is personName))) done r"
  by (simp add: findPeopleByName_def node_style_def)

lemma findOneByFood_node_style:
  "findOneByFood food done r = node_style (Model_findOne Person (Food_is food)) done r"
  by (simp add: findOneByFood_def node_style_def)

lemma findPersonById_node_style:
  "findPersonById personId done r = node_style (Model_findById Person personId) done r"
  by (simp add: findPersonById_def node_style_def)

lemma findAndUpdate_node_style:
  "findAndUpdate personName done r =
     node_style (Model_findOneAndUpdate Person (Name_is personName) (Set_age 20) True) done r"
  by (simp add: findAndUpdate_def node_style_def)

lemma removeById_node_style:
  "removeById personId done r = node_style (Model_findByIdAndRemove Person personId) done r"
  by (simp add: removeById_def node_style_def)

lemma removeManyPeople_node_style:
  "removeManyPeople done r = node_style (Model_deleteMany Person (Name_is ''Mary'')) done r"
  by (simp add: removeManyPeople_def node_style_def)

lemma queryChain_node_style:
  "queryChain done r =
     node_style (exec (select_q (limit_q (sort_q (Model_find Person (Food_is ''burritos''))
                                            Name_ascending) 2) Minus_age)) done r"
  by (simp add: queryChain_def node_style_def)

lemmas op_node_style = createAndSavePerson_node_style createManyPeople_node_style
  findPeopleByName_node_style findOneByFood_node_style findPersonById_node_style
  findAndUpdate_node_style removeById_node_style removeManyPeople_node_style
  queryChain_node_style

text \<open>What a delegation, and the then/catch adapter, come to when nothing else is waiting.\<close>

lemma finished_delegate:
  "finished (delegate call done) w =
     (Return Undefined,
      snd (case answered call w of
             (Fulfilled v, w1) \<Rightarrow> (Fulfilled Undefined, snd (done Null v w1))
           | (Rejected e, w1) \<Rightarrow> (Fulfilled Undefined, snd (done e Undefined w1))
           | (Pending, w1) \<Rightarrow> (Pending, w1)))"
  by (simp add: finished_def delegate_def in_world_split pend_def drained_def answered_def
      split: prod.split)

lemma finished_node_style:
  "finished (node_style call done) w =
     (Return Undefined,
      snd (catch_p (then_p (answered call) (\<lambda>data w. settled (done Null data w)))
             (\<lambda>err w. settled (done err Undefined w)) w))"
  by (simp add: finished_def node_style_def in_world_split pend_def drained_def answered_def
      then_p_def catch_p_def split: prod.split)

text \<open>When the document is found, or the lookup fails, \<open>findEditThenSave\<close> ends in a delegation.\<close>

lemma finished_findEditThenSave:
  "finished (findEditThenSave personId done) w =
     (Return Undefined,
      snd (catch_p
             (then_p
                (then_p (answered (Model_findById Person personId))
                   (\<lambda>person w.
                      if \<not> truthy person then settled (done (Err ''Person not found'') Undefined w)
                      else (case person of
                              Doc d \<Rightarrow>
                                answered (Document_save Person
                                            (d\<lparr>favoriteFoods := favoriteFoods d @ [''hamburger'']\<rparr>)) w
                            | _ \<Rightarrow> (Rejected (Err ''TypeError''), w))))
                (\<lambda>updatedPerson w. settled (done Null updatedPerson w)))
             (\<lambda>err w. settled (done err Undefined w)) w))"
  by (simp add: finished_def findEditThenSave_def in_world_split pend_def drained_def answered_def
      then_p_def catch_p_def split: prod.split)

lemma findEditThenSave_found:
  assumes "well_behaved done"
      and "answered (Model_findById Person personId) w = (Fulfilled (Doc d), w1)"
  shows "finished (findEditThenSave personId done) w =
           finished (delegate (Document_save Person
                                 (d\<lparr>favoriteFoods := favoriteFoods d @ [''hamburger'']\<rparr>)) done) w1"
proof -
  let ?save = "Document_save Person (d\<lparr>favoriteFoods := favoriteFoods d @ [''hamburger'']\<rparr>)"
  have "finished (findEditThenSave personId done) w = finished (node_style ?save done) w1"
    by (simp add: finished_findEditThenSave finished_node_style then_p_def catch_p_def assms(2))
  also have "node_style ?save done = delegate ?save done"
    by (rule ext) (rule node_style_delegate [OF assms(1)])
  finally show ?thesis .
qed

lemma findEditThenSave_lookup_rejected:
  assumes "well_behaved done"
      and "fst (answered (Model_findById Person personId) w) = Rejected e"
  shows "finished (findEditThenSave personId done) w =
           finished (delegate (Model_findById Person personId) done) w"
proof -
  obtain w1 where call: "answered (Model_findById Person personId) w = (Rejected e, w1)"
    using assms(2) by (cases "answered (Model_findById Person personId) w") simp
  from settled_well_behaved [OF assms(1), of e Undefined w1]
  obtain x where "settled (done e Undefined w1) = (Fulfilled x, snd (done e Undefined w1))" ..
  with call show ?thesis
    by (simp add: finished_findEditThenSave finished_delegate then_p_def catch_p_def)
qed

text \<open>
  C3, as stated, fails. \<open>findEditThenSave\<close> on a collection holding the document of id 1
  makes two library calls, a lookup and a save of the edited document, and so is not the
  delegation of the lookup; and with a callback that throws, \<open>findOneByFood\<close> invokes the
  callback a second time, which the delegation of \<open>findOne\<close> does not.
\<close>

theorem findEditThenSave_not_one_call:
  "lib_calls (trace (snd (finished (findEditThenSave 1 recorder)
      (empty_world\<lparr>collection := [\<lparr>doc_id = 1, name = Some ''Charlie'', age = Some 40,
                                    favoriteFoods = [''sandwich'']\<rparr>]\<rparr>)))) =
     [On_model ''Person'' (FindOne (Id_is 1)),
      On_model ''Person'' (Save \<lparr>doc_id = 1, name = Some ''Charlie'', age = Some 40,
                                  favoriteFoods = [''sandwich'', ''hamburger'']\<rparr>)]
   \<and> finished (findEditThenSave 1 recorder)
        (empty_world\<lparr>collection := [\<lparr>doc_id = 1, name = Some ''Charlie'', age = Some 40,
                                      favoriteFoods = [''sandwich'']\<rparr>]\<rparr>)
     \<noteq> finished (delegate (Model_findById Person 1) recorder)
        (empty_world\<lparr>collection := [\<lparr>doc_id = 1, name = Some ''Charlie'', age = Some 40,
                                      favoriteFoods = [''sandwich'']\<rparr>]\<rparr>)
   \<and> finished (findOneByFood ''burritos''
                  (\<lambda>err data w. (Throw (Err ''boom''), emit (Invoked err data) w))) empty_world
     \<noteq> finished (delegate (Model_findOne Person (Food_is ''burritos''))
                  (\<lambda>err data w. (Throw (Err ''boom''), emit (Invoked err data) w))) empty_world"
proof (intro conjI)
  let ?w = "empty_world\<lparr>collection := [\<lparr>doc_id = 1, name = Some ''Charlie'', age = Some 40,
                                            favoriteFoods = [''sandwich'']\<rparr>]\<rparr>"
  let ?boom = "\<lambda>err data w. (Throw (Err ''boom''), emit (Invoked err data) w)"
  have run: "finished (findEditThenSave 1 recorder) ?w =
     (Return Undefined,
      empty_world\<lparr>collection := [\<lparr>doc_id = 1, name = Some ''Charlie'', age = Some 40,
                                     favoriteFoods = [''sandwich'', ''hamburger'']\<rparr>],
        trace := [Called (On_model ''Person'' (FindOne (Id_is 1))),
                  Answered (On_model ''Person'' (FindOne (Id_is 1))) None,
                  Called (On_model ''Person'' (Save \<lparr>doc_id = 1, name = Some ''Charlie'',
                     age = Some 40, favoriteFoods = [''sandwich'', ''hamburger'']\<rparr>)),
                  Answered (On_model ''Person'' (Save \<lparr>doc_id = 1, name = Some ''Charlie'',
                     age = Some 40, favoriteFoods = [''sandwich'', ''hamburger'']\<rparr>)) None,
                  Invoked Null (Doc \<lparr>doc_id = 1, name = Some ''Charlie'', age = Some 40,
                     favoriteFoods = [''sandwich'', ''hamburger'']\<rparr>)]\<rparr>)"
    by (simp add: finished_findEditThenSave then_p_def catch_p_def recorder_def empty_world_def
        lib_defs Person_def validate_def personSchema_def path_unset_def)
  show "lib_calls (trace (snd (finished (findEditThenSave 1 recorder) ?w))) =
     [On_model ''Person'' (FindOne (Id_is 1)),
      On_model ''Person'' (Save \<lparr>doc_id = 1, name = Some ''Charlie'', age = Some 40,
                                  favoriteFoods = [''sandwich'', ''hamburger'']\<rparr>)]"
    unfolding run by (simp add: empty_world_def)
  have "finished (delegate (Model_findById Person 1) recorder) ?w =
     (Return Undefined,
      empty_world\<lparr>collection := [\<lparr>doc_id = 1, name = Some ''Charlie'', age = Some 40,
                                     favoriteFoods = [''sandwich'']\<rparr>],
        trace := [Called (On_model ''Person'' (FindOne (Id_is 1))),
                  Answered (On_model ''Person'' (FindOne (Id_is 1))) None,
                  Invoked Null (Doc \<lparr>doc_id = 1, name = Some ''Charlie'', age = Some 40,
                     favoriteFoods = [''sandwich'']\<rparr>)]\<rparr>)"
    by (simp add: finished_delegate recorder_def empty_world_def lib_defs Person_def)
  then show "finished (findEditThenSave 1 recorder) ?w \<noteq>
             finished (delegate (Model_findById Person 1) recorder) ?w"
    unfolding run by (simp add: empty_world_def)
  have f: "findOneByFood ''burritos'' ?boom = node_style (Model_findOne Person (Food_is ''burritos'')) ?boom"
    by (rule ext) (rule findOneByFood_node_style)
  have 1: "trace (snd (finished (findOneByFood ''burritos'' ?boom) empty_world)) =
        [Called (On_model ''Person'' (FindOne (Food_is ''burritos''))),
         Answered (On_model ''Person'' (FindOne (Food_is ''burritos''))) None,
         Invoked Null Null, Invoked (Err ''boom'') Undefined]"
    unfolding f
    by (simp add: finished_node_style then_p_def catch_p_def empty_world_def lib_defs Person_def)
  have 2: "trace (snd (finished (delegate (Model_findOne Person (Food_is ''burritos'')) ?boom) empty_world)) =
        [Called (On_model ''Person'' (FindOne (Food_is ''burritos''))),
         Answered (On_model ''Person'' (FindOne (Food_is ''burritos''))) None,
         Invoked Null Null]"
    by (simp add: finished_delegate empty_world_def lib_defs Person_def)
  from 1 2 show "finished (findOneByFood ''burritos'' ?boom) empty_world \<noteq>
        finished (delegate (Model_findOne Person (Food_is ''burritos'')) ?boom) empty_world"
    by auto
qed

text \<open>
  C3, amended. For every callback that returns, each operation function other than
  \<open>findEditThenSave\<close> behaves as its one library call adapted to the Node-style callback:
  \<open>createAndSavePerson\<close> as the save of the new Charlie document, \<open>createManyPeople\<close> as
  \<open>create\<close>, \<open>findPeopleByName\<close> as the \<open>find\<close> query, \<open>findOneByFood\<close> as \<open>findOne\<close>,
  \<open>findPersonById\<close> as \<open>findById\<close>, \<open>findAndUpdate\<close> as \<open>findOneAndUpdate\<close>, \<open>removeById\<close> as
  \<open>findByIdAndRemove\<close>, \<open>removeManyPeople\<close> as \<open>deleteMany\<close> and \<open>queryChain\<close> as the one
  chained query: the same call is made at once, and the same job is left to the event
  loop. \<open>findEditThenSave\<close> is a lookup followed by logic of its own: when the lookup
  rejects it comes to what the delegation of the lookup comes to, and when the lookup
  finds a document it goes on as the delegation of the save of that document with
  \<open>'hamburger'\<close> appended.
\<close>

theorem operations_delegate:
  assumes "well_behaved done"
  shows "createAndSavePerson done r =
           delegate (Document_save Person
             (new_doc Person \<lparr>in_name = Some ''Charlie'', in_age = Some 40,
                              in_favoriteFoods = Some [''sandwich'']\<rparr> (state r))) done r
       \<and> createManyPeople arrayOfPeople done r = delegate (Model_create Person arrayOfPeople) done r
       \<and> findPeopleByName personName done r =
           delegate (exec (Model_find Person (Name_is personName))) done r
       \<and> findOneByFood food done r = delegate (Model_findOne Person (Food_is food)) done r
       \<and> findPersonById personId done r = delegate (Model_findById Person personId) done r
       \<and> findAndUpdate personName done r =
           delegate (Model_findOneAndUpdate Person (Name_is personName) (Set_age 20) True) done r
       \<and> removeById personId done r = delegate (Model_findByIdAndRemove Person personId) done r
       \<and> removeManyPeople done r = delegate (Model_deleteMany Person (Name_is ''Mary'')) done r
       \<and> queryChain done r =
           delegate (exec (select_q (limit_q (sort_q (Model_find Person (Food_is ''burritos''))
                                                Name_ascending) 2) Minus_age)) done r
       \<and> (fst (answered (Model_findById Person personId) w) = Rejected e \<longrightarrow>
            finished (findEditThenSave personId done) w =
              finished (delegate (Model_findById Person personId) done) w)
       \<and> (answered (Model_findById Person personId) w = (Fulfilled (Doc d), w1) \<longrightarrow>
            finished (findEditThenSave personId done) w =
              finished (delegate (Document_save Person
                          (d\<lparr>favoriteFoods := favoriteFoods d @ [''hamburger'']\<rparr>)) done) w1)"
  using findEditThenSave_found [OF assms] findEditThenSave_lookup_rejected [OF assms]
  by (simp only: op_node_style node_style_delegate [OF assms]) blast

text \<open>
  The amended C3 at concrete inputs: the recording callback on the empty database, a
  lookup that is scripted to fail, and a lookup that finds the Charlie document.
\<close>

theorem operations_delegate_witness:
  "well_behaved recorder
   \<and> findOneByFood ''burritos'' recorder (idle empty_world) =
       delegate (Model_findOne Person (Food_is ''burritos'')) recorder (idle empty_world)
   \<and> queryChain recorder (idle empty_world) =
       delegate (exec (select_q (limit_q (sort_q (Model_find Person (Food_is ''burritos''))
                                            Name_ascending) 2) Minus_age)) recorder (idle empty_world)
   \<and> fst (answered (Model_findById Person 1) (empty_world\<lparr>faults := [Some ''down'']\<rparr>)) =
       Rejected (Err ''down'')
   \<and> finished (findEditThenSave 1 recorder) (empty_world\<lparr>faults := [Some ''down'']\<rparr>) =
       finished (delegate (Model_findById Person 1) recorder) (empty_world\<lparr>faults := [Some ''down'']\<rparr>)
   \<and> answered (Model_findById Person 1)
        (empty_world\<lparr>collection := [\<lparr>doc_id = 1, name = Some ''Charlie'', age = Some 40,
                                      favoriteFoods = [''sandwich'']\<rparr>]\<rparr>) =
       (Fulfilled (Doc \<lparr>doc_id = 1, name = Some ''Charlie'', age = Some 40,
                        favoriteFoods = [''sandwich'']\<rparr>),
        empty_world\<lparr>collection := [\<lparr>doc_id = 1, name = Some ''Charlie'', age = Some 40,
                                     favoriteFoods = [''sandwich'']\<rparr>],
                    trace := [Called (On_model ''Person'' (FindOne (Id_is 1))),
                              Answered (On_model ''Person'' (FindOne (Id_is 1))) None]\<rparr>)
   \<and> finished (findEditThenSave 1 recorder)
        (empty_world\<lparr>collection := [\<lparr>doc_id = 1, name = Some ''Charlie'', age = Some 40,
                                      favoriteFoods = [''sandwich'']\<rparr>]\<rparr>) =
       finished (delegate (Document_save Person \<lparr>doc_id = 1, name = Some ''Charlie'', age = Some 40,
                                       favoriteFoods = [''sandwich'', ''hamburger'']\<rparr>) recorder)
         (empty_world\<lparr>collection := [\<lparr>doc_id = 1, name = Some ''Charlie'', age = Some 40,
                                       favoriteFoods = [''sandwich'']\<rparr>],
                      trace := [Called (On_model ''Person'' (FindOne (Id_is 1))),
                                Answered (On_model ''Person'' (FindOne (Id_is 1))) None]\<rparr>)"
proof -
  let ?c = "\<lparr>doc_id = 1, name = Some ''Charlie'', age = Some 40, favoriteFoods = [''sandwich'']\<rparr>"
  let ?w1 = "empty_world\<lparr>faults := [Some ''down'']\<rparr>"
  let ?w2 = "empty_world\<lparr>collection := [?c]\<rparr>"
  let ?w3 = "empty_world\<lparr>collection := [?c],
                          trace := [Called (On_model ''Person'' (FindOne (Id_is 1))),
                                    Answered (On_model ''Person'' (FindOne (Id_is 1))) None]\<rparr>"
  have wb: "well_behaved recorder"
    by (simp add: well_behaved_def recorder_def)
  have down: "fst (answered (Model_findById Person 1) ?w1) = Rejected (Err ''down'')"
    by (simp add: lib_defs empty_world_def)
  have found: "answered (Model_findById Person 1) ?w2 = (Fulfilled (Doc ?c), ?w3)"
    by (simp add: lib_defs empty_world_def Person_def)
  from operations_delegate [OF wb, where r = "idle empty_world" and food = "''burritos''"]
  have a: "findOneByFood ''burritos'' recorder (idle empty_world) =
             delegate (Model_findOne Person (Food_is ''burritos'')) recorder (idle empty_world)"
    and b: "queryChain recorder (idle empty_world) =
       delegate (exec (select_q (limit_q (sort_q (Model_find Person (Food_is ''burritos''))
                                            Name_ascending) 2) Minus_age)) recorder (idle empty_world)"
    by blast+
  from operations_delegate [OF wb, where w = ?w1 and personId = 1 and e = "Err ''down''"] down
  have c: "finished (findEditThenSave 1 recorder) ?w1 =
             finished (delegate (Model_findById Person 1) recorder) ?w1"
    by blast
  from operations_delegate [OF wb, where w = ?w2 and personId = 1 and d = ?c and ?w1.0 = ?w3] found
  have d: "finished (findEditThenSave 1 recorder) ?w2 =
             finished (delegate (Document_save Person (?c\<lparr>favoriteFoods := favoriteFoods ?c @ [''hamburger'']\<rparr>))
               recorder) ?w3"
    by blast
  from wb a b down c found d show ?thesis by simp
qed

section \<open>How often the callback is invoked\<close>

text \<open>
  C4 at the input where the code departs from it. \<open>findEditThenSave\<close> with an id that no
  document has, on the empty database: the callback is invoked with the error
  \<open>'Person not found'\<close> and then a second time with \<open>(null, undefined)\<close>, because the value
  returned from the first handler is passed on to the second.
\<close>

theorem findEditThenSave_calls_back_twice:
  "invocations (trace (snd (finished (findEditThenSave 7 recorder) empty_world))) =
     [(Err ''Person not found'', Undefined), (Null, Undefined)]"
  by (simp add: finished_findEditThenSave then_p_def catch_p_def recorder_def empty_world_def
      lib_defs Person_def)

section \<open>Callback style and back\<close>

lemma cbToPromise_node_style_state:
  assumes "keeps_cells operation"
  shows "(case cbToPromise (node_style operation) (idle w) of (k, r) \<Rightarrow> state_of k (state r)) = Pending"
    and "fst (awaited (cbToPromise (node_style operation) (idle w))) =
         (case fst (answered operation (w\<lparr>cells := cells w @ [Pending]\<rparr>)) of
            Fulfilled v \<Rightarrow> Fulfilled v
          | Rejected e \<Rightarrow> if truthy e then Rejected e else Fulfilled Undefined
          | Pending \<Rightarrow> Pending)"
proof -
  let ?w0 = "w\<lparr>cells := cells w @ [Pending]\<rparr>"
  obtain p w1 where op: "operation ?w0 = (p, w1)" by (cases "operation ?w0")
  obtain s w2 where ans: "p w1 = (s, w2)" by (cases "p w1")
  from assms have "cells (snd (operation ?w0)) = cells ?w0"
    and "cells (snd (fst (operation ?w0) w1)) = cells w1"
    by (simp_all add: keeps_cells_def)
  with op ans have c1: "cells w1 = cells w @ [Pending]" and c2: "cells w2 = cells w @ [Pending]"
    by simp_all
  show "(case cbToPromise (node_style operation) (idle w) of (k, r) \<Rightarrow> state_of k (state r)) = Pending"
    by (simp add: node_style_def cbToPromise_def state_of_def in_world_split pend_def op c1
        nth_append Let_def)
  show "fst (awaited (cbToPromise (node_style operation) (idle w))) =
         (case fst (answered operation ?w0) of
            Fulfilled v \<Rightarrow> Fulfilled v
          | Rejected e \<Rightarrow> if truthy e then Rejected e else Fulfilled Undefined
          | Pending \<Rightarrow> Pending)"
    by (cases s)
       (simp_all add: node_style_def promise_defs in_world_split pend_def answered_def
          then_p_def catch_p_def op ans c1 c2 nth_append Let_def)
qed

lemma cbToPromise_throw_state:
  assumes "\<And>done r. fst (fn done r) = Throw e"
      and "\<And>done r. cells (state (snd (fn done r))) = cells (state r)"
  shows "fst (awaited (cbToPromise fn (idle w))) = Rejected e"
proof -
  let ?cb = "\<lambda>err data w'. if truthy err then (Return Undefined, reject (length (cells w)) err w')
                          else (Return Undefined, resolve (length (cells w)) data w')"
  let ?r0 = "idle w\<lparr>state := w\<lparr>cells := cells w @ [Pending]\<rparr>\<rparr>"
  obtain c r1 where f: "fn ?cb ?r0 = (c, r1)" by (cases "fn ?cb ?r0")
  from assms(1) [of ?cb ?r0] f have c: "c = Throw e" by simp
  from assms(2) [of ?cb ?r0] f have w1: "cells (state r1) = cells w @ [Pending]" by simp
  show ?thesis
    by (cases "queue r1") (simp_all add: promise_defs f c w1 nth_append Let_def)
qed

lemma keeps_cells_findOne: "keeps_cells (Model_findOne m c)"
  by (simp add: keeps_cells_def lib_defs Let_def split: option.split list.split)

text \<open>
  C6, as stated, fails. A promise rejected with \<open>null\<close> comes back fulfilled with
  \<open>undefined\<close>, because the callback made by \<open>cbToPromise\<close> takes a falsy first argument for
  success; and a function that calls back with a result and then throws leaves the
  promise fulfilled with that result, because a settled promise is not settled again.
\<close>

theorem cbToPromise_falsy_rejection:
  "fst (awaited (cbToPromise (node_style (\<lambda>w. (\<lambda>w'. (Rejected Null, w'), w))) (idle empty_world)))
     = Fulfilled Undefined
   \<and> fst (awaited (cbToPromise
                     (\<lambda>done r. (Throw (Err ''late''), r\<lparr>state := snd (done Null (Num 1) (state r))\<rparr>))
                     (idle empty_world)))
     = Fulfilled (Num 1)"
  by (simp add: node_style_def promise_defs in_world_split pend_def then_p_def catch_p_def
      empty_world_def Let_def)

text \<open>
  A function that chains a handler on a promise, to call back from there, and then
  throws: the promise is rejected at once with what was thrown, and the call back that
  comes when the loop runs the chain does not change it.
\<close>

lemma cbToPromise_throw_after_chain:
  "(case awaited (cbToPromise
                   (\<lambda>done r. (Throw (Err ''late''),
                               pend (then_p (\<lambda>w. (Fulfilled (Num 1), w))
                                       (\<lambda>v w. settled (done Null v w))) r))
                   (idle empty_world))
    of (p, r) \<Rightarrow> (p, state_of 0 (drained r))) = (Rejected (Err ''late''), Rejected (Err ''late''))"
  by (simp add: promise_defs pend_def drained_def then_p_def empty_world_def Let_def)

text \<open>
  C6, amended. For every promise-producing operation that leaves the script's promises
  alone, converting it to callback style and back with \<open>cbToPromise\<close> yields a promise
  that is pending when \<open>cbToPromise\<close> returns and, awaited, is fulfilled with the value of
  the operation's promise when that is fulfilled, rejected with its reason when that is
  rejected with a truthy reason (every \<open>Error\<close> is truthy), fulfilled with \<open>undefined\<close> when
  it is rejected with a falsy reason, and pending while it is pending. \<open>cbToPromise\<close>
  rejects with what the wrapped function throws when the function throws without having
  settled the promise through its callback.
\<close>

theorem cbToPromise_round_trip:
  "(keeps_cells operation \<longrightarrow>
      (case cbToPromise (node_style operation) (idle w) of (k, r) \<Rightarrow> state_of k (state r)) = Pending \<and>
      fst (awaited (cbToPromise (node_style operation) (idle w))) =
      (case fst (answered operation (w\<lparr>cells := cells w @ [Pending]\<rparr>)) of
         Fulfilled v \<Rightarrow> Fulfilled v
       | Rejected e \<Rightarrow> if truthy e then Rejected e else Fulfilled Undefined
       | Pending \<Rightarrow> Pending))
   \<and> ((\<forall>done r'. fst (fn done r') = Throw e \<and> cells (state (snd (fn done r'))) = cells (state r')) \<longrightarrow>
      fst (awaited (cbToPromise fn (idle w))) = Rejected e)"
  using cbToPromise_node_style_state [of operation w] cbToPromise_throw_state [of fn e w]
  by blast

text \<open>
  The amended C6 at concrete inputs: a \<open>findOne\<close> that is scripted to fail, one that finds
  a document, and a function that throws at once.
\<close>

theorem cbToPromise_round_trip_witness:
  "keeps_cells (Model_findOne Person (Food_is ''burritos''))
   \<and> fst (awaited (cbToPromise (node_style (Model_findOne Person (Food_is ''burritos'')))
             (idle (empty_world\<lparr>faults := [Some ''down'']\<rparr>))))
       = Rejected (Err ''down'')
   \<and> fst (awaited (cbToPromise (node_style (Model_findOne Person (Food_is ''burritos'')))
             (idle (empty_world\<lparr>collection := [\<lparr>doc_id = 2, name = Some ''John'', age = Some 25,
                                           favoriteFoods = [''pizza'', ''burritos'']\<rparr>]\<rparr>))))
       = Fulfilled (Doc \<lparr>doc_id = 2, name = Some ''John'', age = Some 25,
                         favoriteFoods = [''pizza'', ''burritos'']\<rparr>)
   \<and> fst (awaited (cbToPromise (\<lambda>done r. (Throw (Err ''boom''), r)) (idle empty_world)))
       = Rejected (Err ''boom'')"
proof -
  let ?op = "Model_findOne Person (Food_is ''burritos'')"
  let ?fn = "\<lambda>(done :: callback) (r :: runtime). (Throw (Err ''boom''), r)"
  let ?w2 = "empty_world\<lparr>collection := [\<lparr>doc_id = 2, name = Some ''John'', age = Some 25,
                                           favoriteFoods = [''pizza'', ''burritos'']\<rparr>]\<rparr>"
  have k: "keeps_cells ?op" by (rule keeps_cells_findOne)
  have t: "\<forall>done r'. fst (?fn done r') = Throw (Err ''boom'') \<and>
                     cells (state (snd (?fn done r'))) = cells (state r')"
    by simp
  from cbToPromise_round_trip [of ?op "empty_world\<lparr>faults := [Some ''down'']\<rparr>"] k
  have a: "fst (awaited (cbToPromise (node_style ?op) (idle (empty_world\<lparr>faults := [Some ''down'']\<rparr>))))
             = Rejected (Err ''down'')"
    by (simp add: lib_defs empty_world_def)
  from cbToPromise_round_trip [of ?op ?w2] k
  have b: "fst (awaited (cbToPromise (node_style ?op) (idle ?w2))) =
             Fulfilled (Doc \<lparr>doc_id = 2, name = Some ''John'', age = Some 25,
                         favoriteFoods = [''pizza'', ''burritos'']\<rparr>)"
    by (simp add: lib_defs empty_world_def)
  from cbToPromise_round_trip [where fn = ?fn and e = "Err ''boom''" and w = empty_world] t
  have c: "fst (awaited (cbToPromise ?fn (idle empty_world))) = Rejected (Err ''boom'')"
    by blast
  from k a b c show ?thesis by (intro conjI)
qed

section \<open>Round trips that succeed\<close>

lemma next_outcome_None:
  "next_succeed (Suc n) w \<Longrightarrow> (case faults w of [] \<Rightarrow> None | f # x \<Rightarrow> f) = None"
  by (cases "faults w") (simp_all add: next_succeed_def)

lemma round_trip_succeeds:
  "next_succeed (Suc n) w \<Longrightarrow>
   answered (round_trip c body) w =
     (let (v, w2) = body (w\<lparr>faults := tl (faults w), trace := trace w @ [Called c, Answered c None]\<rparr>)
      in (Fulfilled v, w2))"
  by (simp add: round_trip_def answered_def emit_def next_outcome_None)

lemma answered_cong: "(\<And>w. f w = g w) \<Longrightarrow> answered f = answered g"
  by (rule ext) (simp add: answered_def)

lemma answered_exec: "answered (exec q) = answered (round_trip (On_model (q_model q) (Exec q)) (\<lambda>w'. (Docs (run_query q (collection w')), w')))"
  by (rule answered_cong) (simp add: exec_def)

section \<open>The chained query\<close>

lemma chain_query:
  "run_query (select_q (limit_q (sort_q (Model_find Person (Food_is ''burritos'')) Name_ascending) 2)
                Minus_age) ds =
     map (\<lambda>d. d\<lparr>age := None\<rparr>)
       (take 2 (sort_key name (filter (\<lambda>d. ''burritos'' \<in> set (favoriteFoods d)) ds)))"
proof -
  have p: "projected (Some Minus_age) = (\<lambda>d. d\<lparr>age := None\<rparr>)"
    by (rule ext) simp
  have m: "matches (Food_is ''burritos'') = (\<lambda>d. ''burritos'' \<in> set (favoriteFoods d))"
    by (rule ext) simp
  show ?thesis
    by (simp add: run_query_def select_q_def limit_q_def sort_q_def Model_find_def p m)
qed

lemma node_style_delegate_fun:
  "well_behaved done \<Longrightarrow> node_style call done = delegate call done"
  by (rule ext) (rule node_style_delegate)

text \<open>
  C2. \<open>queryChain\<close> makes one library call, the execution of the query built by the chain
  \<open>find\<close>, \<open>sort\<close>, \<open>limit\<close>, \<open>select\<close>, and returns; nothing else has happened then. When the
  round trip succeeds, its answer is handed unchanged to the callback, once, with a
  \<open>null\<close> error. The answer is the documents whose \<open>favoriteFoods\<close> contain \<open>'burritos'\<close>,
  sorted by name ascending, cut to the first two, each with its age projected away: at
  most two documents, in name order, all from the collection and all with burritos
  among their foods.
\<close>

theorem queryChain_result:
  assumes "well_behaved done" and "next_succeed 1 w"
  shows "state (snd (queryChain done (idle w))) =
           w\<lparr>trace := trace w @
                [Called (On_model ''Person''
                          (Exec \<lparr>q_model = ''Person'', q_conditions = Food_is ''burritos'',
                                 q_sort = Some Name_ascending, q_limit = Some 2,
                                 q_select = Some Minus_age\<rparr>))]\<rparr>
       \<and> finished (queryChain done) w =
           (Return Undefined,
            snd (done Null
                   (Docs (map (\<lambda>d. d\<lparr>age := None\<rparr>)
                            (take 2 (sort_key name
                               (filter (\<lambda>d. ''burritos'' \<in> set (favoriteFoods d)) (collection w))))))
                   (w\<lparr>faults := tl (faults w),
                      trace := trace w @
                        [Called (On_model ''Person''
                               (Exec \<lparr>q_model = ''Person'', q_conditions = Food_is ''burritos'',
                                      q_sort = Some Name_ascending, q_limit = Some 2,
                                      q_select = Some Minus_age\<rparr>)),
                         Answered (On_model ''Person''
                               (Exec \<lparr>q_model = ''Person'', q_conditions = Food_is ''burritos'',
                                      q_sort = Some Name_ascending, q_limit = Some 2,
                                      q_select = Some Minus_age\<rparr>)) None]\<rparr>)))
       \<and> length (take 2 (sort_key name
                    (filter (\<lambda>d. ''burritos'' \<in> set (favoriteFoods d)) (collection w)))) \<le> 2
       \<and> sorted (map name (take 2 (sort_key name
                    (filter (\<lambda>d. ''burritos'' \<in> set (favoriteFoods d)) (collection w)))))
       \<and> (\<forall>d \<in> set (take 2 (sort_key name
                    (filter (\<lambda>d. ''burritos'' \<in> set (favoriteFoods d)) (collection w)))).
            d \<in> set (collection w) \<and> ''burritos'' \<in> set (favoriteFoods d))"
proof -
  let ?q = "select_q (limit_q (sort_q (Model_find Person (Food_is ''burritos'')) Name_ascending) 2)
              Minus_age"
  let ?q' = "\<lparr>q_model = ''Person'', q_conditions = Food_is ''burritos'',
              q_sort = Some Name_ascending, q_limit = Some 2, q_select = Some Minus_age\<rparr>"
  let ?hits = "filter (\<lambda>d. ''burritos'' \<in> set (favoriteFoods d)) (collection w)"
  have q: "?q = ?q'"
    by (simp add: select_q_def limit_q_def sort_q_def Model_find_def Person_def)
  from assms(2) have s: "next_succeed (Suc 0) w" by simp
  have f: "queryChain done = node_style (exec ?q) done"
    by (rule ext) (rule queryChain_node_style)
  have called: "state (snd (queryChain done (idle w))) =
                  w\<lparr>trace := trace w @ [Called (On_model ''Person'' (Exec ?q'))]\<rparr>"
    unfolding f q
    by (simp add: node_style_def in_world_split pend_def exec_def round_trip_def emit_def)
  have "finished (queryChain done) w = finished (delegate (exec ?q) done) w"
    by (simp only: f node_style_delegate_fun [OF assms(1)])
  also have "\<dots> = (Return Undefined,
       snd (done Null (Docs (run_query ?q' (collection w)))
              (w\<lparr>faults := tl (faults w),
                 trace := trace w @ [Called (On_model ''Person'' (Exec ?q')),
                                     Answered (On_model ''Person'' (Exec ?q')) None]\<rparr>)))"
    unfolding q
    by (simp add: finished_delegate answered_exec round_trip_succeeds [OF s])
  finally have run: "finished (queryChain done) w = (Return Undefined,
       snd (done Null (Docs (run_query ?q' (collection w)))
              (w\<lparr>faults := tl (faults w),
                 trace := trace w @ [Called (On_model ''Person'' (Exec ?q')),
                                     Answered (On_model ''Person'' (Exec ?q')) None]\<rparr>)))" .
  have rq: "run_query ?q' (collection w) = map (\<lambda>d. d\<lparr>age := None\<rparr>) (take 2 (sort_key name ?hits))"
    using chain_query [of "collection w"] by (simp only: q)
  have two: "length (take 2 (sort_key name ?hits)) \<le> 2" by simp
  have "sorted (map name (sort_key name ?hits))" by (rule sorted_sort_key)
  then have "sorted (take 2 (map name (sort_key name ?hits)))" by (rule sorted_wrt_take)
  then have ord: "sorted (map name (take 2 (sort_key name ?hits)))" by (simp add: take_map)
  have sub: "\<forall>d \<in> set (take 2 (sort_key name ?hits)).
               d \<in> set (collection w) \<and> ''burritos'' \<in> set (favoriteFoods d)"
  proof
    fix d assume "d \<in> set (take 2 (sort_key name ?hits))"
    then have "d \<in> set (sort_key name ?hits)" by (rule in_set_takeD)
    then show "d \<in> set (collection w) \<and> ''burritos'' \<in> set (favoriteFoods d)" by simp
  qed
  from run have run': "finished (queryChain done) w = (Return Undefined,
       snd (done Null (Docs (map (\<lambda>d. d\<lparr>age := None\<rparr>) (take 2 (sort_key name ?hits))))
              (w\<lparr>faults := tl (faults w),
                 trace := trace w @ [Called (On_model ''Person'' (Exec ?q')),
                                     Answered (On_model ''Person'' (Exec ?q')) None]\<rparr>)))"
    by (simp only: rq)
  from called run' two ord sub show ?thesis
    by (intro conjI)
qed

text \<open>C2 on a collection of four persons, three of whom like burritos.\<close>

theorem queryChain_result_witness:
  "well_behaved recorder
   \<and> next_succeed 1
        (empty_world\<lparr>collection :=
           [\<lparr>doc_id = 1, name = Some ''Peter'', age = Some 28, favoriteFoods = [''burritos'', ''burger'']\<rparr>,
            \<lparr>doc_id = 2, name = Some ''Alice'', age = Some 35, favoriteFoods = [''sushi'']\<rparr>,
            \<lparr>doc_id = 3, name = Some ''Mary'', age = Some 30, favoriteFoods = [''salad'', ''burritos'']\<rparr>,
            \<lparr>doc_id = 4, name = Some ''John'', age = Some 25, favoriteFoods = [''pizza'', ''burritos'']\<rparr>]\<rparr>)
   \<and> invocations (trace (snd (finished (queryChain recorder)
        (empty_world\<lparr>collection :=
           [\<lparr>doc_id = 1, name = Some ''Peter'', age = Some 28, favoriteFoods = [''burritos'', ''burger'']\<rparr>,
            \<lparr>doc_id = 2, name = Some ''Alice'', age = Some 35, favoriteFoods = [''sushi'']\<rparr>,
            \<lparr>doc_id = 3, name = Some ''Mary'', age = Some 30, favoriteFoods = [''salad'', ''burritos'']\<rparr>,
            \<lparr>doc_id = 4, name = Some ''John'', age = Some 25, favoriteFoods = [''pizza'', ''burritos'']\<rparr>]\<rparr>)))) =
       [(Null, Docs [\<lparr>doc_id = 4, name = Some ''John'', age = None, favoriteFoods = [''pizza'', ''burritos'']\<rparr>,
                     \<lparr>doc_id = 3, name = Some ''Mary'', age = None, favoriteFoods = [''salad'', ''burritos'']\<rparr>])]"
proof -
  let ?ds = "[\<lparr>doc_id = 1, name = Some ''Peter'', age = Some 28, favoriteFoods = [''burritos'', ''burger'']\<rparr>,
            \<lparr>doc_id = 2, name = Some ''Alice'', age = Some 35, favoriteFoods = [''sushi'']\<rparr>,
            \<lparr>doc_id = 3, name = Some ''Mary'', age = Some 30, favoriteFoods = [''salad'', ''burritos'']\<rparr>,
            \<lparr>doc_id = 4, name = Some ''John'', age = Some 25, favoriteFoods = [''pizza'', ''burritos'']\<rparr>]"
  let ?w = "empty_world\<lparr>collection := ?ds\<rparr>"
  have wb: "well_behaved recorder" by (rule well_behaved_recorder)
  have ns: "next_succeed 1 ?w" by (simp add: next_succeed_def empty_world_def)
  have sorted2: "take 2 (sort_key name (filter (\<lambda>d. ''burritos'' \<in> set (favoriteFoods d)) ?ds)) =
     [\<lparr>doc_id = 4, name = Some ''John'', age = Some 25, favoriteFoods = [''pizza'', ''burritos'']\<rparr>,
      \<lparr>doc_id = 3, name = Some ''Mary'', age = Some 30, favoriteFoods = [''salad'', ''burritos'']\<rparr>]"
    by code_simp
  from queryChain_result [OF wb ns]
  have "finished (queryChain recorder) ?w =
           (Return Undefined,
            snd (recorder Null
                   (Docs (map (\<lambda>d. d\<lparr>age := None\<rparr>)
                            (take 2 (sort_key name
                               (filter (\<lambda>d. ''burritos'' \<in> set (favoriteFoods d)) (collection ?w))))))
                   (?w\<lparr>faults := tl (faults ?w),
                      trace := trace ?w @
                        [Called (On_model ''Person''
                               (Exec \<lparr>q_model = ''Person'', q_conditions = Food_is ''burritos'',
                                      q_sort = Some Name_ascending, q_limit = Some 2,
                                      q_select = Some Minus_age\<rparr>)),
                         Answered (On_model ''Person''
                               (Exec \<lparr>q_model = ''Person'', q_conditions = Food_is ''burritos'',
                                      q_sort = Some Name_ascending, q_limit = Some 2,
                                      q_select = Some Minus_age\<rparr>)) None]\<rparr>)))"
    by blast
  then have "invocations (trace (snd (finished (queryChain recorder) ?w))) =
       [(Null, Docs [\<lparr>doc_id = 4, name = Some ''John'', age = None, favoriteFoods = [''pizza'', ''burritos'']\<rparr>,
                     \<lparr>doc_id = 3, name = Some ''Mary'', age = None, favoriteFoods = [''salad'', ''burritos'']\<rparr>])]"
    by (simp add: sorted2 recorder_def emit_def empty_world_def)
  with wb ns show ?thesis by (intro conjI)
qed

section \<open>Find, edit, then save\<close>

lemma validate_Person:
  "validate Person d =
     (if has_name d then None
      else Some ''Person validation failed: name: Path name is required.'')"
  by (simp add: validate_def Person_def personSchema_def path_unset_def has_name_def
      split: option.split)

lemma find_Some_split:
  "find P xs = Some d \<Longrightarrow> \<exists>pre post. xs = pre @ d # post \<and> (\<forall>x\<in>set pre. \<not> P x) \<and> P d"
proof (induction xs)
  case Nil
  then show ?case by simp
next
  case (Cons x xs)
  show ?case
  proof (cases "P x")
    case True
    with Cons.prems have "x = d" by simp
    with True have "x # xs = [] @ d # xs \<and> (\<forall>y\<in>set []. \<not> P y) \<and> P d" by simp
    then show ?thesis by blast
  next
    case False
    with Cons.prems have "find P xs = Some d" by simp
    from Cons.IH [OF this] obtain pre post
      where "xs = pre @ d # post" "\<forall>y\<in>set pre. \<not> P y" "P d" by blast
    with False have "x # xs = (x # pre) @ d # post \<and> (\<forall>y\<in>set (x # pre). \<not> P y) \<and> P d"
      by simp
    then show ?thesis by blast
  qed
qed

lemma store_replaces:
  "\<forall>x\<in>set pre. doc_id x \<noteq> doc_id d' \<Longrightarrow> doc_id d = doc_id d' \<Longrightarrow>
   store d' (pre @ d # post) = pre @ d' # post"
  by (induction pre) simp_all

lemma find_None_iff_no_match: "find P xs = None \<longleftrightarrow> (\<forall>x\<in>set xs. \<not> P x)"
  by (induction xs) simp_all


lemma Person_name: "model_name Person = ''Person''"
  by (simp add: Person_def)

lemma next_succeed_after:
  "next_succeed (Suc n) w \<Longrightarrow> faults r = tl (faults w) \<Longrightarrow> next_succeed n r"
  by (cases "faults w") (simp_all add: next_succeed_def)

lemma answered_findById:
  "answered (Model_findById m i) =
     answered (round_trip (On_model (model_name m) (FindOne (Id_is i)))
       (\<lambda>w'. (case find (matches (Id_is i)) (collection w') of None \<Rightarrow> Null | Some d \<Rightarrow> Doc d, w')))"
  by (rule answered_cong) (simp add: Model_findById_def Model_findOne_def)

lemma answered_save_valid:
  "validate m d = None \<Longrightarrow>
   answered (Document_save m d) =
     answered (round_trip (On_model (model_name m) (Save d))
                 (\<lambda>w'. (Doc d, w'\<lparr>collection := store d (collection w')\<rparr>)))"
  by (rule answered_cong) (simp add: Document_save_def)

lemma findEditThenSave_found_run:
  assumes found: "find (matches (Id_is personId)) (collection w) = Some d"
      and named: "has_name d"
      and ok: "next_succeed 2 w"
  shows "finished (findEditThenSave personId done) w =
           finished (node_style (Document_save Person
                                   (d\<lparr>favoriteFoods := favoriteFoods d @ [''hamburger'']\<rparr>)) done)
             (w\<lparr>faults := tl (faults w),
                trace := trace w @ [Called (On_model ''Person'' (FindOne (Id_is personId))),
                                    Answered (On_model ''Person'' (FindOne (Id_is personId))) None]\<rparr>)"
    and "answered (Document_save Person (d\<lparr>favoriteFoods := favoriteFoods d @ [''hamburger'']\<rparr>))
           (w\<lparr>faults := tl (faults w),
              trace := trace w @ [Called (On_model ''Person'' (FindOne (Id_is personId))),
                                  Answered (On_model ''Person'' (FindOne (Id_is personId))) None],
              cells := cs\<rparr>) =
         (Fulfilled (Doc (d\<lparr>favoriteFoods := favoriteFoods d @ [''hamburger'']\<rparr>)),
          w\<lparr>faults := tl (tl (faults w)),
            trace := trace w @
              [Called (On_model ''Person'' (FindOne (Id_is personId))),
               Answered (On_model ''Person'' (FindOne (Id_is personId))) None,
               Called (On_model ''Person''
                      (Save (d\<lparr>favoriteFoods := favoriteFoods d @ [''hamburger'']\<rparr>))),
               Answered (On_model ''Person''
                      (Save (d\<lparr>favoriteFoods := favoriteFoods d @ [''hamburger'']\<rparr>))) None],
            collection := store (d\<lparr>favoriteFoods := favoriteFoods d @ [''hamburger'']\<rparr>) (collection w),
            cells := cs\<rparr>)"
proof -
  let ?d' = "d\<lparr>favoriteFoods := favoriteFoods d @ [''hamburger'']\<rparr>"
  let ?w1 = "w\<lparr>faults := tl (faults w),
               trace := trace w @ [Called (On_model ''Person'' (FindOne (Id_is personId))),
                                   Answered (On_model ''Person'' (FindOne (Id_is personId))) None]\<rparr>"
  from ok have s1: "next_succeed (Suc (Suc 0)) w" by (simp add: numeral_2_eq_2)
  have look: "answered (Model_findById Person personId) w = (Fulfilled (Doc d), ?w1)"
    by (simp add: answered_findById round_trip_succeeds [OF s1] found Person_name)
  show "finished (findEditThenSave personId done) w = finished (node_style (Document_save Person ?d') done) ?w1"
    by (simp add: finished_findEditThenSave finished_node_style then_p_def catch_p_def look)
  have s2: "next_succeed (Suc 0) (?w1\<lparr>cells := cs\<rparr>)"
    by (rule next_succeed_after [OF s1]) simp
  from named have v: "validate Person ?d' = None"
    by (simp add: validate_Person has_name_def)
  show "answered (Document_save Person ?d') (?w1\<lparr>cells := cs\<rparr>) =
         (Fulfilled (Doc ?d'),
          w\<lparr>faults := tl (tl (faults w)),
            trace := trace w @
              [Called (On_model ''Person'' (FindOne (Id_is personId))),
               Answered (On_model ''Person'' (FindOne (Id_is personId))) None,
               Called (On_model ''Person'' (Save ?d')),
               Answered (On_model ''Person'' (Save ?d')) None],
            collection := store ?d' (collection w),
            cells := cs\<rparr>)"
    by (simp add: answered_save_valid [OF v] round_trip_succeeds [OF s2] Person_name)
qed

lemma findEditThenSave_missing_run:
  assumes missing: "find (matches (Id_is personId)) (collection w) = None"
      and ok: "next_succeed 1 w"
  shows "answered (Model_findById Person personId) w =
           (Fulfilled Null,
            w\<lparr>faults := tl (faults w),
              trace := trace w @ [Called (On_model ''Person'' (FindOne (Id_is personId))),
                                  Answered (On_model ''Person'' (FindOne (Id_is personId))) None]\<rparr>)"
proof -
  from ok have s1: "next_succeed (Suc 0) w" by simp
  show ?thesis
    by (simp add: answered_findById round_trip_succeeds [OF s1] missing Person_name)
qed

section \<open>An operation function wrapped in cbToPromise and awaited\<close>

lemma called_cells:
  "cells (snd (round_trip c body w)) = cells w"
  "cells (snd (Document_save m d w)) = cells w"
  "cells (snd (Model_create m inps w)) = cells w"
  "cells (snd (exec q w)) = cells w"
  "cells (snd (Model_findOne m cnd w)) = cells w"
  "cells (snd (Model_findById m i w)) = cells w"
  "cells (snd (Model_findOneAndUpdate m cnd u new w)) = cells w"
  "cells (snd (Model_findOneAndRemove m cnd w)) = cells w"
  "cells (snd (Model_findByIdAndRemove m i w)) = cells w"
  "cells (snd (Model_deleteMany m cnd w)) = cells w"
  by (simp_all add: round_trip_def emit_def Document_save_def Model_findOne_def Model_findById_def
      Model_findOneAndUpdate_def Model_findOneAndRemove_def Model_findByIdAndRemove_def
      Model_deleteMany_def exec_def Model_create_def split: option.split)

text \<open>
  The promise is pending when \<open>cbToPromise\<close> returns; the \<^verbatim>\<open>await\<close> lets the loop run the
  one job that waits, which delivers the answer and calls back.
\<close>

lemma awaited_node_style:
  assumes "\<And>w. cells (snd (operation w)) = cells w"
  shows "awaited (cbToPromise (node_style operation) (idle w)) =
     (case answered operation (w\<lparr>cells := cells w @ [Pending]\<rparr>) of
        (Fulfilled v, w1) \<Rightarrow>
          (state_of (length (cells w)) (resolve (length (cells w)) v w1),
           idle (resolve (length (cells w)) v w1))
      | (Rejected e, w1) \<Rightarrow>
          if truthy e
          then (state_of (length (cells w)) (reject (length (cells w)) e w1),
                idle (reject (length (cells w)) e w1))
          else (state_of (length (cells w)) (resolve (length (cells w)) Undefined w1),
                idle (resolve (length (cells w)) Undefined w1))
      | (Pending, w1) \<Rightarrow> (state_of (length (cells w)) w1, idle w1))"
proof -
  let ?w0 = "w\<lparr>cells := cells w @ [Pending]\<rparr>"
  obtain p w1 where op: "operation ?w0 = (p, w1)" by (cases "operation ?w0")
  from assms [of ?w0] op have c1: "cells w1 = cells w @ [Pending]" by simp
  obtain s w2 where ans: "p w1 = (s, w2)" by (cases "p w1")
  then have a: "answered operation ?w0 = (s, w2)" by (simp add: answered_def op)
  have pend: "state_of (length (cells w)) w1 = Pending"
    by (simp add: state_of_def c1)
  show ?thesis
    unfolding a
    by (cases s)
       (simp_all add: node_style_def cbToPromise_def awaited_def in_world_split pend_def idle_def
          then_p_def catch_p_def op ans pend Let_def)
qed

lemma awaiting_node_style_fulfilled:
  assumes "\<And>cs. answered operation (w\<lparr>cells := cs\<rparr>) = (Fulfilled v, r\<lparr>cells := cs\<rparr>)"
      and "\<And>w. cells (snd (operation w)) = cells w"
  shows "awaiting (cbToPromise (node_style operation) (idle w)) rest =
           rest v (idle (r\<lparr>cells := cells w @ [Fulfilled v]\<rparr>))"
  by (simp add: awaiting_def resume_def awaited_node_style [OF assms(2)] assms(1)
      resolve_def settle_def state_of_def nth_append)

lemma awaited_findEditThenSave:
  "awaited (cbToPromise (findEditThenSave personId) (idle w)) =
     (let k = length (cells w);
          done = (\<lambda>err data w'. if truthy err then reject k err w' else resolve k data w');
          called = (\<lambda>sw. case sw of
                      (Fulfilled v, w') \<Rightarrow> done Null v w'
                    | (Rejected e, w') \<Rightarrow> done e Undefined w'
                    | (Pending, w') \<Rightarrow> w');
          w2 = (case answered (Model_findById Person personId) (w\<lparr>cells := cells w @ [Pending]\<rparr>) of
                  (Fulfilled person, w1) \<Rightarrow>
                    if \<not> truthy person
                    then done Null Undefined (done (Err ''Person not found'') Undefined w1)
                    else (case person of
                            Doc d \<Rightarrow>
                              called (answered (Document_save Person
                                        (d\<lparr>favoriteFoods := favoriteFoods d @ [''hamburger'']\<rparr>)) w1)
                          | _ \<Rightarrow> done (Err ''TypeError'') Undefined w1)
                | (Rejected e, w1) \<Rightarrow> done e Undefined w1
                | (Pending, w1) \<Rightarrow> w1)
      in (state_of k w2, idle w2))"
proof -
  let ?w0 = "w\<lparr>cells := cells w @ [Pending]\<rparr>"
  let ?call = "Model_findById Person personId"
  obtain p w1 where op: "?call ?w0 = (p, w1)" by (cases "?call ?w0")
  from called_cells(6) [of Person personId ?w0] op have c1: "cells w1 = cells w @ [Pending]" by simp
  obtain s w2 where ans: "p w1 = (s, w2)" by (cases "p w1")
  then have a: "answered ?call ?w0 = (s, w2)" by (simp add: answered_def op)
  have pend: "state_of (length (cells w)) w1 = Pending"
    by (simp add: state_of_def c1)
  show ?thesis
  proof (cases s)
    case Pending
    then show ?thesis
      by (simp add: findEditThenSave_def cbToPromise_def awaited_def in_world_split pend_def
          idle_def then_p_def catch_p_def op ans a pend Let_def)
  next
    case (Rejected e)
    then show ?thesis
      by (simp add: findEditThenSave_def cbToPromise_def awaited_def in_world_split pend_def
          idle_def then_p_def catch_p_def op ans a pend Let_def)
  next
    case (Fulfilled person)
    show ?thesis
    proof (cases "truthy person")
      case False
      with Fulfilled show ?thesis
        by (simp add: findEditThenSave_def cbToPromise_def awaited_def in_world_split pend_def
            idle_def then_p_def catch_p_def op ans a pend Let_def)
    next
      case True
      show ?thesis
      proof (cases person)
        case (Doc d)
        obtain s2 w3 where sv: "answered (Document_save Person
                    (d\<lparr>favoriteFoods := favoriteFoods d @ [''hamburger'']\<rparr>)) w2 = (s2, w3)"
          by (cases "answered (Document_save Person
                    (d\<lparr>favoriteFoods := favoriteFoods d @ [''hamburger'']\<rparr>)) w2")
        from Fulfilled Doc sv show ?thesis
          by (cases s2)
             (simp_all add: findEditThenSave_def cbToPromise_def awaited_def in_world_split pend_def
                idle_def then_p_def catch_p_def op ans a pend Let_def)
      qed (use Fulfilled True in
            \<open>simp_all add: findEditThenSave_def cbToPromise_def awaited_def in_world_split pend_def
                idle_def then_p_def catch_p_def op ans a pend Let_def\<close>)
    qed
  qed
qed

text \<open>
  C8. When the lookup and the save succeed and the first document with the given id is
  \<open>d\<close> (a document with its required name), \<open>findEditThenSave\<close> invokes the callback once,
  with \<open>null\<close> and the updated document, and the collection afterwards is the one before
  with \<open>d\<close> replaced, in its place, by the document of the same id, name and age whose
  foods are those of \<open>d\<close> followed by \<open>'hamburger'\<close>; every other document is as it was.
  When no document has the id and the lookup succeeds, the callback is invoked with the
  error \<open>'Person not found'\<close>, the promise \<open>cbToPromise\<close> makes of the call is rejected with
  that error, and the collection is unchanged.
\<close>

theorem findEditThenSave_effect:
  "(find (matches (Id_is personId)) (collection w) = Some d \<and> has_name d \<and> next_succeed 2 w \<longrightarrow>
      invocations (new_events w (snd (finished (findEditThenSave personId recorder) w))) =
        [(Null, Doc (d\<lparr>favoriteFoods := favoriteFoods d @ [''hamburger'']\<rparr>))]
      \<and> (\<exists>pre post.
            collection w = pre @ d # post \<and> (\<forall>x\<in>set pre. doc_id x \<noteq> personId) \<and>
            collection (snd (finished (findEditThenSave personId recorder) w)) =
              pre @ \<lparr>doc_id = personId, name = name d, age = age d,
                      favoriteFoods = favoriteFoods d @ [''hamburger'']\<rparr> # post))
   \<and> (find (matches (Id_is personId)) (collection w) = None \<and> next_succeed 1 w \<longrightarrow>
      (Err ''Person not found'', Undefined)
         \<in> set (invocations (new_events w (snd (finished (findEditThenSave personId recorder) w))))
      \<and> collection (snd (finished (findEditThenSave personId recorder) w)) = collection w
      \<and> (case awaited (cbToPromise (findEditThenSave personId) (idle w)) of
           (p, r) \<Rightarrow> p = Rejected (Err ''Person not found'') \<and> collection (state r) = collection w))"
proof (intro conjI impI)
  let ?d' = "d\<lparr>favoriteFoods := favoriteFoods d @ [''hamburger'']\<rparr>"
  let ?look = "[Called (On_model ''Person'' (FindOne (Id_is personId))),
                Answered (On_model ''Person'' (FindOne (Id_is personId))) None]"
  assume a: "find (matches (Id_is personId)) (collection w) = Some d \<and> has_name d \<and> next_succeed 2 w"
  then have found: "find (matches (Id_is personId)) (collection w) = Some d"
    and named: "has_name d" and ok: "next_succeed 2 w" by simp_all
  note run = findEditThenSave_found_run [OF found named ok]
  have r: "finished (findEditThenSave personId recorder) w =
      (Return Undefined,
       w\<lparr>faults := tl (tl (faults w)),
         trace := trace w @ ?look @
              [Called (On_model ''Person'' (Save ?d')),
               Answered (On_model ''Person'' (Save ?d')) None, Invoked Null (Doc ?d')],
         collection := store ?d' (collection w)\<rparr>)"
    using run(2) [of "cells w"]
    by (simp add: run(1) finished_node_style then_p_def catch_p_def recorder_def emit_def)
  show "invocations (new_events w (snd (finished (findEditThenSave personId recorder) w))) =
          [(Null, Doc ?d')]"
    by (simp add: r new_events_def)
  from find_Some_split [OF found] obtain pre post
    where split: "collection w = pre @ d # post"
      and before: "\<forall>x\<in>set pre. doc_id x \<noteq> personId"
      and here: "doc_id d = personId" by auto
  have d': "?d' = \<lparr>doc_id = personId, name = name d, age = age d,
                    favoriteFoods = favoriteFoods d @ [''hamburger'']\<rparr>"
    using here by simp
  have "store ?d' (pre @ d # post) = pre @ ?d' # post"
    by (rule store_replaces) (use before here in simp_all)
  with split have "collection (snd (finished (findEditThenSave personId recorder) w)) =
                     pre @ ?d' # post"
    by (simp add: r)
  with split before d'
  show "\<exists>pre post.
            collection w = pre @ d # post \<and> (\<forall>x\<in>set pre. doc_id x \<noteq> personId) \<and>
            collection (snd (finished (findEditThenSave personId recorder) w)) =
              pre @ \<lparr>doc_id = personId, name = name d, age = age d,
                      favoriteFoods = favoriteFoods d @ [''hamburger'']\<rparr> # post"
    by metis
next
  let ?look = "[Called (On_model ''Person'' (FindOne (Id_is personId))),
                Answered (On_model ''Person'' (FindOne (Id_is personId))) None]"
  assume a: "find (matches (Id_is personId)) (collection w) = None \<and> next_succeed 1 w"
  then have look: "answered (Model_findById Person personId) w =
           (Fulfilled Null, w\<lparr>faults := tl (faults w), trace := trace w @ ?look\<rparr>)"
    using findEditThenSave_missing_run by simp
  have r: "finished (findEditThenSave personId recorder) w =
      (Return Undefined,
       w\<lparr>faults := tl (faults w),
         trace := trace w @ ?look @
              [Invoked (Err ''Person not found'') Undefined, Invoked Null Undefined]\<rparr>)"
    by (simp add: finished_findEditThenSave then_p_def catch_p_def look recorder_def emit_def)
  show "(Err ''Person not found'', Undefined)
         \<in> set (invocations (new_events w (snd (finished (findEditThenSave personId recorder) w))))"
    by (simp add: r new_events_def)
  show "collection (snd (finished (findEditThenSave personId recorder) w)) = collection w"
    by (simp add: r)
  from a have look': "answered (Model_findById Person personId) (w\<lparr>cells := cells w @ [Pending]\<rparr>) =
           (Fulfilled Null,
            w\<lparr>cells := cells w @ [Pending], faults := tl (faults w), trace := trace w @ ?look\<rparr>)"
    using findEditThenSave_missing_run [of personId "w\<lparr>cells := cells w @ [Pending]\<rparr>"]
    by (simp add: next_succeed_def)
  show "case awaited (cbToPromise (findEditThenSave personId) (idle w)) of
           (p, r) \<Rightarrow> p = Rejected (Err ''Person not found'') \<and> collection (state r) = collection w"
    by (simp add: awaited_findEditThenSave look' resolve_def reject_def settle_def state_of_def
        nth_append Let_def)
qed

text \<open>C8 on a collection of two documents, and on the empty collection.\<close>

theorem findEditThenSave_effect_witness:
  "find (matches (Id_is 1))
     (collection (empty_world\<lparr>collection :=
        [\<lparr>doc_id = 2, name = Some ''Alice'', age = Some 35, favoriteFoods = [''sushi'']\<rparr>,
         \<lparr>doc_id = 1, name = Some ''Charlie'', age = Some 40, favoriteFoods = [''sandwich'']\<rparr>]\<rparr>)) =
     Some \<lparr>doc_id = 1, name = Some ''Charlie'', age = Some 40, favoriteFoods = [''sandwich'']\<rparr>
   \<and> has_name \<lparr>doc_id = 1, name = Some ''Charlie'', age = Some 40, favoriteFoods = [''sandwich'']\<rparr>
   \<and> invocations (new_events
        (empty_world\<lparr>collection :=
           [\<lparr>doc_id = 2, name = Some ''Alice'', age = Some 35, favoriteFoods = [''sushi'']\<rparr>,
            \<lparr>doc_id = 1, name = Some ''Charlie'', age = Some 40, favoriteFoods = [''sandwich'']\<rparr>]\<rparr>)
        (snd (finished (findEditThenSave 1 recorder)
           (empty_world\<lparr>collection :=
              [\<lparr>doc_id = 2, name = Some ''Alice'', age = Some 35, favoriteFoods = [''sushi'']\<rparr>,
               \<lparr>doc_id = 1, name = Some ''Charlie'', age = Some 40,
                  favoriteFoods = [''sandwich'']\<rparr>]\<rparr>)))) =
       [(Null, Doc \<lparr>doc_id = 1, name = Some ''Charlie'', age = Some 40,
                     favoriteFoods = [''sandwich'', ''hamburger'']\<rparr>)]
   \<and> find (matches (Id_is 7)) (collection empty_world) = None
   \<and> (Err ''Person not found'', Undefined)
        \<in> set (invocations (new_events empty_world
                 (snd (finished (findEditThenSave 7 recorder) empty_world))))
   \<and> collection (snd (finished (findEditThenSave 7 recorder) empty_world)) = collection empty_world"
proof -
  let ?c = "\<lparr>doc_id = 1, name = Some ''Charlie'', age = Some 40, favoriteFoods = [''sandwich'']\<rparr>"
  let ?w = "empty_world\<lparr>collection :=
              [\<lparr>doc_id = 2, name = Some ''Alice'', age = Some 35, favoriteFoods = [''sushi'']\<rparr>, ?c]\<rparr>"
  have f1: "find (matches (Id_is 1)) (collection ?w) = Some ?c"
    by (simp add: empty_world_def)
  have n1: "has_name ?c" by (simp add: has_name_def)
  have s2: "next_succeed 2 ?w" by (simp add: next_succeed_def empty_world_def)
  have f7: "find (matches (Id_is 7)) (collection empty_world) = None"
    by (simp add: empty_world_def)
  have s1: "next_succeed 1 empty_world" by (simp add: next_succeed_def empty_world_def)
  from findEditThenSave_effect [where personId = 1 and w = ?w and d = ?c] f1 n1 s2
  have a: "invocations (new_events ?w (snd (finished (findEditThenSave 1 recorder) ?w))) =
             [(Null, Doc (?c\<lparr>favoriteFoods := favoriteFoods ?c @ [''hamburger'']\<rparr>))]"
    by blast
  from findEditThenSave_effect [where personId = 7 and w = empty_world] f7 s1
  have b: "(Err ''Person not found'', Undefined)
             \<in> set (invocations (new_events empty_world
                      (snd (finished (findEditThenSave 7 recorder) empty_world))))"
    and c: "collection (snd (finished (findEditThenSave 7 recorder) empty_world)) =
              collection empty_world"
    by blast+
  from a have a': "invocations (new_events ?w (snd (finished (findEditThenSave 1 recorder) ?w))) =
       [(Null, Doc \<lparr>doc_id = 1, name = Some ''Charlie'', age = Some 40,
                     favoriteFoods = [''sandwich'', ''hamburger'']\<rparr>)]"
    by simp
  from f1 n1 a' f7 b c show ?thesis by (intro conjI)
qed

section \<open>A run in which nothing fails\<close>

lemma all_None_tl: "list_all (\<lambda>f. f = None) fs \<Longrightarrow> list_all (\<lambda>f. f = None) (tl fs) = True"
  by (cases fs) simp_all

lemma all_None_next: "list_all (\<lambda>f. f = None) (faults w) \<Longrightarrow> next_succeed n w"
  by (simp add: next_succeed_def list_all_iff) (meson in_set_takeD)

lemma round_trip_fault_free:
  "list_all (\<lambda>f. f = None) (faults w) \<Longrightarrow>
   answered (round_trip c body) w =
     (let (v, w2) = body (w\<lparr>faults := tl (faults w), trace := trace w @ [Called c, Answered c None]\<rparr>)
      in (Fulfilled v, w2))"
  by (rule round_trip_succeeds [of 0]) (rule all_None_next)

text \<open>Fresh identifiers.\<close>

lemma fold_max_start: "fold max ys (b::nat) = max (fold max ys 0) b"
proof (induction ys arbitrary: b)
  case Nil
  then show ?case by simp
next
  case (Cons y ys)
  have "fold max (y # ys) b = fold max ys (max y b)" by simp
  also have "\<dots> = max (fold max ys 0) (max y b)" by (rule Cons.IH)
  also have "\<dots> = max (max (fold max ys 0) y) b" by (simp only: max.assoc)
  also have "max (fold max ys 0) y = fold max ys y" by (rule Cons.IH [symmetric])
  also have "fold max ys y = fold max (y # ys) 0" by simp
  finally show ?case .
qed

lemma fold_max_mem: "x \<in> set xs \<Longrightarrow> x \<le> fold max xs (a::nat)"
proof (induction xs arbitrary: a)
  case Nil
  then show ?case by simp
next
  case (Cons y ys)
  have start: "fold max ys (max y a) = max (fold max ys 0) (max y a)"
    by (rule fold_max_start)
  show ?case
  proof (cases "x = y")
    case True
    then show ?thesis by (simp add: start)
  next
    case False
    with Cons.prems have "x \<in> set ys" by simp
    from Cons.IH [OF this, of "max y a"] show ?thesis by simp
  qed
qed

lemma below_fresh_id: "d \<in> set ds \<Longrightarrow> doc_id d < fresh_id ds"
proof -
  assume "d \<in> set ds"
  then have "doc_id d \<in> set (map doc_id ds)" by simp
  then have "doc_id d \<le> fold max (map doc_id ds) 0" by (rule fold_max_mem)
  then show ?thesis by (simp add: fresh_id_def)
qed

lemma fresh_id_Nil: "fresh_id [] = Suc 0"
  by (simp add: fresh_id_def)

lemma fresh_id_Cons: "fresh_id (d # ds) = max (Suc (doc_id d)) (fresh_id ds)"
proof -
  have "fold max (map doc_id ds) (doc_id d) = max (fold max (map doc_id ds) 0) (doc_id d)"
    by (rule fold_max_start)
  then have "fresh_id (d # ds) = Suc (max (fold max (map doc_id ds) 0) (doc_id d))"
    by (simp add: fresh_id_def)
  also have "\<dots> = max (Suc (doc_id d)) (Suc (fold max (map doc_id ds) 0))"
    by (simp only: max_Suc_Suc max.commute)
  finally show ?thesis by (simp only: fresh_id_def)
qed

lemma fresh_id_append: "fresh_id (ds @ es) = max (fresh_id ds) (fresh_id es)"
proof -
  have "fold max (map doc_id es) (fold max (map doc_id ds) 0) =
          max (fold max (map doc_id es) 0) (fold max (map doc_id ds) 0)"
    by (rule fold_max_start)
  then have "fresh_id (ds @ es) =
               Suc (max (fold max (map doc_id es) 0) (fold max (map doc_id ds) 0))"
    by (simp add: fresh_id_def)
  also have "\<dots> = max (Suc (fold max (map doc_id ds) 0)) (Suc (fold max (map doc_id es) 0))"
    by (simp only: max_Suc_Suc max.commute)
  finally show ?thesis by (simp only: fresh_id_def)
qed

lemma fresh_id_snoc: "doc_id d = fresh_id ds \<Longrightarrow> fresh_id (ds @ [d]) = Suc (fresh_id ds)"
  by (simp add: fresh_id_def)


lemma store_new: "\<forall>x\<in>set ds. doc_id x \<noteq> doc_id d \<Longrightarrow> store d ds = ds @ [d]"
  by (induction ds) simp_all

lemma store_fresh: "doc_id d = fresh_id ds \<Longrightarrow> store d ds = ds @ [d]"
proof (rule store_new)
  assume "doc_id d = fresh_id ds"
  then show "\<forall>x\<in>set ds. doc_id x \<noteq> doc_id d"
    using below_fresh_id [of _ ds] by fastforce
qed

lemma store_after_fresh: "doc_id d = fresh_id ds \<Longrightarrow> store d (ds @ es) = ds @ store d es"
proof -
  assume "doc_id d = fresh_id ds"
  then have "\<forall>x\<in>set ds. doc_id x \<noteq> doc_id d"
    using below_fresh_id [of _ ds] by fastforce
  then show ?thesis by (induction ds) simp_all
qed

lemma find_skip: "\<forall>x\<in>set ds. \<not> P x \<Longrightarrow> find P (ds @ es) = find P es"
  by (induction ds) simp_all

lemma find_after_fresh:
  "find (matches (Id_is (fresh_id ds))) (ds @ es) = find (matches (Id_is (fresh_id ds))) es"
proof (rule find_skip)
  show "\<forall>x\<in>set ds. \<not> matches (Id_is (fresh_id ds)) x"
    using below_fresh_id [of _ ds] by fastforce
qed

lemma save_new_doc:
  assumes "list_all (\<lambda>f. f = None) (faults w)"
      and "has_name d"
      and "doc_id d = fresh_id (collection w)"
  shows "answered (Document_save Person d) w =
           (Fulfilled (Doc d),
            w\<lparr>faults := tl (faults w),
              trace := trace w @ [Called (On_model ''Person'' (Save d)),
                                  Answered (On_model ''Person'' (Save d)) None],
              collection := collection w @ [d]\<rparr>)"
proof -
  from assms(2) have v: "validate Person d = None" by (simp add: validate_Person)
  show ?thesis
    using assms(1,3)
    by (simp add: answered_save_valid [OF v] round_trip_fault_free Person_name store_fresh)
qed

lemma answered_create:
  "answered (Model_create m inps) w =
     (let (ps, w1) = save_each m inps (w\<lparr>trace := trace w @ [Called (On_model (model_name m) (Create inps))]\<rparr>)
      in (case rejections ps of [] \<Rightarrow> Fulfilled (Docs (saved_docs ps)) | e # _ \<Rightarrow> Rejected e, w1))"
  by (simp add: answered_def Model_create_def emit_def)

lemma save_each_peopleData:
  assumes "list_all (\<lambda>f. f = None) (faults w)"
  shows "save_each Person peopleData w =
     ([Fulfilled (Doc \<lparr>doc_id = fresh_id (collection w), name = Some ''John'', age = Some 25,
           favoriteFoods = [''pizza'', ''burritos'']\<rparr>),
       Fulfilled (Doc \<lparr>doc_id = Suc (fresh_id (collection w)), name = Some ''Mary'', age = Some 30,
           favoriteFoods = [''salad'', ''burritos'']\<rparr>),
       Fulfilled (Doc \<lparr>doc_id = Suc (Suc (fresh_id (collection w))), name = Some ''Mary'', age = Some 22,
           favoriteFoods = [''pasta'']\<rparr>),
       Fulfilled (Doc \<lparr>doc_id = Suc (Suc (Suc (fresh_id (collection w)))), name = Some ''Peter'', age = Some 28,
           favoriteFoods = [''burritos'', ''burger'']\<rparr>),
       Fulfilled (Doc \<lparr>doc_id = Suc (Suc (Suc (Suc (fresh_id (collection w))))), name = Some ''Alice'',
           age = Some 35, favoriteFoods = [''sushi'']\<rparr>)],
      w\<lparr>faults := tl (tl (tl (tl (tl (faults w))))),
        trace := trace w @
          [Called (On_model ''Person'' (Save
             \<lparr>doc_id = fresh_id (collection w), name = Some ''John'', age = Some 25,
              favoriteFoods = [''pizza'', ''burritos'']\<rparr>)),
           Answered (On_model ''Person'' (Save
             \<lparr>doc_id = fresh_id (collection w), name = Some ''John'', age = Some 25,
              favoriteFoods = [''pizza'', ''burritos'']\<rparr>)) None,
           Called (On_model ''Person'' (Save
             \<lparr>doc_id = Suc (fresh_id (collection w)), name = Some ''Mary'', age = Some 30,
              favoriteFoods = [''salad'', ''burritos'']\<rparr>)),
           Answered (On_model ''Person'' (Save
             \<lparr>doc_id = Suc (fresh_id (collection w)), name = Some ''Mary'', age = Some 30,
              favoriteFoods = [''salad'', ''burritos'']\<rparr>)) None,
           Called (On_model ''Person'' (Save
             \<lparr>doc_id = Suc (Suc (fresh_id (collection w))), name = Some ''Mary'', age = Some 22,
              favoriteFoods = [''pasta'']\<rparr>)),
           Answered (On_model ''Person'' (Save
             \<lparr>doc_id = Suc (Suc (fresh_id (collection w))), name = Some ''Mary'', age = Some 22,
              favoriteFoods = [''pasta'']\<rparr>)) None,
           Called (On_model ''Person'' (Save
             \<lparr>doc_id = Suc (Suc (Suc (fresh_id (collection w)))), name = Some ''Peter'',
              age = Some 28, favoriteFoods = [''burritos'', ''burger'']\<rparr>)),
           Answered (On_model ''Person'' (Save
             \<lparr>doc_id = Suc (Suc (Suc (fresh_id (collection w)))), name = Some ''Peter'',
              age = Some 28, favoriteFoods = [''burritos'', ''burger'']\<rparr>)) None,
           Called (On_model ''Person'' (Save
             \<lparr>doc_id = Suc (Suc (Suc (Suc (fresh_id (collection w))))), name = Some ''Alice'',
              age = Some 35, favoriteFoods = [''sushi'']\<rparr>)),
           Answered (On_model ''Person'' (Save
             \<lparr>doc_id = Suc (Suc (Suc (Suc (fresh_id (collection w))))), name = Some ''Alice'',
              age = Some 35, favoriteFoods = [''sushi'']\<rparr>)) None],
        collection := collection w @
          [\<lparr>doc_id = fresh_id (collection w), name = Some ''John'', age = Some 25,
             favoriteFoods = [''pizza'', ''burritos'']\<rparr>,
           \<lparr>doc_id = Suc (fresh_id (collection w)), name = Some ''Mary'', age = Some 30,
             favoriteFoods = [''salad'', ''burritos'']\<rparr>,
           \<lparr>doc_id = Suc (Suc (fresh_id (collection w))), name = Some ''Mary'', age = Some 22,
             favoriteFoods = [''pasta'']\<rparr>,
           \<lparr>doc_id = Suc (Suc (Suc (fresh_id (collection w)))), name = Some ''Peter'', age = Some 28,
             favoriteFoods = [''burritos'', ''burger'']\<rparr>,
           \<lparr>doc_id = Suc (Suc (Suc (Suc (fresh_id (collection w))))), name = Some ''Alice'',
             age = Some 35, favoriteFoods = [''sushi'']\<rparr>]\<rparr>)"
  using assms
  by (simp add: peopleData_def new_doc_def save_new_doc has_name_def
      all_None_tl fresh_id_append fresh_id_Cons fresh_id_Nil)

lemma create_peopleData:
  assumes "list_all (\<lambda>f. f = None) (faults w)"
  shows "answered (Model_create Person peopleData) w =
     (Fulfilled (Docs
        [\<lparr>doc_id = fresh_id (collection w), name = Some ''John'', age = Some 25,
           favoriteFoods = [''pizza'', ''burritos'']\<rparr>,
         \<lparr>doc_id = Suc (fresh_id (collection w)), name = Some ''Mary'', age = Some 30,
           favoriteFoods = [''salad'', ''burritos'']\<rparr>,
         \<lparr>doc_id = Suc (Suc (fresh_id (collection w))), name = Some ''Mary'', age = Some 22,
           favoriteFoods = [''pasta'']\<rparr>,
         \<lparr>doc_id = Suc (Suc (Suc (fresh_id (collection w)))), name = Some ''Peter'', age = Some 28,
           favoriteFoods = [''burritos'', ''burger'']\<rparr>,
         \<lparr>doc_id = Suc (Suc (Suc (Suc (fresh_id (collection w))))), name = Some ''Alice'',
           age = Some 35, favoriteFoods = [''sushi'']\<rparr>]),
      w\<lparr>faults := tl (tl (tl (tl (tl (faults w))))),
        trace := trace w @
          [Called (On_model ''Person'' (Create peopleData)),
           Called (On_model ''Person'' (Save
             \<lparr>doc_id = fresh_id (collection w), name = Some ''John'', age = Some 25,
              favoriteFoods = [''pizza'', ''burritos'']\<rparr>)),
           Answered (On_model ''Person'' (Save
             \<lparr>doc_id = fresh_id (collection w), name = Some ''John'', age = Some 25,
              favoriteFoods = [''pizza'', ''burritos'']\<rparr>)) None,
           Called (On_model ''Person'' (Save
             \<lparr>doc_id = Suc (fresh_id (collection w)), name = Some ''Mary'', age = Some 30,
              favoriteFoods = [''salad'', ''burritos'']\<rparr>)),
           Answered (On_model ''Person'' (Save
             \<lparr>doc_id = Suc (fresh_id (collection w)), name = Some ''Mary'', age = Some 30,
              favoriteFoods = [''salad'', ''burritos'']\<rparr>)) None,
           Called (On_model ''Person'' (Save
             \<lparr>doc_id = Suc (Suc (fresh_id (collection w))), name = Some ''Mary'', age = Some 22,
              favoriteFoods = [''pasta'']\<rparr>)),
           Answered (On_model ''Person'' (Save
             \<lparr>doc_id = Suc (Suc (fresh_id (collection w))), name = Some ''Mary'', age = Some 22,
              favoriteFoods = [''pasta'']\<rparr>)) None,
           Called (On_model ''Person'' (Save
             \<lparr>doc_id = Suc (Suc (Suc (fresh_id (collection w)))), name = Some ''Peter'',
              age = Some 28, favoriteFoods = [''burritos'', ''burger'']\<rparr>)),
           Answered (On_model ''Person'' (Save
             \<lparr>doc_id = Suc (Suc (Suc (fresh_id (collection w)))), name = Some ''Peter'',
              age = Some 28, favoriteFoods = [''burritos'', ''burger'']\<rparr>)) None,
           Called (On_model ''Person'' (Save
             \<lparr>doc_id = Suc (Suc (Suc (Suc (fresh_id (collection w))))), name = Some ''Alice'',
              age = Some 35, favoriteFoods = [''sushi'']\<rparr>)),
           Answered (On_model ''Person'' (Save
             \<lparr>doc_id = Suc (Suc (Suc (Suc (fresh_id (collection w))))), name = Some ''Alice'',
              age = Some 35, favoriteFoods = [''sushi'']\<rparr>)) None],
        collection := collection w @
          [\<lparr>doc_id = fresh_id (collection w), name = Some ''John'', age = Some 25,
             favoriteFoods = [''pizza'', ''burritos'']\<rparr>,
           \<lparr>doc_id = Suc (fresh_id (collection w)), name = Some ''Mary'', age = Some 30,
             favoriteFoods = [''salad'', ''burritos'']\<rparr>,
           \<lparr>doc_id = Suc (Suc (fresh_id (collection w))), name = Some ''Mary'', age = Some 22,
             favoriteFoods = [''pasta'']\<rparr>,
           \<lparr>doc_id = Suc (Suc (Suc (fresh_id (collection w)))), name = Some ''Peter'', age = Some 28,
             favoriteFoods = [''burritos'', ''burger'']\<rparr>,
           \<lparr>doc_id = Suc (Suc (Suc (Suc (fresh_id (collection w))))), name = Some ''Alice'',
             age = Some 35, favoriteFoods = [''sushi'']\<rparr>]\<rparr>)"
proof -
  let ?w0 = "w\<lparr>trace := trace w @ [Called (On_model ''Person'' (Create peopleData))]\<rparr>"
  have ff: "list_all (\<lambda>f. f = None) (faults ?w0)" using assms by simp
  show ?thesis
    by (simp add: answered_create Person_name save_each_peopleData [OF ff])
qed

lemma change_first_no_match: "find P ds = None \<Longrightarrow> change_first P f ds = ds"
  by (induction ds) (simp_all split: if_splits)

lemma remove_first_no_match: "find P ds = None \<Longrightarrow> remove_first P ds = ds"
  by (induction ds) (simp_all split: if_splits)

lemma findOneAndUpdate_fault_free:
  assumes "list_all (\<lambda>f. f = None) (faults w)"
  shows "answered (Model_findOneAndUpdate m c u new) w =
     (Fulfilled (case find (matches c) (collection w) of
                   None \<Rightarrow> Null
                 | Some d \<Rightarrow> Doc (if new then apply_update u d else d)),
      w\<lparr>faults := tl (faults w),
        trace := trace w @ [Called (On_model (model_name m) (FindOneAndUpdate c u new)),
                            Answered (On_model (model_name m) (FindOneAndUpdate c u new)) None],
        collection := change_first (matches c) (apply_update u) (collection w)\<rparr>)"
proof -
  have a: "answered (Model_findOneAndUpdate m c u new) =
           answered (round_trip (On_model (model_name m) (FindOneAndUpdate c u new))
       (\<lambda>w'. case find (matches c) (collection w') of
                None \<Rightarrow> (Null, w')
              | Some d \<Rightarrow>
                  (Doc (if new then apply_update u d else d),
                   w'\<lparr>collection := change_first (matches c) (apply_update u) (collection w')\<rparr>)))"
    by (rule answered_cong) (simp add: Model_findOneAndUpdate_def)
  show ?thesis
    using assms
    by (cases "find (matches c) (collection w)")
       (simp_all add: a round_trip_fault_free change_first_no_match)
qed

lemma findOneAndRemove_fault_free:
  assumes "list_all (\<lambda>f. f = None) (faults w)"
  shows "answered (Model_findOneAndRemove m c) w =
     (Fulfilled (case find (matches c) (collection w) of None \<Rightarrow> Null | Some d \<Rightarrow> Doc d),
      w\<lparr>faults := tl (faults w),
        trace := trace w @ [Called (On_model (model_name m) (FindOneAndRemove c)),
                            Answered (On_model (model_name m) (FindOneAndRemove c)) None],
        collection := remove_first (matches c) (collection w)\<rparr>)"
proof -
  have a: "answered (Model_findOneAndRemove m c) =
           answered (round_trip (On_model (model_name m) (FindOneAndRemove c))
       (\<lambda>w'. case find (matches c) (collection w') of
                None \<Rightarrow> (Null, w')
              | Some d \<Rightarrow> (Doc d, w'\<lparr>collection := remove_first (matches c) (collection w')\<rparr>)))"
    by (rule answered_cong) (simp add: Model_findOneAndRemove_def)
  show ?thesis
    using assms
    by (cases "find (matches c) (collection w)")
       (simp_all add: a round_trip_fault_free remove_first_no_match)
qed

lemma cbToPromise_createAndSavePerson:
  "cbToPromise createAndSavePerson (idle w) =
     cbToPromise (node_style (Document_save Person
        (new_doc Person \<lparr>in_name = Some ''Charlie'', in_age = Some 40,
                         in_favoriteFoods = Some [''sandwich'']\<rparr> w))) (idle w)"
  by (simp add: cbToPromise_def createAndSavePerson_node_style new_doc_def)

lemma await_createAndSavePerson:
  assumes "list_all (\<lambda>f. f = None) (faults w)"
  shows "awaiting (cbToPromise createAndSavePerson (idle w)) rest =
     rest (Doc \<lparr>doc_id = fresh_id (collection w), name = Some ''Charlie'', age = Some 40, favoriteFoods = [''sandwich'']\<rparr>)
       (idle (w\<lparr>faults := tl (faults w),
          trace := trace w @ [Called (On_model ''Person'' (Save \<lparr>doc_id = fresh_id (collection w), name = Some ''Charlie'', age = Some 40, favoriteFoods = [''sandwich'']\<rparr>)),
                              Answered (On_model ''Person'' (Save \<lparr>doc_id = fresh_id (collection w), name = Some ''Charlie'', age = Some 40, favoriteFoods = [''sandwich'']\<rparr>)) None],
          collection := collection w @ [\<lparr>doc_id = fresh_id (collection w), name = Some ''Charlie'', age = Some 40, favoriteFoods = [''sandwich'']\<rparr>],
          cells := cells w @ [Fulfilled (Doc \<lparr>doc_id = fresh_id (collection w), name = Some ''Charlie'', age = Some 40, favoriteFoods = [''sandwich'']\<rparr>)]\<rparr>))"
  unfolding cbToPromise_createAndSavePerson
  by (rule awaiting_node_style_fulfilled)
     (simp_all add: assms new_doc_def save_new_doc has_name_def called_cells)

lemma await_findPeopleByName:
  assumes "list_all (\<lambda>f. f = None) (faults w)"
  shows "awaiting (cbToPromise (findPeopleByName personName) (idle w)) rest =
     rest (Docs (filter (matches (Name_is personName)) (collection w)))
       (idle (w\<lparr>faults := tl (faults w),
          trace := trace w @
            [Called (On_model ''Person'' (Exec (Model_find Person (Name_is personName)))),
             Answered (On_model ''Person'' (Exec (Model_find Person (Name_is personName)))) None],
          cells := cells w @
            [Fulfilled (Docs (filter (matches (Name_is personName)) (collection w)))]\<rparr>))"
proof -
  have f: "findPeopleByName personName = node_style (exec (Model_find Person (Name_is personName)))"
    by (rule ext)+ (rule findPeopleByName_node_style)
  have p: "projected None = (\<lambda>d. d)" by (rule ext) simp
  show ?thesis
    unfolding f
    by (rule awaiting_node_style_fulfilled)
       (simp_all add: assms answered_exec round_trip_fault_free run_query_def Model_find_def
          Person_name p called_cells)
qed

lemma answered_findOne:
  "answered (Model_findOne m c) =
     answered (round_trip (On_model (model_name m) (FindOne c))
       (\<lambda>w'. (case find (matches c) (collection w') of None \<Rightarrow> Null | Some d \<Rightarrow> Doc d, w')))"
  by (rule answered_cong) (simp add: Model_findOne_def)

lemma answered_findByIdAndRemove:
  "answered (Model_findByIdAndRemove m i) = answered (Model_findOneAndRemove m (Id_is i))"
  by (rule answered_cong) (simp add: Model_findByIdAndRemove_def)

lemma answered_deleteMany:
  "answered (Model_deleteMany m c) =
     answered (round_trip (On_model (model_name m) (DeleteMany c))
       (\<lambda>w'. (DeleteResult (length (filter (matches c) (collection w'))),
              w'\<lparr>collection := filter (\<lambda>d. \<not> matches c d) (collection w')\<rparr>)))"
  by (rule answered_cong) (simp add: Model_deleteMany_def)

lemma await_findOneByFood:
  assumes "list_all (\<lambda>f. f = None) (faults w)"
  shows "awaiting (cbToPromise (findOneByFood food) (idle w)) rest =
     rest (case find (matches (Food_is food)) (collection w) of None \<Rightarrow> Null | Some d \<Rightarrow> Doc d)
       (idle (w\<lparr>faults := tl (faults w),
          trace := trace w @ [Called (On_model ''Person'' (FindOne (Food_is food))),
                              Answered (On_model ''Person'' (FindOne (Food_is food))) None],
          cells := cells w @
            [Fulfilled (case find (matches (Food_is food)) (collection w) of
                          None \<Rightarrow> Null | Some d \<Rightarrow> Doc d)]\<rparr>))"
proof -
  have f: "findOneByFood food = node_style (Model_findOne Person (Food_is food))"
    by (rule ext)+ (rule findOneByFood_node_style)
  show ?thesis
    unfolding f
    by (rule awaiting_node_style_fulfilled)
       (simp_all add: assms answered_findOne round_trip_fault_free Person_name called_cells)
qed

lemma await_findPersonById:
  assumes "list_all (\<lambda>f. f = None) (faults w)"
  shows "awaiting (cbToPromise (findPersonById personId) (idle w)) rest =
     rest (case find (matches (Id_is personId)) (collection w) of None \<Rightarrow> Null | Some d \<Rightarrow> Doc d)
       (idle (w\<lparr>faults := tl (faults w),
          trace := trace w @ [Called (On_model ''Person'' (FindOne (Id_is personId))),
                              Answered (On_model ''Person'' (FindOne (Id_is personId))) None],
          cells := cells w @
            [Fulfilled (case find (matches (Id_is personId)) (collection w) of
                          None \<Rightarrow> Null | Some d \<Rightarrow> Doc d)]\<rparr>))"
proof -
  have f: "findPersonById personId = node_style (Model_findById Person personId)"
    by (rule ext)+ (rule findPersonById_node_style)
  show ?thesis
    unfolding f
    by (rule awaiting_node_style_fulfilled)
       (simp_all add: assms answered_findById round_trip_fault_free Person_name called_cells)
qed

lemma await_findAndUpdate:
  assumes "list_all (\<lambda>f. f = None) (faults w)"
  shows "awaiting (cbToPromise (findAndUpdate personName) (idle w)) rest =
     rest (case find (matches (Name_is personName)) (collection w) of
             None \<Rightarrow> Null | Some d \<Rightarrow> Doc (d\<lparr>age := Some 20\<rparr>))
       (idle (w\<lparr>faults := tl (faults w),
          trace := trace w @
            [Called (On_model ''Person'' (FindOneAndUpdate (Name_is personName) (Set_age 20) True)),
             Answered (On_model ''Person'' (FindOneAndUpdate (Name_is personName) (Set_age 20) True)) None],
          collection := change_first (matches (Name_is personName)) (apply_update (Set_age 20))
                          (collection w),
          cells := cells w @
            [Fulfilled (case find (matches (Name_is personName)) (collection w) of
                          None \<Rightarrow> Null | Some d \<Rightarrow> Doc (d\<lparr>age := Some 20\<rparr>))]\<rparr>))"
proof -
  have f: "findAndUpdate personName =
             node_style (Model_findOneAndUpdate Person (Name_is personName) (Set_age 20) True)"
    by (rule ext)+ (rule findAndUpdate_node_style)
  show ?thesis
    unfolding f
    by (rule awaiting_node_style_fulfilled)
       (simp_all add: assms findOneAndUpdate_fault_free Person_name called_cells split: option.split)
qed

lemma await_removeById:
  assumes "list_all (\<lambda>f. f = None) (faults w)"
  shows "awaiting (cbToPromise (removeById personId) (idle w)) rest =
     rest (case find (matches (Id_is personId)) (collection w) of None \<Rightarrow> Null | Some d \<Rightarrow> Doc d)
       (idle (w\<lparr>faults := tl (faults w),
          trace := trace w @ [Called (On_model ''Person'' (FindOneAndRemove (Id_is personId))),
                              Answered (On_model ''Person'' (FindOneAndRemove (Id_is personId))) None],
          collection := remove_first (matches (Id_is personId)) (collection w),
          cells := cells w @
            [Fulfilled (case find (matches (Id_is personId)) (collection w) of
                          None \<Rightarrow> Null | Some d \<Rightarrow> Doc d)]\<rparr>))"
proof -
  have f: "removeById personId = node_style (Model_findByIdAndRemove Person personId)"
    by (rule ext)+ (rule removeById_node_style)
  show ?thesis
    unfolding f
    by (rule awaiting_node_style_fulfilled)
       (simp_all add: assms answered_findByIdAndRemove findOneAndRemove_fault_free Person_name
          called_cells)
qed

lemma await_removeManyPeople:
  assumes "list_all (\<lambda>f. f = None) (faults w)"
  shows "awaiting (cbToPromise removeManyPeople (idle w)) rest =
     rest (DeleteResult (length (filter (matches (Name_is ''Mary'')) (collection w))))
       (idle (w\<lparr>faults := tl (faults w),
          trace := trace w @ [Called (On_model ''Person'' (DeleteMany (Name_is ''Mary''))),
                              Answered (On_model ''Person'' (DeleteMany (Name_is ''Mary''))) None],
          collection := filter (\<lambda>d. \<not> matches (Name_is ''Mary'') d) (collection w),
          cells := cells w @
            [Fulfilled (DeleteResult (length (filter (matches (Name_is ''Mary'')) (collection w))))]\<rparr>))"
proof -
  have f: "removeManyPeople = node_style (Model_deleteMany Person (Name_is ''Mary''))"
    by (rule ext)+ (rule removeManyPeople_node_style)
  show ?thesis
    unfolding f
    by (rule awaiting_node_style_fulfilled)
       (simp_all add: assms answered_deleteMany round_trip_fault_free Person_name called_cells)
qed

lemma await_createManyPeople:
  assumes "list_all (\<lambda>f. f = None) (faults w)"
  shows "awaiting (cbToPromise (createManyPeople peopleData) (idle w)) rest =
     rest (Docs [\<lparr>doc_id = fresh_id (collection w), name = Some ''John'', age = Some 25, favoriteFoods = [''pizza'', ''burritos'']\<rparr>, \<lparr>doc_id = Suc (fresh_id (collection w)), name = Some ''Mary'', age = Some 30, favoriteFoods = [''salad'', ''burritos'']\<rparr>, \<lparr>doc_id = Suc (Suc (fresh_id (collection w))), name = Some ''Mary'', age = Some 22, favoriteFoods = [''pasta'']\<rparr>, \<lparr>doc_id = Suc (Suc (Suc (fresh_id (collection w)))), name = Some ''Peter'', age = Some 28, favoriteFoods = [''burritos'', ''burger'']\<rparr>, \<lparr>doc_id = Suc (Suc (Suc (Suc (fresh_id (collection w))))), name = Some ''Alice'', age = Some 35, favoriteFoods = [''sushi'']\<rparr>])
       (idle (w\<lparr>faults := tl (tl (tl (tl (tl (faults w))))),
          trace := trace w @
            [Called (On_model ''Person'' (Create peopleData)),
             Called (On_model ''Person'' (Save \<lparr>doc_id = fresh_id (collection w), name = Some ''John'', age = Some 25, favoriteFoods = [''pizza'', ''burritos'']\<rparr>)), Answered (On_model ''Person'' (Save \<lparr>doc_id = fresh_id (collection w), name = Some ''John'', age = Some 25, favoriteFoods = [''pizza'', ''burritos'']\<rparr>)) None,
             Called (On_model ''Person'' (Save \<lparr>doc_id = Suc (fresh_id (collection w)), name = Some ''Mary'', age = Some 30, favoriteFoods = [''salad'', ''burritos'']\<rparr>)), Answered (On_model ''Person'' (Save \<lparr>doc_id = Suc (fresh_id (collection w)), name = Some ''Mary'', age = Some 30, favoriteFoods = [''salad'', ''burritos'']\<rparr>)) None,
             Called (On_model ''Person'' (Save \<lparr>doc_id = Suc (Suc (fresh_id (collection w))), name = Some ''Mary'', age = Some 22, favoriteFoods = [''pasta'']\<rparr>)), Answered (On_model ''Person'' (Save \<lparr>doc_id = Suc (Suc (fresh_id (collection w))), name = Some ''Mary'', age = Some 22, favoriteFoods = [''pasta'']\<rparr>)) None,
             Called (On_model ''Person'' (Save \<lparr>doc_id = Suc (Suc (Suc (fresh_id (collection w)))), name = Some ''Peter'', age = Some 28, favoriteFoods = [''burritos'', ''burger'']\<rparr>)), Answered (On_model ''Person'' (Save \<lparr>doc_id = Suc (Suc (Suc (fresh_id (collection w)))), name = Some ''Peter'', age = Some 28, favoriteFoods = [''burritos'', ''burger'']\<rparr>)) None,
             Called (On_model ''Person'' (Save \<lparr>doc_id = Suc (Suc (Suc (Suc (fresh_id (collection w))))), name = Some ''Alice'', age = Some 35, favoriteFoods = [''sushi'']\<rparr>)), Answered (On_model ''Person'' (Save \<lparr>doc_id = Suc (Suc (Suc (Suc (fresh_id (collection w))))), name = Some ''Alice'', age = Some 35, favoriteFoods = [''sushi'']\<rparr>)) None],
          collection := collection w @ [\<lparr>doc_id = fresh_id (collection w), name = Some ''John'', age = Some 25, favoriteFoods = [''pizza'', ''burritos'']\<rparr>, \<lparr>doc_id = Suc (fresh_id (collection w)), name = Some ''Mary'', age = Some 30, favoriteFoods = [''salad'', ''burritos'']\<rparr>, \<lparr>doc_id = Suc (Suc (fresh_id (collection w))), name = Some ''Mary'', age = Some 22, favoriteFoods = [''pasta'']\<rparr>, \<lparr>doc_id = Suc (Suc (Suc (fresh_id (collection w)))), name = Some ''Peter'', age = Some 28, favoriteFoods = [''burritos'', ''burger'']\<rparr>, \<lparr>doc_id = Suc (Suc (Suc (Suc (fresh_id (collection w))))), name = Some ''Alice'', age = Some 35, favoriteFoods = [''sushi'']\<rparr>],
          cells := cells w @ [Fulfilled (Docs [\<lparr>doc_id = fresh_id (collection w), name = Some ''John'', age = Some 25, favoriteFoods = [''pizza'', ''burritos'']\<rparr>, \<lparr>doc_id = Suc (fresh_id (collection w)), name = Some ''Mary'', age = Some 30, favoriteFoods = [''salad'', ''burritos'']\<rparr>, \<lparr>doc_id = Suc (Suc (fresh_id (collection w))), name = Some ''Mary'', age = Some 22, favoriteFoods = [''pasta'']\<rparr>, \<lparr>doc_id = Suc (Suc (Suc (fresh_id (collection w)))), name = Some ''Peter'', age = Some 28, favoriteFoods = [''burritos'', ''burger'']\<rparr>, \<lparr>doc_id = Suc (Suc (Suc (Suc (fresh_id (collection w))))), name = Some ''Alice'', age = Some 35, favoriteFoods = [''sushi'']\<rparr>])]\<rparr>))"
proof -
  have f: "createManyPeople peopleData = node_style (Model_create Person peopleData)"
    by (rule ext)+ (rule createManyPeople_node_style)
  show ?thesis
    unfolding f
    by (rule awaiting_node_style_fulfilled) (simp_all add: assms create_peopleData called_cells)
qed

lemma await_queryChain:
  assumes "list_all (\<lambda>f. f = None) (faults w)"
  shows "awaiting (cbToPromise queryChain (idle w)) rest =
     rest (Docs (run_query \<lparr>q_model = ''Person'', q_conditions = Food_is ''burritos'', q_sort = Some Name_ascending, q_limit = Some 2, q_select = Some Minus_age\<rparr> (collection w)))
       (idle (w\<lparr>faults := tl (faults w),
          trace := trace w @
            [Called (On_model ''Person'' (Exec \<lparr>q_model = ''Person'', q_conditions = Food_is ''burritos'', q_sort = Some Name_ascending, q_limit = Some 2, q_select = Some Minus_age\<rparr>)), Answered (On_model ''Person'' (Exec \<lparr>q_model = ''Person'', q_conditions = Food_is ''burritos'', q_sort = Some Name_ascending, q_limit = Some 2, q_select = Some Minus_age\<rparr>)) None],
          cells := cells w @ [Fulfilled (Docs (run_query \<lparr>q_model = ''Person'', q_conditions = Food_is ''burritos'', q_sort = Some Name_ascending, q_limit = Some 2, q_select = Some Minus_age\<rparr> (collection w)))]\<rparr>))"
proof -
  have f: "queryChain =
     node_style (exec (select_q (limit_q (sort_q (Model_find Person (Food_is ''burritos''))
                                            Name_ascending) 2) Minus_age))"
    by (rule ext)+ (rule queryChain_node_style)
  have q: "select_q (limit_q (sort_q (Model_find Person (Food_is ''burritos'')) Name_ascending) 2)
             Minus_age = \<lparr>q_model = ''Person'', q_conditions = Food_is ''burritos'', q_sort = Some Name_ascending, q_limit = Some 2, q_select = Some Minus_age\<rparr>"
    by (simp add: select_q_def limit_q_def sort_q_def Model_find_def Person_name)
  show ?thesis
    unfolding f q
    by (rule awaiting_node_style_fulfilled)
       (simp_all add: assms answered_exec round_trip_fault_free called_cells)
qed

lemma await_findEditThenSave:
  assumes "list_all (\<lambda>f. f = None) (faults w)"
      and "find (matches (Id_is personId)) (collection w) = Some d"
      and "has_name d"
  shows "awaiting (cbToPromise (findEditThenSave personId) (idle w)) rest =
     rest (Doc (d\<lparr>favoriteFoods := favoriteFoods d @ [''hamburger'']\<rparr>))
       (idle (w\<lparr>faults := tl (tl (faults w)),
          trace := trace w @
            [Called (On_model ''Person'' (FindOne (Id_is personId))),
             Answered (On_model ''Person'' (FindOne (Id_is personId))) None,
             Called (On_model ''Person''
                    (Save (d\<lparr>favoriteFoods := favoriteFoods d @ [''hamburger'']\<rparr>))),
             Answered (On_model ''Person''
                    (Save (d\<lparr>favoriteFoods := favoriteFoods d @ [''hamburger'']\<rparr>))) None],
          collection := store (d\<lparr>favoriteFoods := favoriteFoods d @ [''hamburger'']\<rparr>) (collection w),
          cells := cells w @
            [Fulfilled (Doc (d\<lparr>favoriteFoods := favoriteFoods d @ [''hamburger'']\<rparr>))]\<rparr>))"
proof -
  let ?w0 = "w\<lparr>cells := cells w @ [Pending]\<rparr>"
  let ?d' = "d\<lparr>favoriteFoods := favoriteFoods d @ [''hamburger'']\<rparr>"
  let ?look = "[Called (On_model ''Person'' (FindOne (Id_is personId))),
                Answered (On_model ''Person'' (FindOne (Id_is personId))) None]"
  have s1: "next_succeed (Suc 0) ?w0" using assms(1) by (simp add: all_None_next)
  have look: "answered (Model_findById Person personId) ?w0 =
                (Fulfilled (Doc d),
                 w\<lparr>faults := tl (faults w), trace := trace w @ ?look,
                   cells := cells w @ [Pending]\<rparr>)"
    by (simp add: answered_findById round_trip_succeeds [OF s1] assms(2) Person_name)
  have save: "answered (Document_save Person ?d')
                (w\<lparr>faults := tl (faults w), trace := trace w @ ?look,
                   cells := cells w @ [Pending]\<rparr>) =
              (Fulfilled (Doc ?d'),
               w\<lparr>faults := tl (tl (faults w)),
                 trace := trace w @
                   [Called (On_model ''Person'' (FindOne (Id_is personId))),
                    Answered (On_model ''Person'' (FindOne (Id_is personId))) None,
                    Called (On_model ''Person'' (Save ?d')),
                    Answered (On_model ''Person'' (Save ?d')) None],
                 collection := store ?d' (collection w),
                 cells := cells w @ [Pending]\<rparr>)"
    by (rule findEditThenSave_found_run(2) [OF assms(2) assms(3) all_None_next [OF assms(1)]])
  show ?thesis
    by (simp add: awaiting_def resume_def awaited_findEditThenSave look save Let_def
        resolve_def settle_def state_of_def nth_append)
qed

section \<open>The whole run\<close>

lemma console_idle:
  "console_log args (idle w) = idle (w\<lparr>trace := trace w @ [Console_log args]\<rparr>)"
  "console_error args (idle w) = idle (w\<lparr>trace := trace w @ [Console_error args]\<rparr>)"
  by (simp_all add: console_log_def console_error_def idle_def emit_def)

lemma await_findEditThenSave_saved:
  assumes "list_all (\<lambda>f. f = None) (faults w)"
      and "find (matches (Id_is personId)) (collection w) =
             Some \<lparr>doc_id = personId, name = Some ''Charlie'', age = Some 40,
                   favoriteFoods = [''sandwich'']\<rparr>"
  shows "awaiting (cbToPromise (findEditThenSave personId) (idle w)) rest =
     rest (Doc \<lparr>doc_id = personId, name = Some ''Charlie'', age = Some 40,
                 favoriteFoods = [''sandwich'', ''hamburger'']\<rparr>)
       (idle (w\<lparr>faults := tl (tl (faults w)),
          trace := trace w @
            [Called (On_model ''Person'' (FindOne (Id_is personId))),
             Answered (On_model ''Person'' (FindOne (Id_is personId))) None,
             Called (On_model ''Person''
                    (Save \<lparr>doc_id = personId, name = Some ''Charlie'', age = Some 40,
                            favoriteFoods = [''sandwich'', ''hamburger'']\<rparr>)),
             Answered (On_model ''Person''
                    (Save \<lparr>doc_id = personId, name = Some ''Charlie'', age = Some 40,
                            favoriteFoods = [''sandwich'', ''hamburger'']\<rparr>)) None],
          collection := store \<lparr>doc_id = personId, name = Some ''Charlie'', age = Some 40,
                                favoriteFoods = [''sandwich'', ''hamburger'']\<rparr> (collection w),
          cells := cells w @
            [Fulfilled (Doc \<lparr>doc_id = personId, name = Some ''Charlie'', age = Some 40,
                              favoriteFoods = [''sandwich'', ''hamburger'']\<rparr>)]\<rparr>))"
  using await_findEditThenSave [OF assms, of rest] by (simp add: has_name_def)

lemmas await_steps = await_createAndSavePerson await_createManyPeople await_findPeopleByName
  await_findOneByFood await_findPersonById await_findEditThenSave_saved await_findAndUpdate
  await_removeById await_removeManyPeople await_queryChain

lemma runAllTasks_fault_free:
  assumes "fault_free w"
  shows \<open>fst (runAllTasks (idle w)) = Fulfilled Undefined
       \<and> queue (snd (runAllTasks (idle w))) = []
       \<and> length (cells (state (snd (runAllTasks (idle w))))) = length (cells w) + 10
       \<and> (let f = fresh_id (collection w);
           charlie = \<lparr>doc_id = f, name = Some ''Charlie'', age = Some 40, favoriteFoods = [''sandwich'']\<rparr>;
           edited = \<lparr>doc_id = f, name = Some ''Charlie'', age = Some 40, favoriteFoods = [''sandwich'', ''hamburger'']\<rparr>;
           john = \<lparr>doc_id = Suc (f), name = Some ''John'', age = Some 25, favoriteFoods = [''pizza'', ''burritos'']\<rparr>;
           mary = \<lparr>doc_id = Suc (Suc (f)), name = Some ''Mary'', age = Some 30, favoriteFoods = [''salad'', ''burritos'']\<rparr>;
           mary2 = \<lparr>doc_id = Suc (Suc (Suc (f))), name = Some ''Mary'', age = Some 22, favoriteFoods = [''pasta'']\<rparr>;
           peter = \<lparr>doc_id = Suc (Suc (Suc (Suc (f)))), name = Some ''Peter'', age = Some 28, favoriteFoods = [''burritos'', ''burger'']\<rparr>;
           alice = \<lparr>doc_id = Suc (Suc (Suc (Suc (Suc (f))))), name = Some ''Alice'', age = Some 35, favoriteFoods = [''sushi'']\<rparr>;
           c2 = collection w @ [charlie, john, mary, mary2, peter, alice];
           c6 = collection w @ [edited, john, mary, mary2, peter, alice];
           c7 = change_first (matches (Name_is ''John'')) (apply_update (Set_age 20)) c6;
           c8 = remove_first (matches (Id_is (Suc f))) c7;
           c9 = filter (\<lambda>d. \<not> matches (Name_is ''Mary'') d) c8
         in collection (state (snd (runAllTasks (idle w)))) = c9
       \<and> new_events w (state (snd (runAllTasks (idle w)))) =
        [Console_log [Str ''\<newline>---- Running Mongoose tasks ----\<newline>''],
         Called (On_model ''Person'' (Save charlie)),
         Answered (On_model ''Person'' (Save charlie)) None,
         Console_log [Str ''1) createAndSavePerson result ->'', Doc charlie],
         Called (On_model ''Person'' (Create peopleData)),
         Called (On_model ''Person'' (Save john)),
         Answered (On_model ''Person'' (Save john)) None,
         Called (On_model ''Person'' (Save mary)),
         Answered (On_model ''Person'' (Save mary)) None,
         Called (On_model ''Person'' (Save mary2)),
         Answered (On_model ''Person'' (Save mary2)) None,
         Called (On_model ''Person'' (Save peter)),
         Answered (On_model ''Person'' (Save peter)) None,
         Called (On_model ''Person'' (Save alice)),
         Answered (On_model ''Person'' (Save alice)) None,
         Console_log [Str ''2) createManyPeople result -> created'', Num 5, Str ''people''],
         Called (On_model ''Person'' (Exec \<lparr>q_model = ''Person'', q_conditions = Name_is ''Mary'', q_sort = None, q_limit = None, q_select = None\<rparr>)),
         Answered (On_model ''Person'' (Exec \<lparr>q_model = ''Person'', q_conditions = Name_is ''Mary'', q_sort = None, q_limit = None, q_select = None\<rparr>)) None,
         Console_log [Str ''3) findPeopleByName("Mary") ->'', Docs (filter (matches (Name_is ''Mary'')) c2)],
         Called (On_model ''Person'' (FindOne (Food_is ''burritos''))),
         Answered (On_model ''Person'' (FindOne (Food_is ''burritos''))) None,
         Console_log [Str ''4) findOneByFood("burritos") ->'', case find (matches (Food_is ''burritos'')) c2 of None \<Rightarrow> Null | Some d \<Rightarrow> Doc d],
         Called (On_model ''Person'' (FindOne (Id_is f))),
         Answered (On_model ''Person'' (FindOne (Id_is f))) None,
         Console_log [Str ''5) findPersonById ->'', Doc charlie],
         Called (On_model ''Person'' (FindOne (Id_is f))),
         Answered (On_model ''Person'' (FindOne (Id_is f))) None,
         Called (On_model ''Person'' (Save edited)),
         Answered (On_model ''Person'' (Save edited)) None,
         Console_log [Str ''6) findEditThenSave ->'', Doc edited],
         Called (On_model ''Person'' (FindOneAndUpdate (Name_is ''John'') (Set_age 20) True)),
         Answered (On_model ''Person'' (FindOneAndUpdate (Name_is ''John'') (Set_age 20) True)) None,
         Console_log [Str ''7) findAndUpdate("John") ->'', case find (matches (Name_is ''John'')) c6 of None \<Rightarrow> Null | Some d \<Rightarrow> Doc (d\<lparr>age := Some 20\<rparr>)],
         Called (On_model ''Person'' (FindOneAndRemove (Id_is (Suc f)))),
         Answered (On_model ''Person'' (FindOneAndRemove (Id_is (Suc f)))) None,
         Console_log [Str ''8) removeById ->'', case find (matches (Id_is (Suc f))) c7 of None \<Rightarrow> Null | Some d \<Rightarrow> Doc d],
         Called (On_model ''Person'' (DeleteMany (Name_is ''Mary''))),
         Answered (On_model ''Person'' (DeleteMany (Name_is ''Mary''))) None,
         Console_log [Str ''9) removeManyPeople (name: Mary) ->'', DeleteResult (length (filter (matches (Name_is ''Mary'')) c8))],
         Called (On_model ''Person'' (Exec \<lparr>q_model = ''Person'', q_conditions = Food_is ''burritos'', q_sort = Some Name_ascending, q_limit = Some 2, q_select = Some Minus_age\<rparr>)),
         Answered (On_model ''Person'' (Exec \<lparr>q_model = ''Person'', q_conditions = Food_is ''burritos'', q_sort = Some Name_ascending, q_limit = Some 2, q_select = Some Minus_age\<rparr>)) None,
         Console_log [Str ''10) queryChain ->'', Docs (run_query \<lparr>q_model = ''Person'', q_conditions = Food_is ''burritos'', q_sort = Some Name_ascending, q_limit = Some 2, q_select = Some Minus_age\<rparr> c9)],
         Console_log [Str ''\<newline>---- Tasks finished ----\<newline>'']])\<close>
  using assms
  by (simp add: runAllTasks_def fault_free_def await_steps console_idle all_None_tl
      fresh_id_append fresh_id_Cons fresh_id_Nil find_after_fresh store_after_fresh
      new_events_def Model_find_def Person_name Let_def)

text \<open>
  C1. In a run in which no round trip fails, from any collection, \<open>runAllTasks\<close> fulfils
  with nothing left waiting, and what it does is, in this order: the header line; the
  save of the new Charlie document (insert); \<open>create\<close> with its five saves (bulk insert);
  the find by name; the find-one by favorite food; the find by the saved document's
  \<open>_id\<close>; the lookup and the save of read-modify-write; \<open>findOneAndUpdate\<close>; the delete-one
  by the \<open>_id\<close> of the first bulk-inserted document; the delete-many; the chained query;
  the footer line. Each operation has completed before the next begins: every call is
  answered before the next call is made, and between the answer to the last call of one
  operation and the first call of the next stands the console line that prints the
  result the first one's callback was given.
\<close>

theorem runAllTasks_order:
  assumes "fault_free w"
  shows \<open>fst (runAllTasks (idle w)) = Fulfilled Undefined
       \<and> queue (snd (runAllTasks (idle w))) = []
       \<and> (let f = fresh_id (collection w);
           charlie = \<lparr>doc_id = f, name = Some ''Charlie'', age = Some 40, favoriteFoods = [''sandwich'']\<rparr>;
           edited = \<lparr>doc_id = f, name = Some ''Charlie'', age = Some 40, favoriteFoods = [''sandwich'', ''hamburger'']\<rparr>;
           john = \<lparr>doc_id = Suc (f), name = Some ''John'', age = Some 25, favoriteFoods = [''pizza'', ''burritos'']\<rparr>;
           mary = \<lparr>doc_id = Suc (Suc (f)), name = Some ''Mary'', age = Some 30, favoriteFoods = [''salad'', ''burritos'']\<rparr>;
           mary2 = \<lparr>doc_id = Suc (Suc (Suc (f))), name = Some ''Mary'', age = Some 22, favoriteFoods = [''pasta'']\<rparr>;
           peter = \<lparr>doc_id = Suc (Suc (Suc (Suc (f)))), name = Some ''Peter'', age = Some 28, favoriteFoods = [''burritos'', ''burger'']\<rparr>;
           alice = \<lparr>doc_id = Suc (Suc (Suc (Suc (Suc (f))))), name = Some ''Alice'', age = Some 35, favoriteFoods = [''sushi'']\<rparr>;
           c2 = collection w @ [charlie, john, mary, mary2, peter, alice];
           c6 = collection w @ [edited, john, mary, mary2, peter, alice];
           c7 = change_first (matches (Name_is ''John'')) (apply_update (Set_age 20)) c6;
           c8 = remove_first (matches (Id_is (Suc f))) c7;
           c9 = filter (\<lambda>d. \<not> matches (Name_is ''Mary'') d) c8
         in new_events w (state (snd (runAllTasks (idle w)))) =
        [Console_log [Str ''\<newline>---- Running Mongoose tasks ----\<newline>''],
         Called (On_model ''Person'' (Save charlie)),
         Answered (On_model ''Person'' (Save charlie)) None,
         Console_log [Str ''1) createAndSavePerson result ->'', Doc charlie],
         Called (On_model ''Person'' (Create peopleData)),
         Called (On_model ''Person'' (Save john)),
         Answered (On_model ''Person'' (Save john)) None,
         Called (On_model ''Person'' (Save mary)),
         Answered (On_model ''Person'' (Save mary)) None,
         Called (On_model ''Person'' (Save mary2)),
         Answered (On_model ''Person'' (Save mary2)) None,
         Called (On_model ''Person'' (Save peter)),
         Answered (On_model ''Person'' (Save peter)) None,
         Called (On_model ''Person'' (Save alice)),
         Answered (On_model ''Person'' (Save alice)) None,
         Console_log [Str ''2) createManyPeople result -> created'', Num 5, Str ''people''],
         Called (On_model ''Person'' (Exec \<lparr>q_model = ''Person'', q_conditions = Name_is ''Mary'', q_sort = None, q_limit = None, q_select = None\<rparr>)),
         Answered (On_model ''Person'' (Exec \<lparr>q_model = ''Person'', q_conditions = Name_is ''Mary'', q_sort = None, q_limit = None, q_select = None\<rparr>)) None,
         Console_log [Str ''3) findPeopleByName("Mary") ->'', Docs (filter (matches (Name_is ''Mary'')) c2)],
         Called (On_model ''Person'' (FindOne (Food_is ''burritos''))),
         Answered (On_model ''Person'' (FindOne (Food_is ''burritos''))) None,
         Console_log [Str ''4) findOneByFood("burritos") ->'', case find (matches (Food_is ''burritos'')) c2 of None \<Rightarrow> Null | Some d \<Rightarrow> Doc d],
         Called (On_model ''Person'' (FindOne (Id_is f))),
         Answered (On_model ''Person'' (FindOne (Id_is f))) None,
         Console_log [Str ''5) findPersonById ->'', Doc charlie],
         Called (On_model ''Person'' (FindOne (Id_is f))),
         Answered (On_model ''Person'' (FindOne (Id_is f))) None,
         Called (On_model ''Person'' (Save edited)),
         Answered (On_model ''Person'' (Save edited)) None,
         Console_log [Str ''6) findEditThenSave ->'', Doc edited],
         Called (On_model ''Person'' (FindOneAndUpdate (Name_is ''John'') (Set_age 20) True)),
         Answered (On_model ''Person'' (FindOneAndUpdate (Name_is ''John'') (Set_age 20) True)) None,
         Console_log [Str ''7) findAndUpdate("John") ->'', case find (matches (Name_is ''John'')) c6 of None \<Rightarrow> Null | Some d \<Rightarrow> Doc (d\<lparr>age := Some 20\<rparr>)],
         Called (On_model ''Person'' (FindOneAndRemove (Id_is (Suc f)))),
         Answered (On_model ''Person'' (FindOneAndRemove (Id_is (Suc f)))) None,
         Console_log [Str ''8) removeById ->'', case find (matches (Id_is (Suc f))) c7 of None \<Rightarrow> Null | Some d \<Rightarrow> Doc d],
         Called (On_model ''Person'' (DeleteMany (Name_is ''Mary''))),
         Answered (On_model ''Person'' (DeleteMany (Name_is ''Mary''))) None,
         Console_log [Str ''9) removeManyPeople (name: Mary) ->'', DeleteResult (length (filter (matches (Name_is ''Mary'')) c8))],
         Called (On_model ''Person'' (Exec \<lparr>q_model = ''Person'', q_conditions = Food_is ''burritos'', q_sort = Some Name_ascending, q_limit = Some 2, q_select = Some Minus_age\<rparr>)),
         Answered (On_model ''Person'' (Exec \<lparr>q_model = ''Person'', q_conditions = Food_is ''burritos'', q_sort = Some Name_ascending, q_limit = Some 2, q_select = Some Minus_age\<rparr>)) None,
         Console_log [Str ''10) queryChain ->'', Docs (run_query \<lparr>q_model = ''Person'', q_conditions = Food_is ''burritos'', q_sort = Some Name_ascending, q_limit = Some 2, q_select = Some Minus_age\<rparr> c9)],
         Console_log [Str ''\<newline>---- Tasks finished ----\<newline>'']])\<close>
proof -
  note run = runAllTasks_fault_free [OF assms]
  from run [THEN conjunct2, THEN conjunct2, THEN conjunct2]
  have tr: \<open>let f = fresh_id (collection w);
           charlie = \<lparr>doc_id = f, name = Some ''Charlie'', age = Some 40, favoriteFoods = [''sandwich'']\<rparr>;
           edited = \<lparr>doc_id = f, name = Some ''Charlie'', age = Some 40, favoriteFoods = [''sandwich'', ''hamburger'']\<rparr>;
           john = \<lparr>doc_id = Suc (f), name = Some ''John'', age = Some 25, favoriteFoods = [''pizza'', ''burritos'']\<rparr>;
           mary = \<lparr>doc_id = Suc (Suc (f)), name = Some ''Mary'', age = Some 30, favoriteFoods = [''salad'', ''burritos'']\<rparr>;
           mary2 = \<lparr>doc_id = Suc (Suc (Suc (f))), name = Some ''Mary'', age = Some 22, favoriteFoods = [''pasta'']\<rparr>;
           peter = \<lparr>doc_id = Suc (Suc (Suc (Suc (f)))), name = Some ''Peter'', age = Some 28, favoriteFoods = [''burritos'', ''burger'']\<rparr>;
           alice = \<lparr>doc_id = Suc (Suc (Suc (Suc (Suc (f))))), name = Some ''Alice'', age = Some 35, favoriteFoods = [''sushi'']\<rparr>;
           c2 = collection w @ [charlie, john, mary, mary2, peter, alice];
           c6 = collection w @ [edited, john, mary, mary2, peter, alice];
           c7 = change_first (matches (Name_is ''John'')) (apply_update (Set_age 20)) c6;
           c8 = remove_first (matches (Id_is (Suc f))) c7;
           c9 = filter (\<lambda>d. \<not> matches (Name_is ''Mary'') d) c8
         in new_events w (state (snd (runAllTasks (idle w)))) =
        [Console_log [Str ''\<newline>---- Running Mongoose tasks ----\<newline>''],
         Called (On_model ''Person'' (Save charlie)),
         Answered (On_model ''Person'' (Save charlie)) None,
         Console_log [Str ''1) createAndSavePerson result ->'', Doc charlie],
         Called (On_model ''Person'' (Create peopleData)),
         Called (On_model ''Person'' (Save john)),
         Answered (On_model ''Person'' (Save john)) None,
         Called (On_model ''Person'' (Save mary)),
         Answered (On_model ''Person'' (Save mary)) None,
         Called (On_model ''Person'' (Save mary2)),
         Answered (On_model ''Person'' (Save mary2)) None,
         Called (On_model ''Person'' (Save peter)),
         Answered (On_model ''Person'' (Save peter)) None,
         Called (On_model ''Person'' (Save alice)),
         Answered (On_model ''Person'' (Save alice)) None,
         Console_log [Str ''2) createManyPeople result -> created'', Num 5, Str ''people''],
         Called (On_model ''Person'' (Exec \<lparr>q_model = ''Person'', q_conditions = Name_is ''Mary'', q_sort = None, q_limit = None, q_select = None\<rparr>)),
         Answered (On_model ''Person'' (Exec \<lparr>q_model = ''Person'', q_conditions = Name_is ''Mary'', q_sort = None, q_limit = None, q_select = None\<rparr>)) None,
         Console_log [Str ''3) findPeopleByName("Mary") ->'', Docs (filter (matches (Name_is ''Mary'')) c2)],
         Called (On_model ''Person'' (FindOne (Food_is ''burritos''))),
         Answered (On_model ''Person'' (FindOne (Food_is ''burritos''))) None,
         Console_log [Str ''4) findOneByFood("burritos") ->'', case find (matches (Food_is ''burritos'')) c2 of None \<Rightarrow> Null | Some d \<Rightarrow> Doc d],
         Called (On_model ''Person'' (FindOne (Id_is f))),
         Answered (On_model ''Person'' (FindOne (Id_is f))) None,
         Console_log [Str ''5) findPersonById ->'', Doc charlie],
         Called (On_model ''Person'' (FindOne (Id_is f))),
         Answered (On_model ''Person'' (FindOne (Id_is f))) None,
         Called (On_model ''Person'' (Save edited)),
         Answered (On_model ''Person'' (Save edited)) None,
         Console_log [Str ''6) findEditThenSave ->'', Doc edited],
         Called (On_model ''Person'' (FindOneAndUpdate (Name_is ''John'') (Set_age 20) True)),
         Answered (On_model ''Person'' (FindOneAndUpdate (Name_is ''John'') (Set_age 20) True)) None,
         Console_log [Str ''7) findAndUpdate("John") ->'', case find (matches (Name_is ''John'')) c6 of None \<Rightarrow> Null | Some d \<Rightarrow> Doc (d\<lparr>age := Some 20\<rparr>)],
         Called (On_model ''Person'' (FindOneAndRemove (Id_is (Suc f)))),
         Answered (On_model ''Person'' (FindOneAndRemove (Id_is (Suc f)))) None,
         Console_log [Str ''8) removeById ->'', case find (matches (Id_is (Suc f))) c7 of None \<Rightarrow> Null | Some d \<Rightarrow> Doc d],
         Called (On_model ''Person'' (DeleteMany (Name_is ''Mary''))),
         Answered (On_model ''Person'' (DeleteMany (Name_is ''Mary''))) None,
         Console_log [Str ''9) removeManyPeople (name: Mary) ->'', DeleteResult (length (filter (matches (Name_is ''Mary'')) c8))],
         Called (On_model ''Person'' (Exec \<lparr>q_model = ''Person'', q_conditions = Food_is ''burritos'', q_sort = Some Name_ascending, q_limit = Some 2, q_select = Some Minus_age\<rparr>)),
         Answered (On_model ''Person'' (Exec \<lparr>q_model = ''Person'', q_conditions = Food_is ''burritos'', q_sort = Some Name_ascending, q_limit = Some 2, q_select = Some Minus_age\<rparr>)) None,
         Console_log [Str ''10) queryChain ->'', Docs (run_query \<lparr>q_model = ''Person'', q_conditions = Food_is ''burritos'', q_sort = Some Name_ascending, q_limit = Some 2, q_select = Some Minus_age\<rparr> c9)],
         Console_log [Str ''\<newline>---- Tasks finished ----\<newline>'']]\<close>
    unfolding Let_def by (rule conjunct2)
  from run [THEN conjunct1] run [THEN conjunct2, THEN conjunct1] tr
  show ?thesis by (intro conjI)
qed

text \<open>C1 on the empty database, where the new documents get the ids 1 to 6.\<close>

theorem runAllTasks_order_witness:
  \<open>fault_free empty_world
   \<and> fst (runAllTasks (idle empty_world)) = Fulfilled Undefined
   \<and> queue (snd (runAllTasks (idle empty_world))) = []
   \<and> new_events empty_world (state (snd (runAllTasks (idle empty_world)))) =
        [Console_log [Str ''\<newline>---- Running Mongoose tasks ----\<newline>''],
         Called (On_model ''Person'' (Save \<lparr>doc_id = Suc 0, name = Some ''Charlie'', age = Some 40, favoriteFoods = [''sandwich'']\<rparr>)),
         Answered (On_model ''Person'' (Save \<lparr>doc_id = Suc 0, name = Some ''Charlie'', age = Some 40, favoriteFoods = [''sandwich'']\<rparr>)) None,
         Console_log [Str ''1) createAndSavePerson result ->'', Doc \<lparr>doc_id = Suc 0, name = Some ''Charlie'', age = Some 40, favoriteFoods = [''sandwich'']\<rparr>],
         Called (On_model ''Person'' (Create peopleData)),
         Called (On_model ''Person'' (Save \<lparr>doc_id = Suc (Suc 0), name = Some ''John'', age = Some 25, favoriteFoods = [''pizza'', ''burritos'']\<rparr>)),
         Answered (On_model ''Person'' (Save \<lparr>doc_id = Suc (Suc 0), name = Some ''John'', age = Some 25, favoriteFoods = [''pizza'', ''burritos'']\<rparr>)) None,
         Called (On_model ''Person'' (Save \<lparr>doc_id = Suc (Suc (Suc 0)), name = Some ''Mary'', age = Some 30, favoriteFoods = [''salad'', ''burritos'']\<rparr>)),
         Answered (On_model ''Person'' (Save \<lparr>doc_id = Suc (Suc (Suc 0)), name = Some ''Mary'', age = Some 30, favoriteFoods = [''salad'', ''burritos'']\<rparr>)) None,
         Called (On_model ''Person'' (Save \<lparr>doc_id = Suc (Suc (Suc (Suc 0))), name = Some ''Mary'', age = Some 22, favoriteFoods = [''pasta'']\<rparr>)),
         Answered (On_model ''Person'' (Save \<lparr>doc_id = Suc (Suc (Suc (Suc 0))), name = Some ''Mary'', age = Some 22, favoriteFoods = [''pasta'']\<rparr>)) None,
         Called (On_model ''Person'' (Save \<lparr>doc_id = Suc (Suc (Suc (Suc (Suc 0)))), name = Some ''Peter'', age = Some 28, favoriteFoods = [''burritos'', ''burger'']\<rparr>)),
         Answered (On_model ''Person'' (Save \<lparr>doc_id = Suc (Suc (Suc (Suc (Suc 0)))), name = Some ''Peter'', age = Some 28, favoriteFoods = [''burritos'', ''burger'']\<rparr>)) None,
         Called (On_model ''Person'' (Save \<lparr>doc_id = Suc (Suc (Suc (Suc (Suc (Suc 0))))), name = Some ''Alice'', age = Some 35, favoriteFoods = [''sushi'']\<rparr>)),
         Answered (On_model ''Person'' (Save \<lparr>doc_id = Suc (Suc (Suc (Suc (Suc (Suc 0))))), name = Some ''Alice'', age = Some 35, favoriteFoods = [''sushi'']\<rparr>)) None,
         Console_log [Str ''2) createManyPeople result -> created'', Num 5, Str ''people''],
         Called (On_model ''Person'' (Exec \<lparr>q_model = ''Person'', q_conditions = Name_is ''Mary'', q_sort = None, q_limit = None, q_select = None\<rparr>)),
         Answered (On_model ''Person'' (Exec \<lparr>q_model = ''Person'', q_conditions = Name_is ''Mary'', q_sort = None, q_limit = None, q_select = None\<rparr>)) None,
         Console_log [Str ''3) findPeopleByName("Mary") ->'', Docs [\<lparr>doc_id = Suc (Suc (Suc 0)), name = Some ''Mary'', age = Some 30, favoriteFoods = [''salad'', ''burritos'']\<rparr>, \<lparr>doc_id = Suc (Suc (Suc (Suc 0))), name = Some ''Mary'', age = Some 22, favoriteFoods = [''pasta'']\<rparr>]],
         Called (On_model ''Person'' (FindOne (Food_is ''burritos''))),
         Answered (On_model ''Person'' (FindOne (Food_is ''burritos''))) None,
         Console_log [Str ''4) findOneByFood("burritos") ->'', Doc \<lparr>doc_id = Suc (Suc 0), name = Some ''John'', age = Some 25, favoriteFoods = [''pizza'', ''burritos'']\<rparr>],
         Called (On_model ''Person'' (FindOne (Id_is (Suc 0)))),
         Answered (On_model ''Person'' (FindOne (Id_is (Suc 0)))) None,
         Console_log [Str ''5) findPersonById ->'', Doc \<lparr>doc_id = Suc 0, name = Some ''Charlie'', age = Some 40, favoriteFoods = [''sandwich'']\<rparr>],
         Called (On_model ''Person'' (FindOne (Id_is (Suc 0)))),
         Answered (On_model ''Person'' (FindOne (Id_is (Suc 0)))) None,
         Called (On_model ''Person'' (Save \<lparr>doc_id = Suc 0, name = Some ''Charlie'', age = Some 40, favoriteFoods = [''sandwich'', ''hamburger'']\<rparr>)),
         Answered (On_model ''Person'' (Save \<lparr>doc_id = Suc 0, name = Some ''Charlie'', age = Some 40, favoriteFoods = [''sandwich'', ''hamburger'']\<rparr>)) None,
         Console_log [Str ''6) findEditThenSave ->'', Doc \<lparr>doc_id = Suc 0, name = Some ''Charlie'', age = Some 40, favoriteFoods = [''sandwich'', ''hamburger'']\<rparr>],
         Called (On_model ''Person'' (FindOneAndUpdate (Name_is ''John'') (Set_age 20) True)),
         Answered (On_model ''Person'' (FindOneAndUpdate (Name_is ''John'') (Set_age 20) True)) None,
         Console_log [Str ''7) findAndUpdate("John") ->'', Doc \<lparr>doc_id = Suc (Suc 0), name = Some ''John'', age = Some 20, favoriteFoods = [''pizza'', ''burritos'']\<rparr>],
         Called (On_model ''Person'' (FindOneAndRemove (Id_is (Suc (Suc 0))))),
         Answered (On_model ''Person'' (FindOneAndRemove (Id_is (Suc (Suc 0))))) None,
         Console_log [Str ''8) removeById ->'', Doc \<lparr>doc_id = Suc (Suc 0), name = Some ''John'', age = Some 20, favoriteFoods = [''pizza'', ''burritos'']\<rparr>],
         Called (On_model ''Person'' (DeleteMany (Name_is ''Mary''))),
         Answered (On_model ''Person'' (DeleteMany (Name_is ''Mary''))) None,
         Console_log [Str ''9) removeManyPeople (name: Mary) ->'', DeleteResult 2],
         Called (On_model ''Person'' (Exec \<lparr>q_model = ''Person'', q_conditions = Food_is ''burritos'', q_sort = Some Name_ascending, q_limit = Some 2, q_select = Some Minus_age\<rparr>)),
         Answered (On_model ''Person'' (Exec \<lparr>q_model = ''Person'', q_conditions = Food_is ''burritos'', q_sort = Some Name_ascending, q_limit = Some 2, q_select = Some Minus_age\<rparr>)) None,
         Console_log [Str ''10) queryChain ->'', Docs [\<lparr>doc_id = Suc (Suc (Suc (Suc (Suc 0)))), name = Some ''Peter'', age = None, favoriteFoods = [''burritos'', ''burger'']\<rparr>]],
         Console_log [Str ''\<newline>---- Tasks finished ----\<newline>'']]\<close>
proof -
  have ff: "fault_free empty_world"
    by (simp add: fault_free_def empty_world_def)
  have n: "fresh_id (collection empty_world) = Suc 0" "collection empty_world = []"
    by (simp_all add: empty_world_def fresh_id_Nil)
  from runAllTasks_order [OF ff] ff show ?thesis
    unfolding Let_def n
    by (simp add: run_query_def fresh_id_Nil)
qed

text \<open>
  C5, as stated, fails: on the empty database, with nothing failing, the script invokes
  ten operation functions, not eight.
\<close>

theorem runAllTasks_runs_ten_not_eight:
  "operations_run empty_world (state (snd (runAllTasks (idle empty_world)))) = 10
   \<and> operations_run empty_world (state (snd (runAllTasks (idle empty_world)))) \<noteq> 8"
proof -
  have ff: "fault_free empty_world"
    by (simp add: fault_free_def empty_world_def)
  from runAllTasks_fault_free [OF ff, THEN conjunct2, THEN conjunct2, THEN conjunct1]
  show ?thesis by (simp add: operations_run_def)
qed

text \<open>
  C5, amended. In a run in which no round trip fails the script demonstrates exactly ten
  data-access operations: it invokes ten operation functions, each through one
  \<open>cbToPromise\<close>.
\<close>

theorem runAllTasks_runs_ten:
  assumes "fault_free w"
  shows "operations_run w (state (snd (runAllTasks (idle w)))) = 10"
  using runAllTasks_fault_free [OF assms, THEN conjunct2, THEN conjunct2, THEN conjunct1]
  by (simp add: operations_run_def)

text \<open>The amended C5 on a database that holds one document already.\<close>

theorem runAllTasks_runs_ten_witness:
  "fault_free (empty_world\<lparr>collection :=
      [\<lparr>doc_id = 4, name = Some ''Mary'', age = Some 61, favoriteFoods = [''burritos'']\<rparr>]\<rparr>)
   \<and> operations_run
        (empty_world\<lparr>collection :=
           [\<lparr>doc_id = 4, name = Some ''Mary'', age = Some 61, favoriteFoods = [''burritos'']\<rparr>]\<rparr>)
        (state (snd (runAllTasks
           (idle (empty_world\<lparr>collection :=
              [\<lparr>doc_id = 4, name = Some ''Mary'', age = Some 61,
                 favoriteFoods = [''burritos'']\<rparr>]\<rparr>))))) = 10"
proof -
  have ff: "fault_free (empty_world\<lparr>collection :=
      [\<lparr>doc_id = 4, name = Some ''Mary'', age = Some 61, favoriteFoods = [''burritos'']\<rparr>]\<rparr>)"
    by (simp add: fault_free_def empty_world_def)
  from runAllTasks_runs_ten [OF ff] ff show ?thesis by (rule conjI [rotated])
qed

section \<open>What the task phase can do\<close>

lemma prefix_take: "take (length xs) ys = xs \<longleftrightarrow> (\<exists>zs. ys = xs @ zs)"
  by (metis append_eq_conv_conj append_take_drop_id)

lemma task_step_iff:
  "task_step w r \<longleftrightarrow>
     connected r = connected w \<and> server_up r = server_up w \<and>
     (\<exists>new. trace r = trace w @ new \<and> list_all person_event new) \<and>
     (schema_ok w \<longrightarrow> schema_ok r)"
proof -
  have "(take (length (trace w)) (trace r) = trace w \<and> list_all person_event (new_events w r))
        \<longleftrightarrow> (\<exists>new. trace r = trace w @ new \<and> list_all person_event new)"
  proof
    assume a: "take (length (trace w)) (trace r) = trace w \<and> list_all person_event (new_events w r)"
    then have "trace r = trace w @ new_events w r"
      by (metis append_take_drop_id new_events_def)
    with a show "\<exists>new. trace r = trace w @ new \<and> list_all person_event new" by blast
  next
    assume "\<exists>new. trace r = trace w @ new \<and> list_all person_event new"
    then obtain new where "trace r = trace w @ new" and "list_all person_event new" by blast
    then show "take (length (trace w)) (trace r) = trace w \<and> list_all person_event (new_events w r)"
      by (simp add: new_events_def)
  qed
  then show ?thesis by (simp add: task_step_def) blast
qed

lemma task_step_refl: "task_step w w"
  by (simp add: task_step_iff)

lemma task_step_trans:
  assumes "task_step a b" and "task_step b c"
  shows "task_step a c"
proof -
  from assms(1) obtain n1 where 1: "trace b = trace a @ n1" "list_all person_event n1"
    by (auto simp: task_step_iff)
  from assms(2) obtain n2 where 2: "trace c = trace b @ n2" "list_all person_event n2"
    by (auto simp: task_step_iff)
  from 1 2 have "trace c = trace a @ (n1 @ n2) \<and> list_all person_event (n1 @ n2)" by simp
  then have "\<exists>new. trace c = trace a @ new \<and> list_all person_event new" by blast
  with assms show ?thesis by (simp add: task_step_iff)
qed

lemma task_step_cells_left: "task_step (w\<lparr>cells := c\<rparr>) r = task_step w r"
  by (simp add: task_step_def new_events_def schema_ok_def)

lemma task_step_cells_right: "task_step w (r\<lparr>cells := c\<rparr>) = task_step w r"
  by (simp add: task_step_def new_events_def schema_ok_def)

lemma task_step_emit: "person_event e \<Longrightarrow> task_step w (emit e w)"
  by (simp add: task_step_iff emit_def schema_ok_def)

lemma task_step_console:
  "task_step w (state r) \<Longrightarrow> task_step w (state (console_log args r))"
proof -
  assume a: "task_step w (state r)"
  have "task_step (state r) (state (console_log args r))"
    by (simp add: console_log_def task_step_emit)
  with a show ?thesis by (rule task_step_trans)
qed

lemma queue_console [simp]:
  "queue (console_log args r) = queue r" "queue (console_error args r) = queue r"
  by (simp_all add: console_log_def console_error_def)

lemma person_op_answered:
  assumes "person_op operation"
  shows "cells (snd (answered operation w)) = cells w"
    and "fst (answered operation w) \<noteq> Pending"
    and "task_step w (snd (answered operation w))"
proof -
  obtain p w1 where op: "operation w = (p, w1)" by (cases "operation w")
  from assms op have 1: "cells w1 = cells w" "task_step w w1"
    and 2: "cells (snd (p w1)) = cells w1" "fst (p w1) \<noteq> Pending" "task_step w1 (snd (p w1))"
    by (auto simp: person_op_def dest: spec [of _ w])
  have a: "answered operation w = p w1" by (simp add: answered_def op)
  from 1 2 show "cells (snd (answered operation w)) = cells w" by (simp add: a)
  from 2 show "fst (answered operation w) \<noteq> Pending" by (simp add: a)
  from 1 2 show "task_step w (snd (answered operation w))"
    by (simp add: a) (rule task_step_trans)
qed

lemma round_trip_person:
  assumes "\<And>w'. connected (snd (body w')) = connected w' \<and> server_up (snd (body w')) = server_up w' \<and>
                trace (snd (body w')) = trace w' \<and> cells (snd (body w')) = cells w' \<and>
                (schema_ok w' \<longrightarrow> schema_ok (snd (body w')))"
  shows "person_op (round_trip (On_model ''Person'' opn) body)"
proof -
  have call: "\<And>w. cells (snd (round_trip (On_model ''Person'' opn) body w)) = cells w \<and>
                  task_step w (snd (round_trip (On_model ''Person'' opn) body w))"
    by (simp add: round_trip_def task_step_emit) (simp add: emit_def)
  have ans: "\<And>w w'. cells (snd (fst (round_trip (On_model ''Person'' opn) body w) w')) = cells w' \<and>
                fst (fst (round_trip (On_model ''Person'' opn) body w) w') \<noteq> Pending \<and>
                task_step w' (snd (fst (round_trip (On_model ''Person'' opn) body w) w'))"
  proof -
    fix w w' :: world
    show "cells (snd (fst (round_trip (On_model ''Person'' opn) body w) w')) = cells w' \<and>
          fst (fst (round_trip (On_model ''Person'' opn) body w) w') \<noteq> Pending \<and>
          task_step w' (snd (fst (round_trip (On_model ''Person'' opn) body w) w'))"
    proof (cases "case faults w' of [] \<Rightarrow> None | f # _ \<Rightarrow> f")
      case (Some msg)
      then show ?thesis
        by (simp add: round_trip_def emit_def task_step_iff schema_ok_def)
    next
      case None
      let ?w1 = "w'\<lparr>faults := tl (faults w'),
                   trace := trace w' @ [Answered (On_model ''Person'' opn) None]\<rparr>"
      obtain v w2 where b: "body ?w1 = (v, w2)" by (cases "body ?w1")
      from assms [of ?w1] b
      have "connected w2 = connected w'" "server_up w2 = server_up w'"
           "trace w2 = trace w' @ [Answered (On_model ''Person'' opn) None]" "cells w2 = cells w'"
           "schema_ok w' \<longrightarrow> schema_ok w2"
        by (simp_all add: schema_ok_def)
      with None b show ?thesis
        by (simp add: round_trip_def emit_def task_step_iff)
    qed
  qed
  from call ans show ?thesis by (simp add: person_op_def)
qed

lemma store_has_name: "has_name d \<Longrightarrow> list_all has_name ds \<Longrightarrow> list_all has_name (store d ds)"
  by (induction ds) simp_all

lemma has_name_apply_update: "has_name (apply_update u d) = has_name d"
  by (cases u) (simp add: has_name_def)

lemma change_first_has_name:
  "list_all has_name ds \<Longrightarrow> list_all has_name (change_first P (apply_update u) ds)"
  by (induction ds) (simp_all add: has_name_apply_update)

lemma remove_first_has_name: "list_all has_name ds \<Longrightarrow> list_all has_name (remove_first P ds)"
  by (induction ds) simp_all

lemma filter_has_name: "list_all has_name ds \<Longrightarrow> list_all has_name (filter P ds)"
  by (induction ds) simp_all

lemma person_op_save: "person_op (Document_save Person d)"
proof (cases "has_name d")
  case True
  then have v: "validate Person d = None" by (simp add: validate_Person)
  have "Document_save Person d =
          round_trip (On_model ''Person'' (Save d))
            (\<lambda>w'. (Doc d, w'\<lparr>collection := store d (collection w')\<rparr>))"
    by (rule ext) (simp add: Document_save_def v Person_name)
  then show ?thesis
    by (simp only:) (rule round_trip_person, simp add: schema_ok_def store_has_name True)
next
  case False
  then have v: "validate Person d = Some ''Person validation failed: name: Path name is required.''"
    by (simp add: validate_Person)
  show ?thesis
    by (simp add: person_op_def Document_save_def v task_step_emit Person_name)
       (simp add: emit_def)
qed

lemma person_op_exec: "q_model q = ''Person'' \<Longrightarrow> person_op (exec q)"
proof -
  assume q: "q_model q = ''Person''"
  have "exec q = round_trip (On_model ''Person'' (Exec q))
                   (\<lambda>w'. (Docs (run_query q (collection w')), w'))"
    by (rule ext) (simp add: exec_def q)
  then show ?thesis by (simp only:) (rule round_trip_person, simp)
qed

lemma person_op_findOne: "person_op (Model_findOne Person c)"
proof -
  have "Model_findOne Person c = round_trip (On_model ''Person'' (FindOne c))
       (\<lambda>w'. (case find (matches c) (collection w') of None \<Rightarrow> Null | Some d \<Rightarrow> Doc d, w'))"
    by (rule ext) (simp add: Model_findOne_def Person_name)
  then show ?thesis by (simp only:) (rule round_trip_person, simp)
qed

lemma person_op_findById: "person_op (Model_findById Person i)"
proof -
  have "Model_findById Person i = Model_findOne Person (Id_is i)"
    by (rule ext) (simp add: Model_findById_def)
  then show ?thesis by (simp only: person_op_findOne)
qed

lemma person_op_findOneAndUpdate: "person_op (Model_findOneAndUpdate Person c u new)"
proof -
  have "Model_findOneAndUpdate Person c u new =
     round_trip (On_model ''Person'' (FindOneAndUpdate c u new))
       (\<lambda>w'. case find (matches c) (collection w') of
                None \<Rightarrow> (Null, w')
              | Some d \<Rightarrow>
                  (Doc (if new then apply_update u d else d),
                   w'\<lparr>collection := change_first (matches c) (apply_update u) (collection w')\<rparr>))"
    by (rule ext) (simp add: Model_findOneAndUpdate_def Person_name)
  then show ?thesis
    by (simp only:)
       (rule round_trip_person, simp add: schema_ok_def change_first_has_name split: option.split)
qed

lemma person_op_findOneAndRemove: "person_op (Model_findOneAndRemove Person c)"
proof -
  have "Model_findOneAndRemove Person c =
     round_trip (On_model ''Person'' (FindOneAndRemove c))
       (\<lambda>w'. case find (matches c) (collection w') of
                None \<Rightarrow> (Null, w')
              | Some d \<Rightarrow> (Doc d, w'\<lparr>collection := remove_first (matches c) (collection w')\<rparr>))"
    by (rule ext) (simp add: Model_findOneAndRemove_def Person_name)
  then show ?thesis
    by (simp only:)
       (rule round_trip_person, simp add: schema_ok_def remove_first_has_name split: option.split)
qed

lemma person_op_findByIdAndRemove: "person_op (Model_findByIdAndRemove Person i)"
proof -
  have "Model_findByIdAndRemove Person i = Model_findOneAndRemove Person (Id_is i)"
    by (rule ext) (simp add: Model_findByIdAndRemove_def)
  then show ?thesis by (simp only: person_op_findOneAndRemove)
qed

lemma person_op_deleteMany: "person_op (Model_deleteMany Person c)"
proof -
  have "Model_deleteMany Person c =
     round_trip (On_model ''Person'' (DeleteMany c))
       (\<lambda>w'. (DeleteResult (length (filter (matches c) (collection w'))),
              w'\<lparr>collection := filter (\<lambda>d. \<not> matches c d) (collection w')\<rparr>))"
    by (rule ext) (simp add: Model_deleteMany_def Person_name)
  then show ?thesis
    by (simp only:) (rule round_trip_person, simp add: schema_ok_def filter_has_name)
qed

lemma save_each_step:
  "cells (snd (save_each Person inps w)) = cells w \<and> task_step w (snd (save_each Person inps w))"
proof (induction inps arbitrary: w)
  case Nil
  show ?case by (simp add: task_step_refl)
next
  case (Cons inp inps)
  obtain p w1 where s: "answered (Document_save Person (new_doc Person inp w)) w = (p, w1)"
    by (cases "answered (Document_save Person (new_doc Person inp w)) w")
  from person_op_answered(1,3) [OF person_op_save [of "new_doc Person inp w"], of w] s
  have 1: "cells w1 = cells w" "task_step w w1" by simp_all
  obtain ps w2 where r: "save_each Person inps w1 = (ps, w2)"
    by (cases "save_each Person inps w1")
  from Cons.IH [of w1] r have 2: "cells w2 = cells w1" "task_step w1 w2" by simp_all
  from 1 2 have "cells w2 = cells w" "task_step w w2"
    by (simp_all add: task_step_trans [of w w1 w2])
  with s r show ?case by simp
qed

lemma person_op_create: "person_op (Model_create Person inps)"
proof -
  have call: "\<And>w. cells (snd (Model_create Person inps w)) = cells w \<and>
                  task_step w (snd (Model_create Person inps w))"
    by (simp add: Model_create_def task_step_emit Person_name) (simp add: emit_def)
  have ans: "\<And>w w'. cells (snd (fst (Model_create Person inps w) w')) = cells w' \<and>
                fst (fst (Model_create Person inps w) w') \<noteq> Pending \<and>
                task_step w' (snd (fst (Model_create Person inps w) w'))"
  proof -
    fix w w' :: world
    obtain ps w1 where r: "save_each Person inps w' = (ps, w1)"
      by (cases "save_each Person inps w'")
    from save_each_step [of inps w'] r have "cells w1 = cells w'" "task_step w' w1" by simp_all
    with r show "cells (snd (fst (Model_create Person inps w) w')) = cells w' \<and>
                 fst (fst (Model_create Person inps w) w') \<noteq> Pending \<and>
                 task_step w' (snd (fst (Model_create Person inps w) w'))"
      by (simp add: Model_create_def split: list.split)
  qed
  from call ans show ?thesis by (simp add: person_op_def)
qed

text \<open>An operation of the mapper, made a callback function and wrapped in \<open>cbToPromise\<close>.\<close>

lemma settle_cells_only:
  "task_step w (resolve k v r) = task_step w r"
  "task_step w (reject k e r) = task_step w r"
  by (simp_all add: resolve_def reject_def settle_def task_step_cells_right)

lemma settle_new_cell:
  "cells r = cs @ [Pending] \<Longrightarrow> state_of (length cs) (resolve (length cs) v r) = Fulfilled v"
  "cells r = cs @ [Pending] \<Longrightarrow> state_of (length cs) (reject (length cs) e r) = Rejected e"
  by (simp_all add: resolve_def reject_def settle_def state_of_def nth_append)

lemma tasks_ok_node_style:
  assumes "person_op operation"
  shows "tasks_ok w (awaited (cbToPromise (node_style operation) (idle w)))"
proof -
  let ?w0 = "w\<lparr>cells := cells w @ [Pending]\<rparr>"
  from assms have keeps: "\<And>w. cells (snd (operation w)) = cells w"
    by (simp add: person_op_def)
  obtain s w1 where a: "answered operation ?w0 = (s, w1)" by (cases "answered operation ?w0")
  from person_op_answered [OF assms, of ?w0] a
  have c: "cells w1 = cells w @ [Pending]" and s: "s \<noteq> Pending" and "task_step ?w0 w1"
    by simp_all
  then have t: "task_step w w1" by (simp add: task_step_cells_left)
  show ?thesis
  proof (cases s)
    case Pending
    with s show ?thesis by simp
  next
    case (Fulfilled v)
    with a c t show ?thesis
      by (simp add: awaited_node_style [OF keeps] tasks_ok_def settle_cells_only settle_new_cell)
  next
    case (Rejected e)
    with a c t show ?thesis
      by (cases "truthy e")
         (simp_all add: awaited_node_style [OF keeps] tasks_ok_def settle_cells_only settle_new_cell)
  qed
qed

lemma person_cb_node_style: "person_op operation \<Longrightarrow> person_cb (node_style operation)"
  by (simp add: person_cb_def tasks_ok_node_style)

lemma await_person_cb:
  assumes "person_cb fn"
      and "queue r = []"
      and "task_step w0 (state r)"
      and "\<And>v r'. queue r' = [] \<Longrightarrow> task_step w0 (state r') \<Longrightarrow> tasks_ok w0 (rest v r')"
  shows "tasks_ok w0 (awaiting (cbToPromise fn r) rest)"
proof -
  from assms(2) have r: "r = idle (state r)" by (simp add: idle_def)
  obtain p r1 where a: "awaited (cbToPromise fn (idle (state r))) = (p, r1)"
    by (cases "awaited (cbToPromise fn (idle (state r)))")
  from assms(1) a have p: "p \<noteq> Pending" and q: "queue r1 = []" and "task_step (state r) (state r1)"
    by (auto simp: person_cb_def tasks_ok_def dest: spec [of _ "state r"])
  with assms(3) have t: "task_step w0 (state r1)" by (blast intro: task_step_trans)
  have "awaiting (cbToPromise fn r) rest = resume (p, r1) rest"
    by (subst r) (simp add: awaiting_def a)
  moreover have "tasks_ok w0 (resume (p, r1) rest)"
  proof (cases p)
    case Pending
    with p show ?thesis by simp
  next
    case (Fulfilled v)
    with assms(4) [OF q t, of v] show ?thesis by (simp add: resume_def)
  next
    case (Rejected e)
    with q t show ?thesis by (simp add: resume_def tasks_ok_def)
  qed
  ultimately show ?thesis by simp
qed

lemma person_cb_createAndSavePerson: "person_cb createAndSavePerson"
  unfolding person_cb_def cbToPromise_createAndSavePerson
  by (intro allI tasks_ok_node_style person_op_save)

lemma person_cb_createManyPeople: "person_cb (createManyPeople arrayOfPeople)"
proof -
  have f: "createManyPeople arrayOfPeople = node_style (Model_create Person arrayOfPeople)"
    by (rule ext)+ (rule createManyPeople_node_style)
  show ?thesis unfolding f by (rule person_cb_node_style) (rule person_op_create)
qed

lemma person_cb_findPeopleByName: "person_cb (findPeopleByName personName)"
proof -
  have f: "findPeopleByName personName = node_style (exec (Model_find Person (Name_is personName)))"
    by (rule ext)+ (rule findPeopleByName_node_style)
  show ?thesis
    unfolding f
    by (rule person_cb_node_style) (simp add: person_op_exec Model_find_def Person_name)
qed

lemma person_cb_findOneByFood: "person_cb (findOneByFood food)"
proof -
  have f: "findOneByFood food = node_style (Model_findOne Person (Food_is food))"
    by (rule ext)+ (rule findOneByFood_node_style)
  show ?thesis unfolding f by (rule person_cb_node_style) (rule person_op_findOne)
qed

lemma person_cb_findPersonById: "person_cb (findPersonById personId)"
proof -
  have f: "findPersonById personId = node_style (Model_findById Person personId)"
    by (rule ext)+ (rule findPersonById_node_style)
  show ?thesis unfolding f by (rule person_cb_node_style) (rule person_op_findById)
qed

lemma person_cb_findAndUpdate: "person_cb (findAndUpdate personName)"
proof -
  have f: "findAndUpdate personName =
             node_style (Model_findOneAndUpdate Person (Name_is personName) (Set_age 20) True)"
    by (rule ext)+ (rule findAndUpdate_node_style)
  show ?thesis unfolding f by (rule person_cb_node_style) (rule person_op_findOneAndUpdate)
qed

lemma person_cb_removeById: "person_cb (removeById personId)"
proof -
  have f: "removeById personId = node_style (Model_findByIdAndRemove Person personId)"
    by (rule ext)+ (rule removeById_node_style)
  show ?thesis unfolding f by (rule person_cb_node_style) (rule person_op_findByIdAndRemove)
qed

lemma person_cb_removeManyPeople: "person_cb removeManyPeople"
proof -
  have f: "removeManyPeople = node_style (Model_deleteMany Person (Name_is ''Mary''))"
    by (rule ext)+ (rule removeManyPeople_node_style)
  show ?thesis unfolding f by (rule person_cb_node_style) (rule person_op_deleteMany)
qed

lemma person_cb_queryChain: "person_cb queryChain"
proof -
  have f: "queryChain =
     node_style (exec (select_q (limit_q (sort_q (Model_find Person (Food_is ''burritos''))
                                            Name_ascending) 2) Minus_age))"
    by (rule ext)+ (rule queryChain_node_style)
  show ?thesis
    unfolding f
    by (rule person_cb_node_style)
       (simp add: person_op_exec select_q_def limit_q_def sort_q_def Model_find_def Person_name)
qed

lemma person_cb_findEditThenSave: "person_cb (findEditThenSave personId)"
proof -
  have "\<And>w. tasks_ok w (awaited (cbToPromise (findEditThenSave personId) (idle w)))"
  proof -
    fix w :: world
    let ?w0 = "w\<lparr>cells := cells w @ [Pending]\<rparr>"
    let ?k = "length (cells w)"
    obtain s w1 where a: "answered (Model_findById Person personId) ?w0 = (s, w1)"
      by (cases "answered (Model_findById Person personId) ?w0")
    from person_op_answered [OF person_op_findById [of personId], of ?w0] a
    have c: "cells w1 = cells w @ [Pending]" and s: "s \<noteq> Pending" and "task_step ?w0 w1"
      by simp_all
    then have t: "task_step w w1" by (simp add: task_step_cells_left)
    have twice: "\<And>e v. state_of ?k (resolve ?k v (reject ?k e w1)) = Rejected e"
      using c by (simp add: resolve_def reject_def settle_def state_of_def nth_append)
    show "tasks_ok w (awaited (cbToPromise (findEditThenSave personId) (idle w)))"
    proof (cases s)
      case Pending
      with s show ?thesis by simp
    next
      case (Rejected e)
      with a c t show ?thesis
        by (cases "truthy e")
           (simp_all add: awaited_findEditThenSave tasks_ok_def settle_cells_only settle_new_cell
              Let_def)
    next
      case (Fulfilled v)
      show ?thesis
      proof (cases "truthy v")
        case False
        with a c t Fulfilled twice show ?thesis
          by (simp add: awaited_findEditThenSave tasks_ok_def settle_cells_only Let_def)
      next
        case True
        show ?thesis
        proof (cases v)
          case (Doc d)
          let ?d' = "d\<lparr>favoriteFoods := favoriteFoods d @ [''hamburger'']\<rparr>"
          obtain s2 w2 where sv: "answered (Document_save Person ?d') w1 = (s2, w2)"
            by (cases "answered (Document_save Person ?d') w1")
          from person_op_answered [OF person_op_save [of ?d'], of w1] sv
          have c2: "cells w2 = cells w1" and p2: "s2 \<noteq> Pending" and "task_step w1 w2"
            by simp_all
          with t have t2: "task_step w w2" by (blast intro: task_step_trans)
          from c c2 have c2': "cells w2 = cells w @ [Pending]" by simp
          show ?thesis
          proof (cases s2)
            case Pending
            with p2 show ?thesis by simp
          next
            case (Fulfilled v2)
            with a sv t2 c2' Doc \<open>s = Fulfilled v\<close> show ?thesis
              by (simp add: awaited_findEditThenSave tasks_ok_def settle_cells_only
                  settle_new_cell Let_def)
          next
            case (Rejected e2)
            with a sv t2 c2' Doc \<open>s = Fulfilled v\<close> show ?thesis
              by (cases "truthy e2")
                 (simp_all add: awaited_findEditThenSave tasks_ok_def settle_cells_only
                    settle_new_cell Let_def)
          qed
        qed (use a c t Fulfilled True in
              \<open>simp_all add: awaited_findEditThenSave tasks_ok_def settle_cells_only
                 settle_new_cell Let_def\<close>)
      qed
    qed
  qed
  then show ?thesis by (simp add: person_cb_def)
qed

lemma tasks_ok_settled:
  "queue r = [] \<Longrightarrow> task_step w (state r) \<Longrightarrow> tasks_ok w (Fulfilled v, r)"
  "queue r = [] \<Longrightarrow> task_step w (state r) \<Longrightarrow> tasks_ok w (Rejected e, r)"
  by (simp_all add: tasks_ok_def)

lemmas person_cb_ops = person_cb_createAndSavePerson person_cb_createManyPeople
  person_cb_findPeopleByName person_cb_findOneByFood person_cb_findPersonById
  person_cb_findEditThenSave person_cb_findAndUpdate person_cb_removeById
  person_cb_removeManyPeople person_cb_queryChain

lemma tasks_ok_sum:
  "(\<And>e. tasks_ok w (f e)) \<Longrightarrow> (\<And>y. tasks_ok w (g y)) \<Longrightarrow>
   tasks_ok w (case x of Inl e \<Rightarrow> f e | Inr y \<Rightarrow> g y)"
  by (cases x) simp_all

lemma runAllTasks_tasks_ok:
  assumes "queue r = []"
  shows "tasks_ok (state r) (runAllTasks r)"
  unfolding runAllTasks_def Let_def
  by (insert assms,
      (rule await_person_cb tasks_ok_sum tasks_ok_settled person_cb_ops task_step_console
         task_step_refl
         | assumption
         | simp only: queue_console)+)

section \<open>One schema, one model\<close>

text \<open>
  C7. The schema declares exactly the paths \<open>name\<close>, \<open>age\<close> and \<open>favoriteFoods\<close>, in this
  order: \<open>name\<close> a required String, \<open>age\<close> a Number, \<open>favoriteFoods\<close> an array of Strings
  whose default is the empty array; nothing else is required and nothing else has a
  default. The one model, \<open>Person\<close>, is made from this schema. In every run of
  \<open>runAllTasks\<close>, whatever fails, every call the script makes, and every answer it gets,
  is of an operation on the model named \<open>Person\<close>.
\<close>

theorem one_schema_one_model:
  "map fst personSchema = [''name'', ''age'', ''favoriteFoods'']
   \<and> map (path_type \<circ> snd) personSchema = [String_t, Number_t, Array_of String_t]
   \<and> map (required \<circ> snd) personSchema = [True, False, False]
   \<and> map (default_value \<circ> snd) personSchema = [None, None, Some (Strs [])]
   \<and> model_name Person = ''Person''
   \<and> model_schema Person = personSchema
   \<and> list_all person_event (new_events w (state (snd (runAllTasks (idle w)))))"
proof -
  from runAllTasks_tasks_ok [of "idle w"]
  have "list_all person_event (new_events w (state (snd (runAllTasks (idle w)))))"
    by (simp add: tasks_ok_def task_step_def)
  then show ?thesis by (simp add: personSchema_def Person_def)
qed

section \<open>The schema invariant\<close>

lemma person_op_schema:
  "person_op operation \<Longrightarrow> schema_ok w \<Longrightarrow> schema_ok (snd (answered operation w))"
  using person_op_answered(3) [of operation w] by (simp add: task_step_def)

text \<open>
  C10. A document whose required name is missing (unset or empty) is rejected by \<open>save\<close>
  with a validation error and nothing is stored; so is an input without a name given to
  \<open>create\<close>. A document constructed without \<open>favoriteFoods\<close> has the empty array. And
  when every document of the collection has its name, the same holds after \<open>save\<close>,
  after \<open>create\<close>, after \<open>findOneAndUpdate\<close> setting the age, and after \<open>runAllTasks\<close>,
  whatever fails on the way. That a name is a String, an age a Number and
  \<open>favoriteFoods\<close> an array of Strings is the typing of the document record.
\<close>

theorem schema_invariant:
  "(\<not> has_name d \<longrightarrow>
      fst (answered (Document_save Person d) w) =
        Rejected (Err ''Person validation failed: name: Path name is required.'') \<and>
      collection (snd (answered (Document_save Person d) w)) = collection w)
   \<and> (in_name inp = None \<longrightarrow>
      fst (answered (Model_create Person [inp]) w) =
        Rejected (Err ''Person validation failed: name: Path name is required.'') \<and>
      collection (snd (answered (Model_create Person [inp]) w)) = collection w)
   \<and> (in_favoriteFoods inp = None \<longrightarrow> favoriteFoods (new_doc Person inp w) = [])
   \<and> (schema_ok w \<longrightarrow>
        schema_ok (snd (answered (Document_save Person d) w)) \<and>
        schema_ok (snd (answered (Model_create Person inps) w)) \<and>
        schema_ok (snd (answered (Model_findOneAndUpdate Person c (Set_age n) new) w)) \<and>
        schema_ok (state (snd (runAllTasks (idle w)))))"
proof (intro conjI impI)
  assume "\<not> has_name d"
  then have v: "validate Person d = Some ''Person validation failed: name: Path name is required.''"
    by (simp add: validate_Person)
  show "fst (answered (Document_save Person d) w) =
          Rejected (Err ''Person validation failed: name: Path name is required.'')"
    by (simp add: answered_def Document_save_def v)
  show "collection (snd (answered (Document_save Person d) w)) = collection w"
    by (simp add: answered_def Document_save_def v emit_def)
next
  assume "in_name inp = None"
  then have "\<And>w'. \<not> has_name (new_doc Person inp w')"
    by (simp add: new_doc_def has_name_def default_of_def Person_def personSchema_def)
  then have v: "\<And>w'. validate Person (new_doc Person inp w') =
                  Some ''Person validation failed: name: Path name is required.''"
    by (simp add: validate_Person)
  show "fst (answered (Model_create Person [inp]) w) =
          Rejected (Err ''Person validation failed: name: Path name is required.'')"
    by (simp add: answered_create) (simp add: answered_def Document_save_def v)
  show "collection (snd (answered (Model_create Person [inp]) w)) = collection w"
    by (simp add: answered_create) (simp add: answered_def Document_save_def v emit_def)
next
  assume "in_favoriteFoods inp = None"
  then show "favoriteFoods (new_doc Person inp w) = []"
    by (simp add: new_doc_def default_of_def Person_def personSchema_def)
next
  assume ok: "schema_ok w"
  show "schema_ok (snd (answered (Document_save Person d) w))"
    using person_op_save ok by (rule person_op_schema)
  show "schema_ok (snd (answered (Model_create Person inps) w))"
    using person_op_create ok by (rule person_op_schema)
  show "schema_ok (snd (answered (Model_findOneAndUpdate Person c (Set_age n) new) w))"
    using person_op_findOneAndUpdate ok by (rule person_op_schema)
  from runAllTasks_tasks_ok [of "idle w"] ok
  show "schema_ok (state (snd (runAllTasks (idle w))))"
    by (simp add: tasks_ok_def task_step_def)
qed

text \<open>
  C10 at concrete inputs: a nameless document, a nameless input without foods, and a run
  from a collection of one valid document in which the third round trip fails.
\<close>

theorem schema_invariant_witness:
  "\<not> has_name \<lparr>doc_id = 9, name = None, age = Some 3, favoriteFoods = []\<rparr>
   \<and> fst (answered (Document_save Person \<lparr>doc_id = 9, name = None, age = Some 3, favoriteFoods = []\<rparr>)
             empty_world) =
       Rejected (Err ''Person validation failed: name: Path name is required.'')
   \<and> collection (snd (answered (Document_save Person
         \<lparr>doc_id = 9, name = None, age = Some 3, favoriteFoods = []\<rparr>) empty_world)) = []
   \<and> in_name \<lparr>in_name = None, in_age = Some 3, in_favoriteFoods = None\<rparr> = None
   \<and> collection (snd (answered (Model_create Person
         [\<lparr>in_name = None, in_age = Some 3, in_favoriteFoods = None\<rparr>]) empty_world)) = []
   \<and> favoriteFoods (new_doc Person \<lparr>in_name = None, in_age = Some 3, in_favoriteFoods = None\<rparr>
         empty_world) = []
   \<and> schema_ok (empty_world\<lparr>collection :=
         [\<lparr>doc_id = 4, name = Some ''Mary'', age = Some 61, favoriteFoods = [''burritos'']\<rparr>],
         faults := [None, None, Some ''down'']\<rparr>)
   \<and> schema_ok (state (snd (runAllTasks (idle (empty_world\<lparr>collection :=
         [\<lparr>doc_id = 4, name = Some ''Mary'', age = Some 61, favoriteFoods = [''burritos'']\<rparr>],
         faults := [None, None, Some ''down'']\<rparr>)))))"
proof -
  let ?d = "\<lparr>doc_id = 9, name = None, age = Some 3, favoriteFoods = []\<rparr>"
  let ?i = "\<lparr>in_name = None, in_age = Some 3, in_favoriteFoods = None\<rparr>"
  let ?w = "empty_world\<lparr>collection :=
         [\<lparr>doc_id = 4, name = Some ''Mary'', age = Some 61, favoriteFoods = [''burritos'']\<rparr>],
         faults := [None, None, Some ''down'']\<rparr>"
  have a: "\<not> has_name ?d" by (simp add: has_name_def)
  have b: "in_name ?i = None" by simp
  have c: "in_favoriteFoods ?i = None" by simp
  have e: "schema_ok ?w" by (simp add: schema_ok_def has_name_def empty_world_def)
  have z: "collection empty_world = []" by (simp add: empty_world_def)
  from schema_invariant [where d = ?d and w = empty_world and inp = ?i] a b c
  have 1: "fst (answered (Document_save Person ?d) empty_world) =
             Rejected (Err ''Person validation failed: name: Path name is required.'')"
    and 2: "collection (snd (answered (Document_save Person ?d) empty_world)) = collection empty_world"
    and 3: "collection (snd (answered (Model_create Person [?i]) empty_world)) = collection empty_world"
    and 4: "favoriteFoods (new_doc Person ?i empty_world) = []"
    by blast+
  from schema_invariant [where w = ?w] e
  have 5: "schema_ok (state (snd (runAllTasks (idle ?w))))" by blast
  from 2 z have c2: "collection (snd (answered (Document_save Person ?d) empty_world)) = []" by simp
  from 3 z have c3: "collection (snd (answered (Model_create Person [?i]) empty_world)) = []" by simp
  from a 1 c2 b c3 4 e 5 show ?thesis by (intro conjI)
qed

section \<open>Releasing the connection\<close>

lemma await_call:
  assumes "queue r = []"
  shows "await_p (in_world call r) =
           (fst (answered call (state r)), idle (snd (answered call (state r))))"
  using assms
  by (simp add: await_p_def in_world_split drained_def answered_def split: prod.split)






lemma server_create_succeeds:
  assumes "next_succeed (Suc 0) w"
  shows "answered MongoMemoryServer_create w =
           (Fulfilled (Str memory_uri),
            w\<lparr>faults := tl (faults w),
              trace := trace w @ [Called Server_create, Answered Server_create None],
              server_up := True\<rparr>)"
  unfolding MongoMemoryServer_create_def [abs_def]
  by (simp add: round_trip_succeeds [OF assms])


lemma start_in_memory:
  assumes "MONGO_URI = None \<or> MONGO_URI = Some []"
      and "next_succeed (Suc 0) w"
  shows "start MONGO_URI (idle w) =
     (Fulfilled Undefined,
      snd (connect_and_run memory_uri (Str memory_uri)
             (idle (w\<lparr>faults := tl (faults w),
                      trace := trace w @
                        [Console_log [Str ''MONGO_URI not set. Starting in-memory MongoDB...''],
                         Called Server_create, Answered Server_create None],
                      server_up := True\<rparr>))))"
proof -
  let ?w0 = "w\<lparr>trace := trace w @
                 [Console_log [Str ''MONGO_URI not set. Starting in-memory MongoDB...'']]\<rparr>"
  have ok: "next_succeed (Suc 0) ?w0" using assms(2) by (simp add: next_succeed_def)
  have "resume (await_p (in_world MongoMemoryServer_create
                  (console_log [Str ''MONGO_URI not set. Starting in-memory MongoDB...''] (idle w))))
          (\<lambda>mongod r'. (Fulfilled Undefined, snd (connect_and_run (getUri mongod) mongod r'))) =
     (Fulfilled Undefined,
      snd (connect_and_run memory_uri (Str memory_uri)
             (idle (w\<lparr>faults := tl (faults w),
                      trace := trace w @
                        [Console_log [Str ''MONGO_URI not set. Starting in-memory MongoDB...''],
                         Called Server_create, Answered Server_create None],
                      server_up := True\<rparr>))))"
    by (simp add: console_idle await_call server_create_succeeds [OF ok] resume_def emit_def)
  with assms(1) show ?thesis by (auto simp add: start_def)
qed




text \<open>A run in which the save of the first task is scripted to fail.\<close>

lemma runAllTasks_first_save_fails:
  \<open>runAllTasks (idle \<lparr>collection = [], faults = Some ''save failed'' # fs, cells = [],
                       trace = t, connected = c, server_up = s\<rparr>) =
     (Rejected (Err ''save failed''),
      idle \<lparr>collection = [], faults = fs, cells = [Rejected (Err ''save failed'')],
            trace = t @
              [Console_log [Str ''\<newline>---- Running Mongoose tasks ----\<newline>''],
               Called (On_model ''Person'' (Save \<lparr>doc_id = Suc 0, name = Some ''Charlie'', age = Some 40, favoriteFoods = [''sandwich'']\<rparr>)),
               Answered (On_model ''Person'' (Save \<lparr>doc_id = Suc 0, name = Some ''Charlie'', age = Some 40, favoriteFoods = [''sandwich'']\<rparr>)) (Some ''save failed'')],
            connected = c, server_up = s\<rparr>)\<close>
proof -
  have first: \<open>awaited (cbToPromise createAndSavePerson
          (console_log [Str ''\<newline>---- Running Mongoose tasks ----\<newline>'']
             (idle \<lparr>collection = [], faults = Some ''save failed'' # fs, cells = [],
                       trace = t, connected = c, server_up = s\<rparr>))) =
     (Rejected (Err ''save failed''),
      idle \<lparr>collection = [], faults = fs, cells = [Rejected (Err ''save failed'')],
            trace = t @
              [Console_log [Str ''\<newline>---- Running Mongoose tasks ----\<newline>''],
               Called (On_model ''Person'' (Save \<lparr>doc_id = Suc 0, name = Some ''Charlie'', age = Some 40, favoriteFoods = [''sandwich'']\<rparr>)),
               Answered (On_model ''Person'' (Save \<lparr>doc_id = Suc 0, name = Some ''Charlie'', age = Some 40, favoriteFoods = [''sandwich'']\<rparr>)) (Some ''save failed'')],
            connected = c, server_up = s\<rparr>)\<close>
    by (simp add: createAndSavePerson_def promise_defs loop_defs lib_defs then_p_def catch_p_def
          console_log_def Let_def fresh_id_Nil Person_name validate_Person new_doc_def has_name_def)
  show ?thesis
    unfolding runAllTasks_def awaiting_def first by (simp add: resume_def)
qed


text \<open>
  What the code does when the close itself is rejected, here after the failed save:
  \<^verbatim>\<open>mongod.stop()\<close> is not reached, \<^verbatim>\<open>'Connection closed.'\<close> is not printed, and the rejection
  of the handler goes to the \<^verbatim>\<open>.catch\<close> of the chain.
\<close>

lemma start_close_rejected:
  \<open>start None (idle (empty_world\<lparr>faults := [None, None, Some ''save failed'', Some ''close failed'']\<rparr>)) =
       (Fulfilled Undefined,
        idle
        \<lparr>collection = [], faults = [], cells = [Rejected (Err ''save failed'')],
         trace = [Console_log [Str ''MONGO_URI not set. Starting in-memory MongoDB...''],
                  Called Server_create, Answered Server_create None,
                  Called (Connect memory_uri), Answered (Connect memory_uri) None,
                  Console_log [Str ''Successfully connected to MongoDB''],
                  Console_log [Str ''\<newline>---- Running Mongoose tasks ----\<newline>''],
                  Called (On_model ''Person'' (Save \<lparr>doc_id = Suc 0, name = Some ''Charlie'', age = Some 40, favoriteFoods = [''sandwich'']\<rparr>)),
                  Answered (On_model ''Person'' (Save \<lparr>doc_id = Suc 0, name = Some ''Charlie'', age = Some 40, favoriteFoods = [''sandwich'']\<rparr>)) (Some ''save failed''),
                  Console_error [Str ''Error running tasks:'', Err ''save failed''],
                  Called Close, Answered Close (Some ''close failed''),
                  Console_error [Str ''MongoDB connection error:'', Err ''close failed'']],
         connected = True, server_up = True\<rparr>)\<close>
proof -
  have boot: "next_succeed (Suc 0) (empty_world\<lparr>faults := [None, None, Some ''save failed'', Some ''close failed'']\<rparr>)"
    by (simp add: next_succeed_def empty_world_def)
  show ?thesis
    unfolding start_in_memory [OF disjI1 [OF refl] boot]
    by (simp add: connect_and_run_def on_connected_def finally_block_def await_call console_idle
          mongoose_connect_def connection_close_def mongod_stop_def lib_defs resume_def
          empty_world_def runAllTasks_first_save_fails memory_uri_def Let_def)
qed



end
